theory Spec2Isabelle
  imports Complex_Main "HOL-Library.Sublist"
begin

section \<open>Conversation history (voice-session/index.ts, voice-session/types.ts)\<close>

datatype Role = user | assistant

record ConversationMessage =
  role :: Role
  content :: string

definition MAX_CONVERSATION_MESSAGES :: nat where
  "MAX_CONVERSATION_MESSAGES = 100"

text \<open>
  \<^verbatim>\<open>Array.prototype.slice(-k)\<close> for \<open>k > 0\<close>: the last \<open>k\<close> elements, the whole array
  when it is shorter than \<open>k\<close>.
\<close>

definition slice_last :: "nat \<Rightarrow> 'a list \<Rightarrow> 'a list" where
  "slice_last k xs = drop (length xs - k) xs"

text \<open>
  \<^verbatim>\<open>addToConversationHistory(role, content)\<close>: push, then keep the last
  \<open>MAX_CONVERSATION_MESSAGES\<close> entries when the array has grown past that bound.
\<close>

definition addToConversationHistory ::
  "Role \<Rightarrow> string \<Rightarrow> ConversationMessage list \<Rightarrow> ConversationMessage list" where
  "addToConversationHistory r c conversationHistory =
     (let pushed = conversationHistory @ [\<lparr>role = r, content = c\<rparr>]
      in if length pushed > MAX_CONVERSATION_MESSAGES
         then slice_last MAX_CONVERSATION_MESSAGES pushed
         else pushed)"

section \<open>Errors\<close>

text \<open>
  A JavaScript \<^verbatim>\<open>Error\<close> as far as this code reads it: \<^verbatim>\<open>message\<close>, \<^verbatim>\<open>name\<close> and
  the optional \<^verbatim>\<open>code\<close> (the empty string when absent, as \<^verbatim>\<open>(error as any).code || ''\<close>
  reads it).
\<close>

record Error =
  message :: string
  name :: string
  code :: string

text \<open>What an asynchronous call can throw: an \<^verbatim>\<open>Error\<close>, or \<^verbatim>\<open>null\<close> (\<open>None\<close>).\<close>

type_synonym thrown = "Error option"

section \<open>Circuit breaker (utils/circuit-breaker.ts)\<close>

datatype CircuitState = CLOSED | OPEN | HALF_OPEN

record CircuitBreakerOptions =
  circuitName :: string
  failureThreshold :: int
  successThreshold :: int
  timeout :: int

text \<open>
  The fields of the class; \<open>stateChanges\<close> records, in order, every transition that
  \<^verbatim>\<open>transitionTo\<close> reports through \<^verbatim>\<open>onStateChange\<close> and the console.
\<close>

record CircuitBreaker =
  state :: CircuitState
  failures :: int
  successes :: int
  lastFailureTime :: int
  options :: CircuitBreakerOptions
  stateChanges :: "(CircuitState \<times> CircuitState) list"

definition new_CircuitBreaker :: "CircuitBreakerOptions \<Rightarrow> CircuitBreaker" where
  "new_CircuitBreaker opts =
     \<lparr>state = CLOSED, failures = 0, successes = 0, lastFailureTime = 0,
      options = opts, stateChanges = []\<rparr>"

definition CircuitOpenError :: "string \<Rightarrow> Error" where
  "CircuitOpenError cname =
     \<lparr>message = ''Circuit breaker '' @ [CHR 0x27] @ cname @ [CHR 0x27]
                  @ '' is OPEN - service unavailable'',
      name = ''CircuitOpenError'', code = ''''\<rparr>"

definition transitionTo :: "CircuitState \<Rightarrow> CircuitBreaker \<Rightarrow> CircuitBreaker" where
  "transitionTo newState cb =
     (if state cb \<noteq> newState
      then cb\<lparr>state := newState, stateChanges := stateChanges cb @ [(state cb, newState)]\<rparr>
      else cb)"

definition shouldAttemptReset :: "int \<Rightarrow> CircuitBreaker \<Rightarrow> bool" where
  "shouldAttemptReset now cb \<longleftrightarrow> now - lastFailureTime cb \<ge> timeout (options cb)"

definition onSuccess :: "CircuitBreaker \<Rightarrow> CircuitBreaker" where
  "onSuccess cb =
     (let cb1 = cb\<lparr>failures := 0\<rparr>
      in if state cb1 = HALF_OPEN
         then (let cb2 = cb1\<lparr>successes := successes cb1 + 1\<rparr>
               in if successes cb2 \<ge> successThreshold (options cb2)
                  then (transitionTo CLOSED cb2)\<lparr>successes := 0\<rparr>
                  else cb2)
         else cb1)"

definition onFailure :: "int \<Rightarrow> CircuitBreaker \<Rightarrow> CircuitBreaker" where
  "onFailure now cb =
     (let cb1 = cb\<lparr>failures := failures cb + 1, lastFailureTime := now\<rparr>
      in if state cb1 = HALF_OPEN
         then (transitionTo OPEN cb1)\<lparr>successes := 0\<rparr>
         else if failures cb1 \<ge> failureThreshold (options cb1)
         then transitionTo OPEN cb1
         else cb1)"

text \<open>
  \<^verbatim>\<open>execute(fn)\<close>. The wrapped asynchronous function is a transformer of the world
  \<open>'w\<close> outside the breaker that returns its value (\<open>Inr\<close>) or the error it throws
  (\<open>Inl\<close>); \<open>clock\<close> reads \<^verbatim>\<open>Date.now()\<close> from the world, once on entry and once
  more in \<^verbatim>\<open>onFailure\<close> after the function has failed.
\<close>

definition execute ::
  "('w \<Rightarrow> int) \<Rightarrow> ('w \<Rightarrow> (thrown + 'a) \<times> 'w) \<Rightarrow> CircuitBreaker \<times> 'w
     \<Rightarrow> (thrown + 'a) \<times> CircuitBreaker \<times> 'w" where
  "execute clock fn cw =
     (let cb = fst cw; w = snd cw;
          cb1 = (if state cb = OPEN \<and> shouldAttemptReset (clock w) cb
                 then (transitionTo HALF_OPEN cb)\<lparr>successes := 0\<rparr>
                 else cb)
      in if state cb1 = OPEN
         then (Inl (Some (CircuitOpenError (circuitName (options cb1)))), cb1, w)
         else (case fn w of
                 (Inr result, w') \<Rightarrow> (Inr result, onSuccess cb1, w')
               | (Inl error, w') \<Rightarrow> (Inl error, onFailure (clock w') cb1, w')))"

text \<open>
  A caller issuing one \<^verbatim>\<open>execute\<close> after another, each awaited before the next. A
  call is the wrapped function together with what happens to the world before the call
  is made (time passes); the results of the calls are returned in order.
\<close>

type_synonym ('w, 'a) call = "('w \<Rightarrow> 'w) \<times> ('w \<Rightarrow> (thrown + 'a) \<times> 'w)"


subsection \<open>The circuit as the specification describes it\<close>

text \<open>
  The state machine of the circuit in the words of the specification. \<open>Closed k\<close>: calls
  pass through and the last \<open>k\<close> of them failed, one after the other. \<open>Open ts\<close>: the
  failure recorded at the time \<open>ts\<close> opened the circuit. \<open>HalfOpen k\<close>: trial calls are
  let through and \<open>k\<close> of them have succeeded, one after the other.
\<close>

datatype Circuit = Closed nat | Open int | HalfOpen nat








subsection \<open>A concrete breaker and a sequence of calls\<close>







section \<open>Retry with exponential backoff (utils/retry.ts)\<close>

text \<open>
  \<^verbatim>\<open>String.prototype.toLowerCase\<close> on the ASCII letters; strings are byte lists here,
  so characters outside ASCII are left as they are.
\<close>

definition toLowerCase_char :: "char \<Rightarrow> char" where
  "toLowerCase_char c =
     (case map_of (zip ''ABCDEFGHIJKLMNOPQRSTUVWXYZ'' ''abcdefghijklmnopqrstuvwxyz'') c of
        Some l \<Rightarrow> l
      | None \<Rightarrow> c)"

definition toLowerCase :: "string \<Rightarrow> string" where
  "toLowerCase s = map toLowerCase_char s"

text \<open>\<^verbatim>\<open>haystack.includes(needle)\<close>: the needle occurs as a contiguous substring.\<close>

definition str_includes :: "string \<Rightarrow> string \<Rightarrow> bool" where
  "str_includes haystack needle \<longleftrightarrow> sublist needle haystack"

text \<open>
  The options after the defaults have been merged in. \<open>retryableErrors\<close> is optional
  (\<open>None\<close> is \<^verbatim>\<open>undefined\<close>); \<open>onRetry\<close> is optional and acts on the world.
\<close>

record 'w RetryOptions =
  maxRetries :: int
  baseDelayMs :: real
  maxDelayMs :: real
  backoffMultiplier :: real
  retryableErrors :: "string list option"
  onRetry :: "(int \<Rightarrow> Error \<Rightarrow> real \<Rightarrow> 'w \<Rightarrow> 'w) option"

definition DEFAULT_retryableErrors :: "string list" where
  "DEFAULT_retryableErrors =
     [''ECONNRESET'', ''ETIMEDOUT'', ''ECONNREFUSED'', ''EPIPE'', ''EHOSTUNREACH'',
      ''EAI_AGAIN'', ''socket hang up'', ''network error'', ''timeout'',
      ''429'', ''502'', ''503'', ''504'']"

definition DEFAULT_RetryOptions :: "'w RetryOptions" where
  "DEFAULT_RetryOptions =
     \<lparr>maxRetries = 3, baseDelayMs = 500, maxDelayMs = 10000, backoffMultiplier = 2,
      retryableErrors = Some DEFAULT_retryableErrors, onRetry = None\<rparr>"

definition isRetryable :: "Error \<Rightarrow> string list \<Rightarrow> bool" where
  "isRetryable error retryables =
     (let errorString = toLowerCase (message error @ '' '' @ name error @ '' '' @ code error)
      in list_ex (\<lambda>retryable. str_includes errorString (toLowerCase retryable)) retryables)"

text \<open>
  \<^verbatim>\<open>calculateDelay(attempt, options)\<close>, over the reals instead of IEEE doubles; \<open>rnd\<close>
  is the value \<^verbatim>\<open>Math.random()\<close> returned, a number in \<open>[0, 1)\<close>.
\<close>

definition calculateDelay :: "nat \<Rightarrow> 'w RetryOptions \<Rightarrow> real \<Rightarrow> real" where
  "calculateDelay attempt opts rnd =
     (let exponentialDelay = baseDelayMs opts * backoffMultiplier opts ^ attempt;
          jitter = rnd * 0.3 * exponentialDelay
      in min (exponentialDelay + jitter) (maxDelayMs opts))"

text \<open>\<^verbatim>\<open>opts.retryableErrors || []\<close>.\<close>

definition retryables :: "'w RetryOptions \<Rightarrow> string list" where
  "retryables opts = (case retryableErrors opts of Some l \<Rightarrow> l | None \<Rightarrow> [])"

text \<open>
  What the loop needs from its surroundings: \<^verbatim>\<open>Math.random()\<close> and \<^verbatim>\<open>sleep(ms)\<close>, both
  acting on the world.
\<close>

record 'w RetryEnv =
  random :: "'w \<Rightarrow> real \<times> 'w"
  sleep :: "real \<Rightarrow> 'w \<Rightarrow> 'w"

text \<open>
  The \<^verbatim>\<open>for\<close> loop of \<^verbatim>\<open>withRetry\<close>, from the iteration \<open>attempt\<close> on. The function
  throws \<^verbatim>\<open>lastError\<close>, of type \<^verbatim>\<open>Error | null\<close>: \<open>Inl None\<close> is \<^verbatim>\<open>throw null\<close>, which
  happens when the loop body never runs.
\<close>

function withRetry_loop ::
  "'w RetryEnv \<Rightarrow> ('w \<Rightarrow> (Error + 'a) \<times> 'w) \<Rightarrow> 'w RetryOptions \<Rightarrow> int \<Rightarrow> Error option
     \<Rightarrow> 'w \<Rightarrow> (Error option + 'a) \<times> 'w" where
  "withRetry_loop env fn opts attempt lastError w =
     (if 0 \<le> attempt \<and> attempt \<le> maxRetries opts
      then (case fn w of
              (Inr result, w1) \<Rightarrow> (Inr result, w1)
            | (Inl error, w1) \<Rightarrow>
                if attempt = maxRetries opts then (Inl (Some error), w1)
                else if \<not> isRetryable error (retryables opts)
                then (Inl (Some error), w1)
                else (let (rnd, w2) = random env w1;
                          delayMs = calculateDelay (nat attempt) opts rnd;
                          w3 = (case onRetry opts of
                                  Some f \<Rightarrow> f (attempt + 1) error delayMs w2
                                | None \<Rightarrow> w2);
                          w4 = sleep env delayMs w3
                      in withRetry_loop env fn opts (attempt + 1) (Some error) w4))
      else (Inl lastError, w))"
  by pat_completeness auto
termination
  by (relation "measure (\<lambda>(env, fn, opts, attempt, lastError, w). nat (maxRetries opts + 1 - attempt))")
     auto

definition withRetry ::
  "'w RetryEnv \<Rightarrow> ('w \<Rightarrow> (Error + 'a) \<times> 'w) \<Rightarrow> 'w RetryOptions
     \<Rightarrow> 'w \<Rightarrow> (Error option + 'a) \<times> 'w" where
  "withRetry env fn opts w = withRetry_loop env fn opts 0 None w"

subsection \<open>A wrapped function given by its successive outcomes\<close>







section \<open>Default options and the overrides of the callers\<close>

text \<open>
  \<^verbatim>\<open>Partial<RetryOptions>\<close>: each key is present (\<open>Some\<close>) or absent (\<open>None\<close>);
  \<^verbatim>\<open>{ ...DEFAULT_OPTIONS, ...options }\<close> takes every present key from the caller and the
  rest from the defaults.
\<close>

record 'w PartialRetryOptions =
  opt_maxRetries :: "int option"
  opt_baseDelayMs :: "real option"
  opt_maxDelayMs :: "real option"
  opt_backoffMultiplier :: "real option"
  opt_retryableErrors :: "string list option"
  opt_onRetry :: "(int \<Rightarrow> Error \<Rightarrow> real \<Rightarrow> 'w \<Rightarrow> 'w) option"

definition no_retry_overrides :: "'w PartialRetryOptions" where
  "no_retry_overrides =
     \<lparr>opt_maxRetries = None, opt_baseDelayMs = None, opt_maxDelayMs = None,
      opt_backoffMultiplier = None, opt_retryableErrors = None, opt_onRetry = None\<rparr>"

definition merge_RetryOptions :: "'w PartialRetryOptions \<Rightarrow> 'w RetryOptions" where
  "merge_RetryOptions p =
     \<lparr>maxRetries = (case opt_maxRetries p of Some v \<Rightarrow> v
                     | None \<Rightarrow> maxRetries (DEFAULT_RetryOptions :: 'w RetryOptions)),
      baseDelayMs = (case opt_baseDelayMs p of Some v \<Rightarrow> v
                     | None \<Rightarrow> baseDelayMs (DEFAULT_RetryOptions :: 'w RetryOptions)),
      maxDelayMs = (case opt_maxDelayMs p of Some v \<Rightarrow> v
                    | None \<Rightarrow> maxDelayMs (DEFAULT_RetryOptions :: 'w RetryOptions)),
      backoffMultiplier = (case opt_backoffMultiplier p of Some v \<Rightarrow> v
                           | None \<Rightarrow> backoffMultiplier (DEFAULT_RetryOptions :: 'w RetryOptions)),
      retryableErrors = (case opt_retryableErrors p of Some v \<Rightarrow> Some v
                         | None \<Rightarrow> retryableErrors (DEFAULT_RetryOptions :: 'w RetryOptions)),
      onRetry = (case opt_onRetry p of Some v \<Rightarrow> Some v
                 | None \<Rightarrow> onRetry (DEFAULT_RetryOptions :: 'w RetryOptions))\<rparr>"

text \<open>
  The overrides \<^verbatim>\<open>streamLLMResponse\<close> passes to \<^verbatim>\<open>withRetry\<close> (openai.ts); its
  \<^verbatim>\<open>onRetry\<close> only writes to the console.
\<close>

definition openai_retryableErrors :: "string list" where
  "openai_retryableErrors =
     [''429'', ''500'', ''502'', ''503'', ''504'', ''timeout'', ''ECONNRESET'']"

definition openai_retry_overrides :: "'w PartialRetryOptions" where
  "openai_retry_overrides =
     \<lparr>opt_maxRetries = Some 2, opt_baseDelayMs = Some 500, opt_maxDelayMs = None,
      opt_backoffMultiplier = None,
      opt_retryableErrors = Some openai_retryableErrors,
      opt_onRetry = Some (\<lambda>attempt error delayMs w. w)\<rparr>"

text \<open>
  \<^verbatim>\<open>Partial<CircuitBreakerOptions>\<close> without the name, the breaker defaults, and
  \<^verbatim>\<open>getCircuitBreaker(name, options)\<close> on the registry of breakers: an existing breaker
  is returned as it is, a new one gets \<^verbatim>\<open>{ name, ...DEFAULT_OPTIONS, ...options }\<close>.
\<close>

record PartialCircuitBreakerOptions =
  opt_failureThreshold :: "int option"
  opt_successThreshold :: "int option"
  opt_timeout :: "int option"

definition DEFAULT_failureThreshold :: int where "DEFAULT_failureThreshold = 5"
definition DEFAULT_successThreshold :: int where "DEFAULT_successThreshold = 2"
definition DEFAULT_timeout :: int where "DEFAULT_timeout = 30000"

definition no_circuit_overrides :: PartialCircuitBreakerOptions where
  "no_circuit_overrides =
     \<lparr>opt_failureThreshold = None, opt_successThreshold = None, opt_timeout = None\<rparr>"

definition merge_CircuitBreakerOptions ::
  "string \<Rightarrow> PartialCircuitBreakerOptions \<Rightarrow> CircuitBreakerOptions" where
  "merge_CircuitBreakerOptions cname p =
     \<lparr>circuitName = cname,
      failureThreshold = (case opt_failureThreshold p of Some v \<Rightarrow> v
                          | None \<Rightarrow> DEFAULT_failureThreshold),
      successThreshold = (case opt_successThreshold p of Some v \<Rightarrow> v
                          | None \<Rightarrow> DEFAULT_successThreshold),
      timeout = (case opt_timeout p of Some v \<Rightarrow> v | None \<Rightarrow> DEFAULT_timeout)\<rparr>"

definition getCircuitBreaker ::
  "string \<Rightarrow> PartialCircuitBreakerOptions \<Rightarrow> (string \<rightharpoonup> CircuitBreaker)
     \<Rightarrow> CircuitBreaker \<times> (string \<rightharpoonup> CircuitBreaker)" where
  "getCircuitBreaker cname p circuits =
     (case circuits cname of
        Some cb \<Rightarrow> (cb, circuits)
      | None \<Rightarrow>
          (let cb = new_CircuitBreaker (merge_CircuitBreakerOptions cname p)
           in (cb, circuits(cname \<mapsto> cb))))"

text \<open>The overrides of the OpenAI adapter (openai.ts).\<close>

definition openai_circuit_overrides :: PartialCircuitBreakerOptions where
  "openai_circuit_overrides =
     \<lparr>opt_failureThreshold = Some 3, opt_successThreshold = Some 2, opt_timeout = Some 30000\<rparr>"

text \<open>The overrides of the Deepgram and ElevenLabs adapters (deepgram.ts, elevenlabs.ts).\<close>

definition deepgram_circuit_overrides :: PartialCircuitBreakerOptions where
  "deepgram_circuit_overrides =
     \<lparr>opt_failureThreshold = Some 3, opt_successThreshold = Some 2, opt_timeout = Some 30000\<rparr>"

definition elevenlabs_circuit_overrides :: PartialCircuitBreakerOptions where
  "elevenlabs_circuit_overrides =
     \<lparr>opt_failureThreshold = Some 3, opt_successThreshold = Some 2, opt_timeout = Some 60000\<rparr>"

definition deepgram_retry_overrides :: "'w PartialRetryOptions" where
  "deepgram_retry_overrides =
     \<lparr>opt_maxRetries = Some 2, opt_baseDelayMs = Some 500, opt_maxDelayMs = None,
      opt_backoffMultiplier = None, opt_retryableErrors = None,
      opt_onRetry = Some (\<lambda>attempt error delayMs w. w)\<rparr>"

definition elevenlabs_retry_overrides :: "'w PartialRetryOptions" where
  "elevenlabs_retry_overrides =
     \<lparr>opt_maxRetries = Some 2, opt_baseDelayMs = Some 1000, opt_maxDelayMs = None,
      opt_backoffMultiplier = None, opt_retryableErrors = None,
      opt_onRetry = Some (\<lambda>attempt error delayMs w. w)\<rparr>"

subsection \<open>Three wrapped functions, by the outcomes of their calls\<close>




section \<open>Streaming generation (openai.ts)\<close>

definition STREAM_TIMEOUT_MS :: int where
  "STREAM_TIMEOUT_MS = 30000"

record Usage =
  prompt_tokens :: nat
  completion_tokens :: nat
  total_tokens :: nat

text \<open>
  A chunk of the completion stream, as the loop reads it: \<open>delta\<close> is
  \<^verbatim>\<open>chunk.choices[0]?.delta?.content || ''\<close> and \<open>chunk_usage\<close> is \<^verbatim>\<open>chunk.usage\<close>.
\<close>

record Chunk =
  delta :: string
  chunk_usage :: "Usage option"

datatype StreamEnd = Completed | Threw Error

text \<open>
  What the OpenAI client and service do with one request. Were it never aborted: chunks,
  each with its arrival time in ms after the request, and an end (the stream is
  exhausted, or the request or the iteration throws) at \<open>ends_at\<close> ms. And \<open>on_abort\<close>,
  what the client does to its consumer when the signal it was given is aborted while
  the request is still running: the iteration ends as if the stream were exhausted, or an
  error is thrown. The client is not part of this repository, so its reaction to the
  abort is given with the attempt and nothing is assumed about it.
\<close>

record Attempt =
  chunks :: "(int \<times> Chunk) list"
  ends_at :: int
  ending :: StreamEnd
  on_abort :: StreamEnd

text \<open>
  What \<^verbatim>\<open>streamLLMWithTracking\<close> sees of an attempt: its timer aborts the signal \<open>limit\<close>
  ms after the request was made. A stream that has ended before that is seen whole;
  otherwise the chunks that arrived before the abort are seen, and then what the client
  does on abort.
\<close>

definition observed :: "int \<Rightarrow> Attempt \<Rightarrow> Chunk list \<times> StreamEnd \<times> int" where
  "observed limit a =
     (if ends_at a < limit
      then (map snd (chunks a), ending a, ends_at a)
      else (map snd (filter (\<lambda>tc. fst tc < limit) (chunks a)), on_abort a, limit))"

text \<open>
  \<^verbatim>\<open>StreamLLMConfig\<close>; the two callbacks act on the state \<open>'c\<close> of the caller, and
  \<^verbatim>\<open>onDone\<close> is given the time at which it is called, since it may arm timers.
\<close>

record 'c StreamLLMConfig =
  sessionId :: "string option"
  systemPrompt :: string
  messages :: "ConversationMessage list"
  onToken :: "string \<Rightarrow> 'c \<Rightarrow> 'c"
  onDone :: "int \<Rightarrow> Usage option \<Rightarrow> 'c \<Rightarrow> 'c"

text \<open>
  The world of a generation call: the clock, the number of requests made to the service
  and of random numbers drawn, the calls of \<^verbatim>\<open>costTracker.trackOpenAI\<close> (session id,
  input tokens, output tokens), and the state of the caller.
\<close>

record 'c LLMWorld =
  wall_clock :: int
  requests :: nat
  rolls :: nat
  tracked :: "(string \<times> nat \<times> nat) list"
  caller :: 'c

text \<open>\<^verbatim>\<open>Array.prototype.join(' ')\<close>.\<close>

fun join_space :: "string list \<Rightarrow> string" where
  "join_space [] = ''''"
| "join_space [s] = s"
| "join_space (s # t # ss) = s @ '' '' @ join_space (t # ss)"

text \<open>One iteration of the \<^verbatim>\<open>for await\<close> loop, on (caller state, outputTokens, usage).\<close>

definition consume_chunk ::
  "'c StreamLLMConfig \<Rightarrow> 'c \<times> nat \<times> Usage option \<Rightarrow> Chunk \<Rightarrow> 'c \<times> nat \<times> Usage option" where
  "consume_chunk config acc chunk =
     (let c = fst acc; outputTokens = fst (snd acc); usage = snd (snd acc);
          token = delta chunk;
          c1 = (if token \<noteq> [] then onToken config token c else c);
          outputTokens1 = (if token \<noteq> [] then outputTokens + 1 else outputTokens);
          usage1 = (case chunk_usage chunk of Some u \<Rightarrow> Some u | None \<Rightarrow> usage)
      in (c1, outputTokens1, usage1))"

definition timeout_error :: Error where
  "timeout_error = \<lparr>message = ''LLM response timeout'', name = ''Error'', code = ''''\<rparr>"

text \<open>
  \<^verbatim>\<open>streamLLMWithTracking(config, sessionId)\<close>; \<open>sdk i\<close> is what the service does with
  the \<open>i\<close>-th request. \<^verbatim>\<open>a || b\<close> on numbers takes \<open>b\<close> when \<open>a\<close> is 0 or absent.
\<close>

definition streamLLMWithTracking ::
  "(nat \<Rightarrow> Attempt) \<Rightarrow> 'c StreamLLMConfig \<Rightarrow> string \<Rightarrow> 'c LLMWorld
     \<Rightarrow> (Error + unit) \<times> 'c LLMWorld" where
  "streamLLMWithTracking sdk config sid w =
     (let inputText = systemPrompt config @ join_space (map content (messages config));
          estimatedInputTokens = (length inputText + 3) div 4;
          seen = observed STREAM_TIMEOUT_MS (sdk (requests w));
          w0 = w\<lparr>requests := Suc (requests w), wall_clock := wall_clock w + snd (snd seen)\<rparr>;
          looped = foldl (consume_chunk config) (caller w0, 0, None) (fst seen);
          outputTokens = fst (snd looped); usage = snd (snd looped);
          w1 = w0\<lparr>caller := fst looped\<rparr>
      in case fst (snd seen) of
           Completed \<Rightarrow>
             (let finalInputTokens =
                    (case usage of
                       Some u \<Rightarrow> if prompt_tokens u \<noteq> 0 then prompt_tokens u
                                 else estimatedInputTokens
                     | None \<Rightarrow> estimatedInputTokens);
                  finalOutputTokens =
                    (case usage of
                       Some u \<Rightarrow> if completion_tokens u \<noteq> 0 then completion_tokens u
                                 else outputTokens
                     | None \<Rightarrow> outputTokens);
                  w2 = w1\<lparr>tracked := tracked w1 @ [(sid, finalInputTokens, finalOutputTokens)]\<rparr>
              in (Inr (), w2\<lparr>caller := onDone config (wall_clock w2) usage (caller w2)\<rparr>))
         | Threw error \<Rightarrow>
             if name error = ''AbortError'' then (Inl timeout_error, w1)
             else (Inl error, w1))"

text \<open>
  \<^verbatim>\<open>Math.random()\<close> and \<^verbatim>\<open>sleep\<close> in this world: \<open>draw i\<close> is the \<open>i\<close>-th random
  number, and sleeping advances the clock by the whole milliseconds of the delay.
\<close>

definition llm_env :: "(nat \<Rightarrow> real) \<Rightarrow> 'c LLMWorld RetryEnv" where
  "llm_env draw =
     \<lparr>random = (\<lambda>w. (draw (rolls w), w\<lparr>rolls := Suc (rolls w)\<rparr>)),
      sleep = (\<lambda>ms w. w\<lparr>wall_clock := wall_clock w + \<lfloor>ms\<rfloor>\<rparr>)\<rparr>"

text \<open>
  \<^verbatim>\<open>streamLLMResponse(config)\<close>: the retry wrapper inside the breaker \<^verbatim>\<open>openaiCircuit\<close>,
  which is passed in and returned with the world.
\<close>

definition streamLLMResponse ::
  "(nat \<Rightarrow> Attempt) \<Rightarrow> (nat \<Rightarrow> real) \<Rightarrow> 'c StreamLLMConfig \<Rightarrow> CircuitBreaker \<times> 'c LLMWorld
     \<Rightarrow> (thrown + unit) \<times> CircuitBreaker \<times> 'c LLMWorld" where
  "streamLLMResponse sdk draw config cw =
     (let sid = (case sessionId config of Some s \<Rightarrow> if s \<noteq> [] then s else ''unknown''
                 | None \<Rightarrow> ''unknown'')
      in execute wall_clock
           (withRetry (llm_env draw) (streamLLMWithTracking sdk config sid)
              (merge_RetryOptions openai_retry_overrides))
           cw)"

text \<open>The breaker \<^verbatim>\<open>openaiCircuit\<close> as the module creates it.\<close>

definition openaiCircuit :: CircuitBreaker where
  "openaiCircuit = fst (getCircuitBreaker ''openai'' openai_circuit_overrides Map.empty)"

text \<open>
  The non-empty tokens of a list of chunks, in order, and the effect on the caller of
  \<^verbatim>\<open>onToken\<close> called on each token of a list in turn.
\<close>

definition tokens_of :: "Chunk list \<Rightarrow> string list" where
  "tokens_of cs = filter (\<lambda>t. t \<noteq> []) (map delta cs)"

definition deliver_tokens :: "'c StreamLLMConfig \<Rightarrow> string list \<Rightarrow> 'c \<Rightarrow> 'c" where
  "deliver_tokens config ts c = foldl (\<lambda>c t. onToken config t c) c ts"

text \<open>The usage the loop has captured after a list of chunks: that of the last chunk carrying one.\<close>

definition usage_of :: "Chunk list \<Rightarrow> Usage option" where
  "usage_of cs = foldl (\<lambda>u c. case chunk_usage c of Some v \<Rightarrow> Some v | None \<Rightarrow> u) None cs"

section \<open>Voice session (voice-session/index.ts and its handlers)\<close>

datatype VerificationState = PENDING | VERIFIED | VERIFYING | UNVERIFIED

record PropertyContext =
  property_id :: string
  property_name :: string
  user_id :: string

record TenantContext =
  tenant_id :: string
  tenant_name :: string

text \<open>\<^verbatim>\<open>VerificationData\<close>; \<open>vstate\<close> is its field \<^verbatim>\<open>state\<close>.\<close>

record VerificationData =
  vstate :: VerificationState
  vd_tenantContext :: "TenantContext option"
  claimedName :: "string option"
  claimedUnit :: "string option"
  promptCount :: int
  maxPrompts :: int
  createdUnverifiedRequest :: bool

record IssueData =
  category :: "string option"
  description :: "string option"

text \<open>
  \<^verbatim>\<open>AudioComponents\<close>: \<open>deepgram\<close> and \<open>tts\<close> say whether the adapter is there
  (not \<^verbatim>\<open>null\<close>).
\<close>

record AudioComponents =
  deepgram :: bool
  tts :: bool
  totalTTSCharacters :: nat
  totalSTTDurationMs :: nat

record DurationTimers =
  softLimitTimer :: "nat option"
  hardLimitTimer :: "nat option"
  hasHitSoftLimit :: bool

text \<open>
  The timers of the Node event loop that are pending: \<^verbatim>\<open>setTimeout\<close> returns a new
  handle, \<^verbatim>\<open>clearTimeout\<close> removes the timer of a handle if it is still pending, and a
  timer that fires is removed. A handle stays a non-null value after that.
\<close>

datatype TimerAction = SilenceElapsed | AutoEnd | EndCall | SoftLimit | HardLimit

record Timer =
  handle :: nat
  due :: int
  action :: TimerAction

text \<open>The calls the session makes on its collaborators, in order.\<close>

datatype Effect =
    TTSAddText string
  | TTSFlush
  | TTSClose
  | DeepgramClose
  | AppendTranscript string string
  | CreateUnverifiedRequest
  | CreateWorkOrder
  | LinkToTenant
  | SendSMS string string string
  | EndRecording
  | TrackTwilioVoice int
  | TrackElevenLabs nat
  | TrackDeepgram nat

text \<open>
  The fields of \<^verbatim>\<open>VoiceSession\<close> (\<open>verifier\<close> says whether the verifier is there,
  \<open>callRecordId\<close> is the recorder's), then \<open>fullResponse\<close>, the local variable of the
  call of \<^verbatim>\<open>processUserInput\<close> in progress, and the surroundings: the pending timers, the
  next timer handle and the calls made so far.
\<close>

record VoiceSession =
  propertyContext :: "PropertyContext option"
  tenantContext :: "TenantContext option"
  fromPhone :: string
  toPhone :: string
  verifier :: bool
  callRecordId :: "string option"
  callStartTime :: int
  verificationData :: VerificationData
  audio :: "AudioComponents option"
  conversationHistory :: "ConversationMessage list"
  currentTranscript :: string
  isProcessing :: bool
  silenceTimer :: "nat option"
  autoEndTimer :: "nat option"
  shouldCreateTicket :: bool
  createdWorkOrderId :: "string option"
  issueData :: IssueData
  durationTimers :: DurationTimers
  fullResponse :: string
  timers :: "Timer list"
  nextHandle :: nat
  effects :: "Effect list"

text \<open>
  What the session's collaborators outside this specification answer: the result of
  \<^verbatim>\<open>handleVerificationAttempt\<close> when there is a verifier, the text of
  \<^verbatim>\<open>buildSystemPrompt\<close>, the work order \<^verbatim>\<open>createWorkOrder\<close> returns, and whether
  \<^verbatim>\<open>sendSMS\<close> succeeds.
\<close>

record Collaborators =
  verificationAttempt :: "string \<Rightarrow> VerificationData \<Rightarrow> VerificationData"
  systemPromptFor :: "VoiceSession \<Rightarrow> string"
  workOrderFor :: "ConversationMessage list \<Rightarrow> string option"
  smsDelivered :: bool

definition setTimeout :: "TimerAction \<Rightarrow> int \<Rightarrow> VoiceSession \<Rightarrow> nat \<times> VoiceSession" where
  "setTimeout a dueAt s =
     (nextHandle s,
      s\<lparr>timers := timers s @ [\<lparr>handle = nextHandle s, due = dueAt, action = a\<rparr>],
        nextHandle := Suc (nextHandle s)\<rparr>)"

definition clearTimeout :: "nat \<Rightarrow> VoiceSession \<Rightarrow> VoiceSession" where
  "clearTimeout h s = s\<lparr>timers := filter (\<lambda>tm. handle tm \<noteq> h) (timers s)\<rparr>"

text \<open>
  \<^verbatim>\<open>String.prototype.trim\<close> and \<^verbatim>\<open>endsWith\<close>; white space is the ASCII white space.
\<close>

definition is_space :: "char \<Rightarrow> bool" where
  "is_space c \<longleftrightarrow> c \<in> set [CHR '' '', CHR 0x09, CHR 0x0A, CHR 0x0B, CHR 0x0C, CHR 0x0D]"

definition trim :: "string \<Rightarrow> string" where
  "trim s = rev (dropWhile is_space (rev (dropWhile is_space s)))"

definition endsWith :: "string \<Rightarrow> string \<Rightarrow> bool" where
  "endsWith s ending_str \<longleftrightarrow> suffix ending_str s"

text \<open>
  \<^verbatim>\<open>handleTranscript(transcript, isFinal)\<close>, called at the time \<open>t\<close>.
\<close>

definition handleTranscript :: "int \<Rightarrow> string \<Rightarrow> bool \<Rightarrow> VoiceSession \<Rightarrow> VoiceSession" where
  "handleTranscript t transcript isFinal s =
     (if trim transcript = [] then s
      else
        (let s1 = (case silenceTimer s of Some h \<Rightarrow> clearTimeout h s | None \<Rightarrow> s);
             s2 = (case autoEndTimer s1 of Some h \<Rightarrow> clearTimeout h s1 | None \<Rightarrow> s1);
             s3 = (if isFinal
                   then (if currentTranscript s2 \<noteq> []
                            \<and> \<not> endsWith (currentTranscript s2) transcript
                         then s2\<lparr>currentTranscript := currentTranscript s2 @ '' '' @ transcript\<rparr>
                         else s2\<lparr>currentTranscript := transcript\<rparr>)
                   else s2);
             armed = setTimeout SilenceElapsed (t + 1800) s3
         in (snd armed)\<lparr>silenceTimer := Some (fst armed)\<rparr>))"

text \<open>
  The part of \<^verbatim>\<open>processUserInput(text)\<close> before \<^verbatim>\<open>streamLLMResponse\<close> is called. The
  awaited verification attempt is taken to complete within this step.
\<close>

definition processUserInput_begin :: "Collaborators \<Rightarrow> string \<Rightarrow> VoiceSession \<Rightarrow> VoiceSession" where
  "processUserInput_begin collab text s =
     (if isProcessing s then s
      else
        (let s1 = s\<lparr>isProcessing := True, currentTranscript := [],
                     conversationHistory :=
                       addToConversationHistory user text (conversationHistory s)\<rparr>;
             s2 = (if vstate (verificationData s1) = VERIFYING
                   then (let vd = (if verifier s1
                                   then verificationAttempt collab text (verificationData s1)
                                   else verificationData s1)
                         in s1\<lparr>verificationData := vd,
                               tenantContext := (case vd_tenantContext vd of
                                                   Some tc \<Rightarrow> Some tc
                                                 | None \<Rightarrow> tenantContext s1)\<rparr>)
                   else s1)
         in s2\<lparr>fullResponse := []\<rparr>))"

text \<open>The callback of the silence timer.\<close>

definition silenceElapsed :: "Collaborators \<Rightarrow> VoiceSession \<Rightarrow> VoiceSession" where
  "silenceElapsed collab s =
     (if currentTranscript s \<noteq> [] \<and> \<not> isProcessing s
      then (let fullUtterance = trim (currentTranscript s);
                s1 = s\<lparr>effects := effects s @ [AppendTranscript ''caller'' fullUtterance],
                       currentTranscript := []\<rparr>
            in processUserInput_begin collab fullUtterance s1)
      else s)"

text \<open>
  \<^verbatim>\<open>addTTSText\<close>, \<^verbatim>\<open>speakText\<close> and \<^verbatim>\<open>flushTTS\<close> of audio-handler.ts, with
  the update of \<^verbatim>\<open>totalTTSCharacters\<close> the session makes when it has audio components.
\<close>

definition addTTSText :: "string \<Rightarrow> VoiceSession \<Rightarrow> VoiceSession" where
  "addTTSText text s =
     (case audio s of
        None \<Rightarrow> s
      | Some a \<Rightarrow>
          if tts a
          then s\<lparr>effects := effects s @ [TTSAddText text],
                 audio := Some (a\<lparr>totalTTSCharacters := totalTTSCharacters a + length text\<rparr>)\<rparr>
          else s)"

definition speakText :: "string \<Rightarrow> VoiceSession \<Rightarrow> VoiceSession" where
  "speakText text s =
     (case audio s of
        None \<Rightarrow> s
      | Some a \<Rightarrow>
          if tts a
          then s\<lparr>effects := effects s @ [TTSAddText text, TTSFlush],
                 audio := Some (a\<lparr>totalTTSCharacters := totalTTSCharacters a + length text\<rparr>)\<rparr>
          else s)"

definition flushTTS :: "VoiceSession \<Rightarrow> VoiceSession" where
  "flushTTS s =
     (case audio s of
        None \<Rightarrow> s
      | Some a \<Rightarrow> if tts a then s\<lparr>effects := effects s @ [TTSFlush]\<rparr> else s)"

text \<open>The \<^verbatim>\<open>onToken\<close> callback \<^verbatim>\<open>processUserInput\<close> passes to \<^verbatim>\<open>streamLLMResponse\<close>.\<close>

definition session_onToken :: "string \<Rightarrow> VoiceSession \<Rightarrow> VoiceSession" where
  "session_onToken token s = addTTSText token (s\<lparr>fullResponse := fullResponse s @ token\<rparr>)"

subsection \<open>Reading the reply (response-parser.ts, issue-handler.ts, types.ts)\<close>

text \<open>
  \<^verbatim>\<open>ISSUE_CATEGORIES\<close>: each pattern is a case-insensitive alternation of literal words,
  given here as the list of its words in lower case; \<^verbatim>\<open>pattern.test(s)\<close> holds when one
  of them occurs in \<open>s\<close> in lower case.
\<close>

definition ISSUE_CATEGORIES :: "(string \<times> string list) list" where
  "ISSUE_CATEGORIES =
     [(''plumbing_leak'', [''leak'', ''water'', ''drip'', ''flood'', ''burst'', ''pipe'',
                           ''faucet'', ''toilet overflow'']),
      (''plumbing_other'', [''toilet'', ''drain'', ''clog'', ''sink'', ''shower'', ''tub'',
                            ''disposal'']),
      (''hvac'', [''heat'', ''ac'', ''air condition'', ''thermostat'', ''furnace'', ''cold'',
                  ''hot air'', ''vent'', ''filter'']),
      (''electrical'', [''outlet'', ''light'', ''power'', ''switch'', ''breaker'', ''spark'',
                        ''electrical'', ''socket'']),
      (''appliance'', [''refrigerator'', ''fridge'', ''dishwasher'', ''washer'', ''dryer'',
                       ''stove'', ''oven'', ''microwave'']),
      (''structural'', [''door'', ''window'', ''lock'', ''wall'', ''ceiling'', ''floor'',
                        ''roof'', ''crack'', ''hole'']),
      (''pest'', [''bug'', ''roach'', ''ant'', ''mouse'', ''rat'', ''pest'', ''rodent'',
                  ''insect'', ''spider''])]"

definition MEDIA_HELPFUL_CATEGORIES :: "string list" where
  "MEDIA_HELPFUL_CATEGORIES =
     [''plumbing_leak'', ''structural'', ''appliance'', ''pest'', ''electrical'']"

definition pattern_test :: "string list \<Rightarrow> string \<Rightarrow> bool" where
  "pattern_test alternatives s = list_ex (str_includes (toLowerCase s)) alternatives"

definition extractIssueCategory :: "ConversationMessage list \<Rightarrow> IssueData" where
  "extractIssueCategory history =
     (let said = join_space (map content (filter (\<lambda>m. role m = user) history));
          userMessages = toLowerCase said
      in case find (\<lambda>entry. pattern_test (snd entry) userMessages) ISSUE_CATEGORIES of
           Some entry \<Rightarrow> \<lparr>category = Some (fst entry), description = Some said\<rparr>
         | None \<Rightarrow> \<lparr>category = Some ''other'', description = Some said\<rparr>)"

definition shouldRequestMedia :: "string option \<Rightarrow> bool" where
  "shouldRequestMedia issueCategory =
     (case issueCategory of
        None \<Rightarrow> False
      | Some c \<Rightarrow> c \<noteq> [] \<and> c \<in> set MEDIA_HELPFUL_CATEGORIES)"

text \<open>\<^verbatim>\<open>s.replace(/<literal>/g, '')\<close>: every occurrence, found from left to right, is removed.\<close>

function remove_all :: "string \<Rightarrow> string \<Rightarrow> string" where
  "remove_all pat [] = []"
| "remove_all pat (c # cs) =
     (if pat \<noteq> [] \<and> prefix pat (c # cs)
      then remove_all pat (drop (length pat) (c # cs))
      else c # remove_all pat cs)"
  by pat_completeness auto
termination
  by (relation "measure (\<lambda>(pat, s). length s)") (auto simp: neq_Nil_conv)

text \<open>
  \<^verbatim>\<open>s.replace(/\[TENANT:[^\]]+\]/g, '')\<close>: \<^verbatim>\<open>[TENANT:\<close>, then one or more characters other
  than the closing bracket, then the closing bracket.
\<close>

function remove_tenant_tags :: "string \<Rightarrow> string" where
  "remove_tenant_tags [] = []"
| "remove_tenant_tags (c # cs) =
     (let rest = drop 8 (c # cs);
          inner = takeWhile (\<lambda>x. x \<noteq> CHR '']'') rest;
          after = dropWhile (\<lambda>x. x \<noteq> CHR '']'') rest
      in if prefix ''[TENANT:'' (c # cs) \<and> inner \<noteq> [] \<and> after \<noteq> []
         then remove_tenant_tags (tl after)
         else c # remove_tenant_tags cs)"
  by pat_completeness auto
termination
proof (relation "measure length")
  show "wf (measure length)" by simp
next
  fix c :: char and cs rest inner after
  assume r: "rest = drop 8 (c # cs)"
    and a: "after = dropWhile (\<lambda>x. x \<noteq> CHR '']'') rest"
  have "length (tl after) \<le> length after" by simp
  also have "\<dots> \<le> length rest" unfolding a by (rule length_dropWhile_le)
  also have "\<dots> < length (c # cs)" unfolding r by simp
  finally show "(tl after, c # cs) \<in> measure length" by simp
next
  fix c :: char and cs
  show "(cs, c # cs) \<in> measure length" by simp
qed

definition cleanResponse :: "string \<Rightarrow> string" where
  "cleanResponse response =
     trim (remove_all ''[VERIFIED]''
            (remove_tenant_tags
              (remove_all ''[END_CALL]''
                (remove_all ''[CREATE_UNVERIFIED]''
                  (remove_all ''[CREATE_TICKET]'' response)))))"

text \<open>\<^verbatim>\<open>createUnverifiedRequest(ctx, data, history)\<close> of verification.ts, as seen from the session.\<close>

definition createUnverifiedRequest :: "VoiceSession \<Rightarrow> VoiceSession" where
  "createUnverifiedRequest s =
     (if \<not> verifier s \<or> propertyContext s = None then s
      else if createdUnverifiedRequest (verificationData s) then s
      else s\<lparr>effects := effects s @ [CreateUnverifiedRequest]\<rparr>)"

record ParseResult =
  pr_shouldCreateTicket :: bool
  pr_shouldEndCall :: bool
  pr_createdUnverifiedRequest :: bool
  pr_issueData :: IssueData

text \<open>
  \<^verbatim>\<open>parseResponse\<close>, on the session's verification data, history and issue data; it
  returns its result and the session after the request it may have created.
\<close>

definition parseResponse :: "string \<Rightarrow> VoiceSession \<Rightarrow> ParseResult \<times> VoiceSession" where
  "parseResponse response s =
     (let vd = verificationData s;
          ticket = (str_includes response ''[CREATE_TICKET]'' \<and> vstate vd = VERIFIED);
          unverified = (str_includes response ''[CREATE_UNVERIFIED]'' \<and> vstate vd = UNVERIFIED);
          s1 = (if unverified then createUnverifiedRequest s else s);
          endCall = str_includes response ''[END_CALL]'';
          noCategory = (case category (issueData s) of None \<Rightarrow> True | Some c \<Rightarrow> c = []);
          issue = (if noCategory \<and> length (conversationHistory s) > 1
                   then extractIssueCategory (conversationHistory s)
                   else issueData s)
      in (\<lparr>pr_shouldCreateTicket = ticket, pr_shouldEndCall = endCall,
           pr_createdUnverifiedRequest = (if unverified then True
                                          else createdUnverifiedRequest vd),
           pr_issueData = issue\<rparr>, s1))"

definition closingPhrases :: "string list" where
  "closingPhrases =
     [''anything else'', ''have a good'', ''take care'', ''bye'', ''goodbye'',
      ''we'' @ [CHR 0x27] @ ''ll get'', ''we'' @ [CHR 0x27] @ ''ll take care'',
      ''someone will'', ''is there anything'']"

text \<open>
  \<^verbatim>\<open>handleTicketCreation\<close>, that is \<^verbatim>\<open>createTicketFromConversation\<close>: the work order
  id, and the session after the calls made.
\<close>

definition handleTicketCreation :: "Collaborators \<Rightarrow> VoiceSession \<Rightarrow> string option \<times> VoiceSession" where
  "handleTicketCreation collab s =
     (if tenantContext s = None \<or> propertyContext s = None then (None, s)
      else (let workOrderId = workOrderFor collab (conversationHistory s);
                s1 = s\<lparr>effects := effects s @ [CreateWorkOrder]\<rparr>;
                made = (case workOrderId of None \<Rightarrow> False | Some i \<Rightarrow> i \<noteq> []);
                s2 = (if made \<and> callRecordId s1 \<noteq> None
                      then s1\<lparr>effects := effects s1 @ [LinkToTenant]\<rparr> else s1)
            in (workOrderId, s2)))"

text \<open>
  The \<^verbatim>\<open>onDone\<close> callback of \<^verbatim>\<open>processUserInput\<close>, called at the time \<open>t\<close>, block
  by block: the reply is parsed for control tags, the cleaned reply is added to the
  history and the recording, the auto-end timer is armed when the reply sounds like a
  closing, and the ticket is created. The calls it awaits are taken to complete within
  this step.
\<close>

definition onDone_parse :: "int \<Rightarrow> VoiceSession \<Rightarrow> VoiceSession" where
  "onDone_parse t s =
     (let parsed = parseResponse (fullResponse s) s;
          parseResult = fst parsed;
          s2 = (snd parsed)\<lparr>shouldCreateTicket := pr_shouldCreateTicket parseResult,
                 verificationData :=
                   (verificationData (snd parsed))
                     \<lparr>createdUnverifiedRequest := pr_createdUnverifiedRequest parseResult\<rparr>,
                 issueData := pr_issueData parseResult\<rparr>
      in if pr_shouldEndCall parseResult then snd (setTimeout EndCall (t + 2000) s2) else s2)"

definition onDone_reply :: "VoiceSession \<Rightarrow> VoiceSession" where
  "onDone_reply s =
     (let cleaned = cleanResponse (fullResponse s)
      in s\<lparr>conversationHistory :=
              addToConversationHistory assistant cleaned (conversationHistory s),
            effects := effects s @ [AppendTranscript ''ai'' cleaned]\<rparr>)"

definition onDone_autoEnd :: "int \<Rightarrow> VoiceSession \<Rightarrow> VoiceSession" where
  "onDone_autoEnd t s =
     (let cleaned = cleanResponse (fullResponse s);
          soundsLikeClosing = list_ex (str_includes (toLowerCase cleaned)) closingPhrases
      in if soundsLikeClosing
         then (let s' = (case autoEndTimer s of Some h \<Rightarrow> clearTimeout h s | None \<Rightarrow> s);
                   armed = setTimeout AutoEnd (t + 5000) s'
               in (snd armed)\<lparr>autoEndTimer := Some (fst armed)\<rparr>)
         else s)"

definition onDone_ticket :: "Collaborators \<Rightarrow> VoiceSession \<Rightarrow> VoiceSession" where
  "onDone_ticket collab s =
     (if shouldCreateTicket s
      then (let made = handleTicketCreation collab s;
                s1 = (case fst made of
                        Some i \<Rightarrow> if i \<noteq> [] then (snd made)\<lparr>createdWorkOrderId := Some i\<rparr>
                                  else snd made
                      | None \<Rightarrow> snd made)
            in s1\<lparr>shouldCreateTicket := False\<rparr>)
      else s)"

definition session_onDone :: "Collaborators \<Rightarrow> int \<Rightarrow> Usage option \<Rightarrow> VoiceSession \<Rightarrow> VoiceSession" where
  "session_onDone collab t usage s =
     onDone_ticket collab (onDone_autoEnd t (onDone_reply (onDone_parse t (flushTTS s))))"

text \<open>The \<^verbatim>\<open>catch\<close> and \<^verbatim>\<open>finally\<close> blocks of \<^verbatim>\<open>processUserInput\<close>.\<close>

definition errorMsg :: string where
  "errorMsg = ''I'' @ [CHR 0x27] @ ''m sorry, I'' @ [CHR 0x27]
                @ ''m having trouble. Could you repeat that?''"

definition processUserInput_catch :: "VoiceSession \<Rightarrow> VoiceSession" where
  "processUserInput_catch s =
     (let s1 = speakText errorMsg s
      in s1\<lparr>effects := effects s1 @ [AppendTranscript ''ai'' errorMsg]\<rparr>)"

definition processUserInput_finally :: "VoiceSession \<Rightarrow> VoiceSession" where
  "processUserInput_finally s = s\<lparr>isProcessing := False\<rparr>"

text \<open>
  \<^verbatim>\<open>processUserInput(text)\<close> run to its end with nothing else happening in between:
  \<open>sid\<close> is the logger's session id, and the breaker \<^verbatim>\<open>openaiCircuit\<close> comes with the
  world, whose caller state is the session.
\<close>

definition processUserInput ::
  "(nat \<Rightarrow> Attempt) \<Rightarrow> (nat \<Rightarrow> real) \<Rightarrow> Collaborators \<Rightarrow> string \<Rightarrow> string
     \<Rightarrow> CircuitBreaker \<times> VoiceSession LLMWorld \<Rightarrow> CircuitBreaker \<times> VoiceSession LLMWorld" where
  "processUserInput sdk draw collab sid text cw =
     (let s = caller (snd cw)
      in if isProcessing s then cw
         else
           (let s1 = processUserInput_begin collab text s;
                config = \<lparr>sessionId = Some sid, systemPrompt = systemPromptFor collab s1,
                          messages = conversationHistory s1,
                          onToken = session_onToken, onDone = session_onDone collab\<rparr>;
                res = streamLLMResponse sdk draw config (fst cw, (snd cw)\<lparr>caller := s1\<rparr>);
                w' = snd (snd res);
                s2 = (case fst res of
                        Inr u \<Rightarrow> caller w'
                      | Inl error \<Rightarrow> processUserInput_catch (caller w'))
            in (fst (snd res), w'\<lparr>caller := processUserInput_finally s2\<rparr>)))"

subsection \<open>Ending the call (end-handler.ts, issue-handler.ts, audio-handler.ts, duration-limits.ts)\<close>

definition buildMediaRequestMessage :: "string \<Rightarrow> string option \<Rightarrow> string" where
  "buildMediaRequestMessage issueCategory tenantName =
     (let greeting = (case tenantName of
                        Some n \<Rightarrow> if n \<noteq> [] then ''Hi '' @ n @ ''!'' else ''Hi!''
                      | None \<Rightarrow> ''Hi!'');
          opening = greeting @ '' Thanks for calling! ''
      in if issueCategory = ''plumbing_leak'' then
           opening @ ''If you can safely take a photo or quick video of the ''
             @ ''leak, it'' @ [CHR 0x27] @ ''ll help us send the right person with the right ''
             @ ''tools. Just reply to this text with the photo when you ''
             @ ''can!''
         else if issueCategory = ''structural'' then
           opening @ ''A photo of the issue would really help us assess it ''
             @ ''better. Just reply to this text with a picture when you ''
             @ ''have a moment!''
         else if issueCategory = ''appliance'' then
           opening @ ''If you can snap a photo of the appliance (and any error ''
             @ ''codes if there are any), it'' @ [CHR 0x27] @ ''ll help us figure out ''
             @ ''exactly what'' @ [CHR 0x27] @ ''s going on. Just reply with the pic!''
         else if issueCategory = ''pest'' then
           opening @ ''If you'' @ [CHR 0x27] @ ''re able to safely get a photo (no need to get too ''
             @ ''close!), it'' @ [CHR 0x27] @ ''ll help us identify exactly what we'' @ [CHR 0x27] @ ''re ''
             @ ''dealing with. Just reply with the pic!''
         else if issueCategory = ''electrical'' then
           opening @ ''If it'' @ [CHR 0x27] @ ''s safe to do so, a photo of the outlet/switch ''
             @ ''would help us assess the issue. Just reply with the pic ''
             @ ''when you can!''
         else
           opening @ ''If you can send us a photo of the issue, it'' @ [CHR 0x27] @ ''ll really ''
             @ ''help us get this sorted faster. Just reply to this text ''
             @ ''with the pic!'')"

text \<open>
  \<^verbatim>\<open>sendPostCallMediaRequest(ctx, issueCategory)\<close>, with the tenant context of \<open>ctx\<close>;
  the SMS goes to the caller's number from the number called.
\<close>

definition sendPostCallMediaRequest ::
  "Collaborators \<Rightarrow> TenantContext option \<Rightarrow> string option \<Rightarrow> VoiceSession \<Rightarrow> VoiceSession" where
  "sendPostCallMediaRequest collab ctxTenantContext issueCategory s =
     (case issueCategory of
        None \<Rightarrow> s
      | Some cat \<Rightarrow>
          if \<not> shouldRequestMedia (Some cat) then s
          else if fromPhone s = [] \<or> toPhone s = [] then s
          else
            (let firstName = (case ctxTenantContext of
                                None \<Rightarrow> None
                              | Some tc \<Rightarrow>
                                  (let w = takeWhile (\<lambda>c. c \<noteq> CHR '' '') (tenant_name tc)
                                   in if w = [] then None else Some w));
                 mediaRequest = buildMediaRequestMessage cat firstName;
                 s1 = s\<lparr>effects := effects s
                                       @ [SendSMS (fromPhone s) (toPhone s) mediaRequest]\<rparr>
             in if smsDelivered collab
                then s1\<lparr>effects := effects s1
                          @ [AppendTranscript ''ai'' (''[POST-CALL SMS] '' @ mediaRequest)]\<rparr>
                else s1))"

definition cleanupAudio :: "VoiceSession \<Rightarrow> VoiceSession" where
  "cleanupAudio s =
     (case audio s of
        None \<Rightarrow> s
      | Some a \<Rightarrow>
          (let s1 = (if deepgram a
                     then s\<lparr>effects := effects s @ [DeepgramClose],
                            audio := Some (a\<lparr>deepgram := False\<rparr>)\<rparr>
                     else s)
           in case audio s1 of
                None \<Rightarrow> s1
              | Some a1 \<Rightarrow>
                  if tts a1
                  then s1\<lparr>effects := effects s1 @ [TTSClose],
                          audio := Some (a1\<lparr>tts := False\<rparr>)\<rparr>
                  else s1))"

definition clearDurationTimers :: "VoiceSession \<Rightarrow> VoiceSession" where
  "clearDurationTimers s =
     (let s1 = (case softLimitTimer (durationTimers s) of
                  Some h \<Rightarrow> (clearTimeout h s)
                              \<lparr>durationTimers := (durationTimers s)\<lparr>softLimitTimer := None\<rparr>\<rparr>
                | None \<Rightarrow> s)
      in case hardLimitTimer (durationTimers s1) of
           Some h \<Rightarrow> (clearTimeout h s1)
                       \<lparr>durationTimers := (durationTimers s1)\<lparr>hardLimitTimer := None\<rparr>\<rparr>
         | None \<Rightarrow> s1)"

text \<open>The cost-tracking calls \<^verbatim>\<open>handleEndSession\<close> makes for the audio components.\<close>

definition audio_costs :: "VoiceSession \<Rightarrow> Effect list" where
  "audio_costs s =
     (case audio s of
        Some a \<Rightarrow> [TrackElevenLabs (totalTTSCharacters a), TrackDeepgram (totalSTTDurationMs a)]
      | None \<Rightarrow> [])"

text \<open>\<^verbatim>\<open>recorder.endRecording\<close>: nothing without a call record, else the record is updated.\<close>

definition endRecording :: "VoiceSession \<Rightarrow> VoiceSession" where
  "endRecording s =
     (if callRecordId s = None then s else s\<lparr>effects := effects s @ [EndRecording]\<rparr>)"

text \<open>
  A call of \<^verbatim>\<open>end()\<close> in progress. \<^verbatim>\<open>end\<close> and \<^verbatim>\<open>handleEndSession\<close> are
  asynchronous: a call runs until it awaits, is suspended there, and runs on when it is
  resumed; in between, other calls and events take their turn. The record says where the
  call is suspended and holds the values it copied when it was made: the handle of the
  silence timer and the tenant context that \<^verbatim>\<open>end\<close> puts into \<open>ctx\<close>, and the call
  duration. The audio components and the duration timers in \<open>ctx\<close> are objects shared
  with the session, so they are read from the session when they are used; so are the
  verification data, the history and the issue data, which neither \<^verbatim>\<open>end\<close> nor
  \<^verbatim>\<open>handleTranscript\<close> replaces.
\<close>

datatype EndStage = AwaitingUnverified | AwaitingMedia | AwaitingRecording | Ended

record EndCall =
  stage :: EndStage
  ctx_silenceTimer :: "nat option"
  ctx_tenantContext :: "TenantContext option"
  callDurationMs :: int

text \<open>
  \<^verbatim>\<open>handleEndSession(ctx, data)\<close>, block by block, each block from where it starts to
  the next \<^verbatim>\<open>await\<close>; a call that is awaited has its effect when it is made. The
  blocks: the unverified request, the post-call media request, the end of the recording,
  and, after the last \<^verbatim>\<open>await\<close>, the cost tracking and the release of the resources.
\<close>

definition end_recording :: "EndCall \<Rightarrow> VoiceSession \<Rightarrow> EndCall \<times> VoiceSession" where
  "end_recording a s = (a\<lparr>stage := AwaitingRecording\<rparr>, endRecording s)"

definition end_media_request ::
  "Collaborators \<Rightarrow> EndCall \<Rightarrow> VoiceSession \<Rightarrow> EndCall \<times> VoiceSession" where
  "end_media_request collab a s =
     (if length (conversationHistory s) > 2
      then (let noCategory = (case category (issueData s) of None \<Rightarrow> True | Some c \<Rightarrow> c = []);
                issue = (if noCategory then extractIssueCategory (conversationHistory s)
                         else issueData s)
            in (a\<lparr>stage := AwaitingMedia\<rparr>,
                sendPostCallMediaRequest collab (ctx_tenantContext a) (category issue) s))
      else end_recording a s)"

definition end_unverified_request ::
  "Collaborators \<Rightarrow> EndCall \<Rightarrow> VoiceSession \<Rightarrow> EndCall \<times> VoiceSession" where
  "end_unverified_request collab a s =
     (let vd = verificationData s
      in if (vstate vd = UNVERIFIED \<or> vstate vd = VERIFYING)
            \<and> \<not> createdUnverifiedRequest vd \<and> verifier s \<and> propertyContext s \<noteq> None
         then (a\<lparr>stage := AwaitingUnverified\<rparr>, createUnverifiedRequest s)
         else end_media_request collab a s)"

definition end_track_costs :: "EndCall \<Rightarrow> VoiceSession \<Rightarrow> VoiceSession" where
  "end_track_costs a s =
     s\<lparr>effects := effects s @ [TrackTwilioVoice (callDurationMs a)] @ audio_costs s\<rparr>"

definition end_cleanup :: "EndCall \<Rightarrow> VoiceSession \<Rightarrow> VoiceSession" where
  "end_cleanup a s =
     (let s1 = cleanupAudio s;
          s2 = (case ctx_silenceTimer a of Some h \<Rightarrow> clearTimeout h s1 | None \<Rightarrow> s1)
      in clearDurationTimers s2)"

definition end_finish :: "EndCall \<Rightarrow> VoiceSession \<Rightarrow> EndCall \<times> VoiceSession" where
  "end_finish a s = (a\<lparr>stage := Ended\<rparr>, end_cleanup a (end_track_costs a s))"

text \<open>
  \<^verbatim>\<open>handleEndSession\<close> called at the time \<open>t\<close> with the silence timer handle and the
  tenant context of \<open>ctx\<close>, up to its first \<^verbatim>\<open>await\<close>; and a suspended call resumed, up
  to its next \<^verbatim>\<open>await\<close> or its end.
\<close>

definition handleEndSession ::
  "Collaborators \<Rightarrow> int \<Rightarrow> nat option \<Rightarrow> TenantContext option \<Rightarrow> VoiceSession
     \<Rightarrow> EndCall \<times> VoiceSession" where
  "handleEndSession collab t ctxSilenceTimer ctxTenantContext s =
     end_unverified_request collab
       \<lparr>stage = AwaitingUnverified, ctx_silenceTimer = ctxSilenceTimer,
        ctx_tenantContext = ctxTenantContext, callDurationMs = t - callStartTime s\<rparr> s"

definition handleEndSession_resume ::
  "Collaborators \<Rightarrow> EndCall \<Rightarrow> VoiceSession \<Rightarrow> EndCall \<times> VoiceSession" where
  "handleEndSession_resume collab a s =
     (case stage a of
        AwaitingUnverified \<Rightarrow> end_media_request collab a s
      | AwaitingMedia \<Rightarrow> end_recording a s
      | AwaitingRecording \<Rightarrow> end_finish a s
      | Ended \<Rightarrow> (a, s))"

text \<open>
  \<^verbatim>\<open>VoiceSession.end()\<close> called at the time \<open>t\<close>, up to the first \<^verbatim>\<open>await\<close> of the
  \<^verbatim>\<open>handleEndSession\<close> it calls.
\<close>

definition VoiceSession_end :: "Collaborators \<Rightarrow> int \<Rightarrow> VoiceSession \<Rightarrow> EndCall \<times> VoiceSession" where
  "VoiceSession_end collab t s =
     (let s0 = (case autoEndTimer s of
                  Some h \<Rightarrow> (clearTimeout h s)\<lparr>autoEndTimer := None\<rparr>
                | None \<Rightarrow> s)
      in handleEndSession collab t (silenceTimer s0) (tenantContext s0) s0)"

text \<open>
  What can happen while calls of \<^verbatim>\<open>end()\<close> are in flight: \<^verbatim>\<open>end()\<close> is called once
  more, the suspended call number \<open>i\<close> is resumed, or a transcript fragment arrives. A
  schedule is a sequence of these, run on the session and the calls made so far.
\<close>

datatype EndAction = CallEnd int | Resume nat | Fragment int string bool

fun perform ::
  "Collaborators \<Rightarrow> VoiceSession \<times> EndCall list \<Rightarrow> EndAction \<Rightarrow> VoiceSession \<times> EndCall list" where
  "perform collab (s, ends) (CallEnd t) =
     (let r = VoiceSession_end collab t s in (snd r, ends @ [fst r]))"
| "perform collab (s, ends) (Resume i) =
     (if i < length ends
      then (let r = handleEndSession_resume collab (ends ! i) s in (snd r, ends[i := fst r]))
      else (s, ends))"
| "perform collab (s, ends) (Fragment t transcript isFinal) =
     (handleTranscript t transcript isFinal s, ends)"

definition run_schedule ::
  "Collaborators \<Rightarrow> EndAction list \<Rightarrow> VoiceSession \<times> EndCall list
     \<Rightarrow> VoiceSession \<times> EndCall list" where
  "run_schedule collab sched se = foldl (perform collab) se sched"

subsection \<open>The session driven by timed events\<close>

text \<open>
  What can happen to a session from outside, each at a time: a transcript fragment
  arrives, or the generation call in progress delivers a token, completes, fails, or
  \<^verbatim>\<open>processUserInput\<close> reaches its \<^verbatim>\<open>finally\<close> block.
\<close>

datatype SessionEvent =
    Transcript string bool
  | Token string
  | Done "Usage option"
  | Failed
  | Finally

text \<open>
  The event loop as far as the silence timer goes: a pending silence timer that is due
  at the time \<open>t\<close> fires, and is no longer pending, before anything that happens at \<open>t\<close>.
\<close>

definition fire_silence :: "Collaborators \<Rightarrow> int \<Rightarrow> VoiceSession \<Rightarrow> VoiceSession" where
  "fire_silence collab t s =
     (case find (\<lambda>tm. action tm = SilenceElapsed \<and> due tm \<le> t) (timers s) of
        Some tm \<Rightarrow> silenceElapsed collab (s\<lparr>timers := filter (\<lambda>x. handle x \<noteq> handle tm) (timers s)\<rparr>)
      | None \<Rightarrow> s)"

definition step :: "Collaborators \<Rightarrow> VoiceSession \<Rightarrow> int \<times> SessionEvent \<Rightarrow> VoiceSession" where
  "step collab s ev =
     (let t = fst ev; s' = fire_silence collab t s
      in case snd ev of
           Transcript transcript isFinal \<Rightarrow> handleTranscript t transcript isFinal s'
         | Token token \<Rightarrow> session_onToken token s'
         | Done usage \<Rightarrow> session_onDone collab t usage s'
         | Failed \<Rightarrow> processUserInput_catch s'
         | Finally \<Rightarrow> processUserInput_finally s')"

definition run_events :: "Collaborators \<Rightarrow> (int \<times> SessionEvent) list \<Rightarrow> VoiceSession \<Rightarrow> VoiceSession" where
  "run_events collab evs s = foldl (step collab) s evs"

text \<open>The utterances dispatched so far: the texts recorded for the caller, in order.\<close>

fun caller_text :: "Effect \<Rightarrow> string option" where
  "caller_text (AppendTranscript who text) = (if who = ''caller'' then Some text else None)"
| "caller_text other = None"

definition utterances :: "VoiceSession \<Rightarrow> string list" where
  "utterances s = List.map_filter caller_text (effects s)"

subsection \<open>A session after its greeting, and collaborators\<close>

definition greeting_message :: ConversationMessage where
  "greeting_message =
     \<lparr>role = assistant, content = ''Hey Ada, this is your AI assistant. How can I help you today?''\<rparr>"

definition fresh_session :: VoiceSession where
  "fresh_session =
     \<lparr>propertyContext =
        Some \<lparr>property_id = ''p1'', property_name = ''Oak Court'', user_id = ''u1''\<rparr>,
      tenantContext = Some \<lparr>tenant_id = ''t1'', tenant_name = ''Ada Lovelace''\<rparr>,
      fromPhone = ''+15550001'', toPhone = ''+15550002'', verifier = True,
      callRecordId = Some ''call1'', callStartTime = 0,
      verificationData =
        \<lparr>vstate = VERIFIED,
         vd_tenantContext = Some \<lparr>tenant_id = ''t1'', tenant_name = ''Ada Lovelace''\<rparr>,
         claimedName = None, claimedUnit = None, promptCount = 0, maxPrompts = 3,
         createdUnverifiedRequest = False\<rparr>,
      audio = Some \<lparr>deepgram = True, tts = True, totalTTSCharacters = 0,
                    totalSTTDurationMs = 0\<rparr>,
      conversationHistory = [greeting_message],
      currentTranscript = [], isProcessing = False, silenceTimer = None,
      autoEndTimer = None, shouldCreateTicket = False, createdWorkOrderId = None,
      issueData = \<lparr>category = None, description = None\<rparr>,
      durationTimers = \<lparr>softLimitTimer = Some 0, hardLimitTimer = Some 1,
                        hasHitSoftLimit = False\<rparr>,
      fullResponse = [],
      timers = [\<lparr>handle = 0, due = 1200000, action = SoftLimit\<rparr>,
                \<lparr>handle = 1, due = 1800000, action = HardLimit\<rparr>],
      nextHandle = 2, effects = []\<rparr>"

definition plain_collaborators :: Collaborators where
  "plain_collaborators =
     \<lparr>verificationAttempt = (\<lambda>text vd. vd), systemPromptFor = (\<lambda>s. ''You are a helpful assistant.''),
      workOrderFor = (\<lambda>history. Some ''wo1''), smsDelivered = True\<rparr>"

text \<open>The calls made between a session state and a later one.\<close>

definition new_effects :: "VoiceSession \<Rightarrow> VoiceSession \<Rightarrow> Effect list" where
  "new_effects s s' = drop (length (effects s)) (effects s')"

text \<open>
  An unverified caller who has reported a leak, and the tests for the end-of-call side
  effects among the calls made.
\<close>

definition leak_session :: VoiceSession where
  "leak_session =
     fresh_session
       \<lparr>verificationData := (verificationData fresh_session)\<lparr>vstate := UNVERIFIED\<rparr>,
        conversationHistory :=
          [greeting_message,
           \<lparr>role = user, content = ''There is a leak under my sink''\<rparr>,
           \<lparr>role = assistant, content = ''Someone will look at it today.''\<rparr>]\<rparr>"

fun is_sms :: "Effect \<Rightarrow> bool" where
  "is_sms (SendSMS a b m) = True"
| "is_sms other = False"

fun is_call_cost :: "Effect \<Rightarrow> bool" where
  "is_call_cost (TrackTwilioVoice d) = True"
| "is_call_cost other = False"

text \<open>
  What there is to say of a session \<open>s'\<close> that has come from \<open>s\<close> through calls of
  \<^verbatim>\<open>end()\<close>. The audio adapters are closed, and each adapter \<open>s\<close> held has been closed
  exactly once. The auto-end timer and the duration timers are cancelled: the session
  holds their handles no more, and no timer with a handle \<open>s\<close> held for them is
  pending. The silence timer is cancelled: no timer with the handle the session holds
  for it is pending.
\<close>

definition adapters_closed_once :: "VoiceSession \<Rightarrow> VoiceSession \<Rightarrow> bool" where
  "adapters_closed_once s s' \<longleftrightarrow>
     (case audio s' of None \<Rightarrow> audio s = None | Some a' \<Rightarrow> \<not> deepgram a' \<and> \<not> tts a')
     \<and> count_list (new_effects s s') DeepgramClose
         = (case audio s of Some a \<Rightarrow> if deepgram a then 1 else 0 | None \<Rightarrow> 0)
     \<and> count_list (new_effects s s') TTSClose
         = (case audio s of Some a \<Rightarrow> if tts a then 1 else 0 | None \<Rightarrow> 0)"

definition not_pending :: "nat option \<Rightarrow> VoiceSession \<Rightarrow> bool" where
  "not_pending held s \<longleftrightarrow> list_all (\<lambda>tm. Some (handle tm) \<noteq> held) (timers s)"

definition timers_cancelled :: "VoiceSession \<Rightarrow> VoiceSession \<Rightarrow> bool" where
  "timers_cancelled s s' \<longleftrightarrow>
     autoEndTimer s' = None \<and> softLimitTimer (durationTimers s') = None
     \<and> hardLimitTimer (durationTimers s') = None
     \<and> not_pending (autoEndTimer s) s'
     \<and> not_pending (softLimitTimer (durationTimers s)) s'
     \<and> not_pending (hardLimitTimer (durationTimers s)) s'"

definition silence_cancelled :: "VoiceSession \<Rightarrow> bool" where
  "silence_cancelled s \<longleftrightarrow> not_pending (silenceTimer s) s"

text \<open>
  The handles the session holds for the auto-end and duration timers were given out
  before: they are below the next handle to be given out.
\<close>

definition below_next :: "nat option \<Rightarrow> VoiceSession \<Rightarrow> bool" where
  "below_next held s \<longleftrightarrow> (case held of Some h \<Rightarrow> h < nextHandle s | None \<Rightarrow> True)"

definition held_handles_fresh :: "VoiceSession \<Rightarrow> bool" where
  "held_handles_fresh s \<longleftrightarrow>
     below_next (autoEndTimer s) s \<and> below_next (softLimitTimer (durationTimers s)) s
     \<and> below_next (hardLimitTimer (durationTimers s)) s"

text \<open>
  The part of a schedule after its last call of \<^verbatim>\<open>end()\<close>, and the schedules in which
  no fragment arms the silence timer again there.
\<close>

fun is_call :: "EndAction \<Rightarrow> bool" where
  "is_call (CallEnd t) = True"
| "is_call other = False"

fun rearms :: "EndAction \<Rightarrow> bool" where
  "rearms (Fragment t transcript isFinal) \<longleftrightarrow> trim transcript \<noteq> []"
| "rearms other \<longleftrightarrow> False"

definition after_last_call :: "EndAction list \<Rightarrow> EndAction list" where
  "after_last_call sched = rev (takeWhile (\<lambda>a. \<not> is_call a) (rev sched))"

definition quiet_tail :: "EndAction list \<Rightarrow> bool" where
  "quiet_tail sched \<longleftrightarrow> \<not> list_ex rearms (after_last_call sched)"

text \<open>
  The number of SMS one call of \<^verbatim>\<open>end()\<close> sends for a session: that of the block of
  the media request.
\<close>

definition sms_per_call :: "Collaborators \<Rightarrow> VoiceSession \<Rightarrow> nat" where
  "sms_per_call collab s =
     length (filter is_sms
       (new_effects s
          (snd (end_media_request collab
                  \<lparr>stage = AwaitingUnverified, ctx_silenceTimer = silenceTimer s,
                   ctx_tenantContext = tenantContext s, callDurationMs = 0\<rparr> s))))"

text \<open>
  One call of \<^verbatim>\<open>end()\<close> run to its end; two calls, the second made while the first is
  suspended, both run to their end; and one call with a fragment arriving while it is
  suspended.
\<close>

definition one_end :: "EndAction list" where
  "one_end = [CallEnd 60000, Resume 0, Resume 0, Resume 0]"

definition two_ends :: "EndAction list" where
  "two_ends =
     [CallEnd 60000, CallEnd 60100, Resume 0, Resume 1, Resume 0, Resume 1, Resume 0, Resume 1]"

definition fragment_in_flight :: "EndAction list" where
  "fragment_in_flight =
     [CallEnd 60000, Fragment 60050 ''hello?'' True, Resume 0, Resume 0, Resume 0]"

subsection \<open>Services, a caller that logs its tokens, and a quiet world\<close>

text \<open>
  \<open>flaky_sdk\<close>: the first request streams one token and then fails with a 503, the
  later ones complete.
\<close>

definition flaky_sdk :: "nat \<Rightarrow> Attempt" where
  "flaky_sdk i =
     (if i = 0
      then \<lparr>chunks = [(100, \<lparr>delta = ''Hel'', chunk_usage = None\<rparr>)], ends_at = 200,
            ending = Threw \<lparr>message = ''503 Service Unavailable'', name = ''Error'',
                            code = ''''\<rparr>,
            on_abort = Completed\<rparr>
      else \<lparr>chunks = [(100, \<lparr>delta = ''Hello'', chunk_usage = None\<rparr>),
                      (150, \<lparr>delta = '' there'', chunk_usage = None\<rparr>)],
            ends_at = 300, ending = Completed, on_abort = Completed\<rparr>)"

text \<open>
  Requests that are still running after 30 s. \<open>slow_stream_sdk\<close>: a token has arrived
  and the next one would arrive after 40 s; on abort the client ends the iteration
  without throwing. \<open>slow_request_sdk\<close>: nothing has arrived; on abort the client
  throws its own abort error, whose \<^verbatim>\<open>name\<close> is \<^verbatim>\<open>Error\<close>. \<open>dom_abort_sdk\<close>: as
  \<open>slow_stream_sdk\<close>, with a client that throws an error named \<^verbatim>\<open>AbortError\<close>.
\<close>

definition APIUserAbortError :: Error where
  "APIUserAbortError = \<lparr>message = ''Request was aborted.'', name = ''Error'', code = ''''\<rparr>"

definition slow_stream_sdk :: "nat \<Rightarrow> Attempt" where
  "slow_stream_sdk i =
     \<lparr>chunks = [(100, \<lparr>delta = ''Hel'', chunk_usage = None\<rparr>),
                (40000, \<lparr>delta = ''lo'', chunk_usage = None\<rparr>)],
      ends_at = 45000, ending = Completed, on_abort = Completed\<rparr>"

definition slow_request_sdk :: "nat \<Rightarrow> Attempt" where
  "slow_request_sdk i =
     \<lparr>chunks = [], ends_at = 45000, ending = Completed, on_abort = Threw APIUserAbortError\<rparr>"

definition dom_abort_sdk :: "nat \<Rightarrow> Attempt" where
  "dom_abort_sdk i =
     \<lparr>chunks = [(100, \<lparr>delta = ''Hel'', chunk_usage = None\<rparr>),
                (40000, \<lparr>delta = ''lo'', chunk_usage = None\<rparr>)],
      ends_at = 45000, ending = Completed,
      on_abort = Threw \<lparr>message = ''This operation was aborted'', name = ''AbortError'',
                        code = ''''\<rparr>\<rparr>"

definition half_draw :: "nat \<Rightarrow> real" where
  "half_draw i = 1 / 2"

definition token_log_config :: "string list StreamLLMConfig" where
  "token_log_config =
     \<lparr>sessionId = Some ''s1'', systemPrompt = ''You are a helpful assistant.'',
      messages = [\<lparr>role = user, content = ''hello''\<rparr>],
      onToken = (\<lambda>token c. c @ [token]),
      onDone = (\<lambda>t usage c. c @ [''<done>''])\<rparr>"

definition session_config :: "Collaborators \<Rightarrow> VoiceSession \<Rightarrow> VoiceSession StreamLLMConfig" where
  "session_config collab s =
     \<lparr>sessionId = Some ''s1'', systemPrompt = systemPromptFor collab s,
      messages = conversationHistory s,
      onToken = session_onToken, onDone = session_onDone collab\<rparr>"

definition quiet_world :: "'c \<Rightarrow> 'c LLMWorld" where
  "quiet_world c = \<lparr>wall_clock = 0, requests = 0, rolls = 0, tracked = [], caller = c\<rparr>"

subsection \<open>The utterance segmenter as the specification describes it\<close>

text \<open>The silence timers that are pending.\<close>

definition silence_pending :: "VoiceSession \<Rightarrow> Timer list" where
  "silence_pending s = filter (\<lambda>tm. action tm = SilenceElapsed) (timers s)"

text \<open>
  The segmenter in the words of the specification: the final fragments heard since the
  previous emission, the time at which the silence timeout will have elapsed, if it is
  running, and whether an utterance is being processed.
\<close>

record Segmenter =
  heard :: "string list"
  quiet_at :: "int option"
  running :: bool

text \<open>
  Whether the silence timeout has elapsed at the time \<open>t\<close>, and what then happens
  before anything else at \<open>t\<close>: with something heard, one utterance is emitted, the
  space-joined concatenation of what was heard, trimmed, and its processing starts.
\<close>

definition silence_elapsed :: "int \<Rightarrow> Segmenter \<Rightarrow> bool" where
  "silence_elapsed t g \<longleftrightarrow> (case quiet_at g of Some d \<Rightarrow> d \<le> t | None \<Rightarrow> False)"


definition segmenter_elapse :: "int \<Rightarrow> Segmenter \<Rightarrow> Segmenter" where
  "segmenter_elapse t g =
     (if silence_elapsed t g
      then (if heard g \<noteq> [] then \<lparr>heard = [], quiet_at = None, running = True\<rparr>
            else g\<lparr>quiet_at := None\<rparr>)
      else g)"

text \<open>
  An event at the time \<open>t\<close>. A blank fragment is ignored. Any other fragment restarts the
  silence timeout, and a final one is heard, unless it repeats the whole of what has
  been heard so far; a fragment that is not final is not heard. The end of
  \<^verbatim>\<open>processUserInput\<close> ends the processing.
\<close>

fun segmenter_event :: "int \<Rightarrow> SessionEvent \<Rightarrow> Segmenter \<Rightarrow> Segmenter" where
  "segmenter_event t (Transcript transcript isFinal) g =
     (if trim transcript = [] then g
      else g\<lparr>heard := (if isFinal \<and> join_space (heard g) \<noteq> transcript
                        then heard g @ [transcript] else heard g),
             quiet_at := Some (t + 1800)\<rparr>)"
| "segmenter_event t Finally g = g\<lparr>running := False\<rparr>"
| "segmenter_event t other g = g"


text \<open>
  The sequences of events considered: never does the silence timeout elapse, with
  something heard, while an utterance is still being processed; and no final fragment
  is a proper ending of what has been heard so far (a fragment that repeats the end of
  the buffer without being the whole of it).
\<close>

fun repeats_ending :: "SessionEvent \<Rightarrow> Segmenter \<Rightarrow> bool" where
  "repeats_ending (Transcript transcript isFinal) g \<longleftrightarrow>
     isFinal \<and> trim transcript \<noteq> [] \<and> heard g \<noteq> []
     \<and> suffix transcript (join_space (heard g)) \<and> transcript \<noteq> join_space (heard g)"
| "repeats_ending other g \<longleftrightarrow> False"

fun unhindered :: "Segmenter \<Rightarrow> (int \<times> SessionEvent) list \<Rightarrow> bool" where
  "unhindered g [] \<longleftrightarrow> True"
| "unhindered g (ev # evs) \<longleftrightarrow>
     \<not> (silence_elapsed (fst ev) g \<and> heard g \<noteq> [] \<and> running g)
     \<and> \<not> repeats_ending (snd ev) (segmenter_elapse (fst ev) g)
     \<and> unhindered (segmenter_event (fst ev) (snd ev) (segmenter_elapse (fst ev) g)) evs"


definition segmenter_start :: "VoiceSession \<Rightarrow> Segmenter" where
  "segmenter_start s = \<lparr>heard = [], quiet_at = None, running = isProcessing s\<rparr>"




text \<open>A trace in which a second fragment arrives while the reply to the first is being generated.\<close>

definition barge_in_trace :: "(int \<times> SessionEvent) list" where
  "barge_in_trace =
     [(0, Transcript ''hello'' True), (1800, Token ''Hi''), (2000, Transcript ''wait'' True),
      (2500, Token '' there''), (4000, Done None), (4000, Finally)]"


section \<open>Properties of the conversation history\<close>

lemma length_addToConversationHistory:
  "length (addToConversationHistory r c h) = min (Suc (length h)) MAX_CONVERSATION_MESSAGES"
  by (simp add: addToConversationHistory_def slice_last_def Let_def MAX_CONVERSATION_MESSAGES_def)

lemma addToConversationHistory_drop:
  "addToConversationHistory r c h =
     drop (Suc (length h) - MAX_CONVERSATION_MESSAGES) (h @ [\<lparr>role = r, content = c\<rparr>])"
  by (simp add: addToConversationHistory_def slice_last_def Let_def MAX_CONVERSATION_MESSAGES_def)

text \<open>
  Claim C5. Appending to a history of 100 messages gives a history of exactly 100
  messages whose first element is the original second message; every append leaves at
  most 100 messages, the result is the pushed array with only leading (oldest) entries
  removed, so the retained entries keep their order and the new message is last.
\<close>

theorem C5_history_cap:
  "(length h = 100 \<longrightarrow>
      length (addToConversationHistory r c h) = 100
      \<and> hd (addToConversationHistory r c h) = h ! 1
      \<and> addToConversationHistory r c h = tl h @ [\<lparr>role = r, content = c\<rparr>])
   \<and> length (addToConversationHistory r c h) \<le> MAX_CONVERSATION_MESSAGES
   \<and> MAX_CONVERSATION_MESSAGES = 100
   \<and> suffix (addToConversationHistory r c h) (h @ [\<lparr>role = r, content = c\<rparr>])
   \<and> last (addToConversationHistory r c h) = \<lparr>role = r, content = c\<rparr>
   \<and> (length h < 100 \<longrightarrow> addToConversationHistory r c h = h @ [\<lparr>role = r, content = c\<rparr>])"
proof -
  let ?m = "\<lparr>role = r, content = c\<rparr>"
  let ?a = "addToConversationHistory r c h"
  have len: "length ?a \<le> MAX_CONVERSATION_MESSAGES"
    by (simp add: length_addToConversationHistory)
  have suf: "suffix ?a (h @ [?m])"
    unfolding addToConversationHistory_drop by (rule suffix_drop)
  have lst: "last ?a = ?m"
    by (simp add: addToConversationHistory_drop MAX_CONVERSATION_MESSAGES_def)
  have small: "length h < 100 \<longrightarrow> ?a = h @ [?m]"
    by (simp add: addToConversationHistory_drop MAX_CONVERSATION_MESSAGES_def)
  have full: "length h = 100 \<longrightarrow> length ?a = 100 \<and> hd ?a = h ! 1 \<and> ?a = tl h @ [?m]"
  proof
    assume L: "length h = 100"
    then obtain x xs where h: "h = x # xs" by (cases h) auto
    with L have xs: "length xs = 99" by simp
    have eq: "?a = xs @ [?m]"
      by (simp add: addToConversationHistory_drop MAX_CONVERSATION_MESSAGES_def h xs)
    from xs obtain y ys where ys: "xs = y # ys" by (cases xs) auto
    show "length ?a = 100 \<and> hd ?a = h ! 1 \<and> ?a = tl h @ [?m]"
      using eq xs by (simp add: h ys)
  qed
  have m: "MAX_CONVERSATION_MESSAGES = 100"
    by (simp add: MAX_CONVERSATION_MESSAGES_def)
  from full len m suf lst small show ?thesis
    by (intro conjI)
qed

theorem C5_history_cap_witness:
  "length (map (\<lambda>n. \<lparr>role = user, content = replicate n CHR ''a''\<rparr>) [0..<100]) = 100
   \<and> length (addToConversationHistory assistant ''new''
             (map (\<lambda>n. \<lparr>role = user, content = replicate n CHR ''a''\<rparr>) [0..<100])) = 100
   \<and> hd (addToConversationHistory assistant ''new''
             (map (\<lambda>n. \<lparr>role = user, content = replicate n CHR ''a''\<rparr>) [0..<100]))
       = map (\<lambda>n. \<lparr>role = user, content = replicate n CHR ''a''\<rparr>) [0..<100] ! 1"
proof -
  let ?h = "map (\<lambda>n. \<lparr>role = user, content = replicate n CHR ''a''\<rparr>) [0..<100]"
  have L: "length ?h = 100" by simp
  from C5_history_cap [of ?h assistant "''new''"] L show ?thesis
    by blast
qed

section \<open>Properties of the circuit breaker\<close>



lemma execute_not_open:
  assumes "state cb \<noteq> OPEN"
  shows "execute clock fn (cb, w) =
           (case fn w of (Inr r, w') \<Rightarrow> (Inr r, onSuccess cb, w')
                       | (Inl e, w') \<Rightarrow> (Inl e, onFailure (clock w') cb, w'))"
  using assms by (simp add: execute_def Let_def)






section \<open>Properties of the retry wrapper\<close>

declare withRetry_loop.simps [simp del]

lemma withRetry_loop_resolve:
  assumes "0 \<le> attempt" "attempt \<le> maxRetries opts" "fn w = (Inr r, w1)"
  shows "withRetry_loop env fn opts attempt le w = (Inr r, w1)"
  using assms by (subst withRetry_loop.simps) simp



lemma withRetry_loop_retry:
  assumes "0 \<le> attempt" "attempt < maxRetries opts" "fn w = (Inl e, w1)"
          "isRetryable e (retryables opts)" "random env w1 = (rnd, w2)"
  shows "withRetry_loop env fn opts attempt le w =
           withRetry_loop env fn opts (attempt + 1) (Some e)
             (sleep env (calculateDelay (nat attempt) opts rnd)
                (case onRetry opts of
                   Some f \<Rightarrow> f (attempt + 1) e (calculateDelay (nat attempt) opts rnd) w2
                 | None \<Rightarrow> w2))"
  using assms by (subst withRetry_loop.simps) (simp add: Let_def)

lemma withRetry_never_runs:
  assumes "maxRetries opts < 0"
  shows "withRetry env fn opts w = (Inl None, w)"
  using assms unfolding withRetry_def by (subst withRetry_loop.simps) simp








lemma openai_merged:
  "merge_RetryOptions openai_retry_overrides =
     \<lparr>maxRetries = 2, baseDelayMs = 500, maxDelayMs = 10000, backoffMultiplier = 2,
      retryableErrors = Some [''429'', ''500'', ''502'', ''503'', ''504'', ''timeout'', ''ECONNRESET''],
      onRetry = Some (\<lambda>attempt error delayMs w. w)\<rparr>"
  by (simp add: merge_RetryOptions_def openai_retry_overrides_def DEFAULT_RetryOptions_def
      openai_retryableErrors_def)

lemma retryable_503:
  "isRetryable \<lparr>message = ''503 Service Unavailable'', name = ''Error'', code = ''''\<rparr>
     [''429'', ''500'', ''502'', ''503'', ''504'', ''timeout'', ''ECONNRESET'']"
  by (simp add: isRetryable_def toLowerCase_def toLowerCase_char_def str_includes_def sublist_code)




section \<open>Default options\<close>

text \<open>
  Claim C9, as stated, fails: with no overrides the breaker's \<open>failureThreshold\<close> is 5
  and the retry wrapper's \<open>maxRetries\<close> is 3.
\<close>

theorem C9_defaults_counterexample:
  "\<not> (failureThreshold (merge_CircuitBreakerOptions ''openai'' no_circuit_overrides) = 3
      \<and> maxRetries (merge_RetryOptions (no_retry_overrides :: unit PartialRetryOptions)) = 2)"
  by (simp add: merge_CircuitBreakerOptions_def no_circuit_overrides_def
      DEFAULT_failureThreshold_def)

text \<open>
  Claim C9, amended. With no overrides the breaker uses \<open>failureThreshold = 5\<close>,
  \<open>successThreshold = 2\<close> and a timeout of 30000 ms, and the retry wrapper uses
  \<open>maxRetries = 3\<close>, a base delay of 500 ms, the multiplier 2 and a maximum delay of
  10000 ms. The values \<open>failureThreshold = 3\<close> and \<open>maxRetries = 2\<close> are the overrides that
  the OpenAI, Deepgram and ElevenLabs adapters pass, with base delays of 500, 500 and
  1000 ms; their \<open>successThreshold\<close> is 2 and their multiplier is the default 2.
\<close>

theorem C9_defaults:
  "merge_CircuitBreakerOptions cname no_circuit_overrides =
     \<lparr>circuitName = cname, failureThreshold = 5, successThreshold = 2, timeout = 30000\<rparr>
   \<and> maxRetries (merge_RetryOptions no_retry_overrides) = 3
   \<and> baseDelayMs (merge_RetryOptions no_retry_overrides) = 500
   \<and> maxDelayMs (merge_RetryOptions no_retry_overrides) = 10000
   \<and> backoffMultiplier (merge_RetryOptions no_retry_overrides) = 2
   \<and> retryableErrors (merge_RetryOptions no_retry_overrides) = Some DEFAULT_retryableErrors
   \<and> fst (getCircuitBreaker cname no_circuit_overrides Map.empty) =
       new_CircuitBreaker
         \<lparr>circuitName = cname, failureThreshold = 5, successThreshold = 2, timeout = 30000\<rparr>
   \<and> merge_CircuitBreakerOptions ''openai'' openai_circuit_overrides =
       \<lparr>circuitName = ''openai'', failureThreshold = 3, successThreshold = 2, timeout = 30000\<rparr>
   \<and> merge_CircuitBreakerOptions ''deepgram'' deepgram_circuit_overrides =
       \<lparr>circuitName = ''deepgram'', failureThreshold = 3, successThreshold = 2, timeout = 30000\<rparr>
   \<and> merge_CircuitBreakerOptions ''elevenlabs'' elevenlabs_circuit_overrides =
       \<lparr>circuitName = ''elevenlabs'', failureThreshold = 3, successThreshold = 2,
        timeout = 60000\<rparr>
   \<and> maxRetries (merge_RetryOptions openai_retry_overrides) = 2
   \<and> maxRetries (merge_RetryOptions deepgram_retry_overrides) = 2
   \<and> maxRetries (merge_RetryOptions elevenlabs_retry_overrides) = 2
   \<and> baseDelayMs (merge_RetryOptions openai_retry_overrides) = 500
   \<and> baseDelayMs (merge_RetryOptions deepgram_retry_overrides) = 500
   \<and> baseDelayMs (merge_RetryOptions elevenlabs_retry_overrides) = 1000
   \<and> backoffMultiplier (merge_RetryOptions openai_retry_overrides) = 2
   \<and> backoffMultiplier (merge_RetryOptions deepgram_retry_overrides) = 2
   \<and> backoffMultiplier (merge_RetryOptions elevenlabs_retry_overrides) = 2"
  by (simp add: merge_CircuitBreakerOptions_def no_circuit_overrides_def
      DEFAULT_failureThreshold_def DEFAULT_successThreshold_def DEFAULT_timeout_def
      merge_RetryOptions_def no_retry_overrides_def DEFAULT_RetryOptions_def
      getCircuitBreaker_def Let_def openai_circuit_overrides_def deepgram_circuit_overrides_def
      elevenlabs_circuit_overrides_def openai_retry_overrides_def
      deepgram_retry_overrides_def elevenlabs_retry_overrides_def)

section \<open>Properties of the streaming generation call\<close>

lemma foldl_consume_chunk:
  "foldl (consume_chunk config) (c, n, u) cs =
     (deliver_tokens config (tokens_of cs) c,
      n + length (tokens_of cs),
      foldl (\<lambda>u c. case chunk_usage c of Some v \<Rightarrow> Some v | None \<Rightarrow> u) u cs)"
  by (induction cs arbitrary: c n u)
     (simp_all add: consume_chunk_def deliver_tokens_def tokens_of_def Let_def)

lemma observed_in_time:
  assumes "ends_at a < limit"
  shows "observed limit a = (map snd (chunks a), ending a, ends_at a)"
  using assms by (simp add: observed_def)

lemma observed_late:
  assumes "\<not> ends_at a < limit"
  shows "observed limit a =
           (map snd (filter (\<lambda>tc. fst tc < limit) (chunks a)), on_abort a, limit)"
  using assms by (simp add: observed_def)

lemma stream_threw:
  assumes "ends_at (sdk (requests w)) < STREAM_TIMEOUT_MS"
          "ending (sdk (requests w)) = Threw e" "name e \<noteq> ''AbortError''"
  shows "streamLLMWithTracking sdk config sid w =
           (Inl e,
            w\<lparr>requests := Suc (requests w),
              wall_clock := wall_clock w + ends_at (sdk (requests w)),
              caller := deliver_tokens config (tokens_of (map snd (chunks (sdk (requests w)))))
                          (caller w)\<rparr>)"
  using assms
  by (simp add: streamLLMWithTracking_def Let_def observed_in_time foldl_consume_chunk)

lemma stream_completed:
  assumes "ends_at (sdk (requests w)) < STREAM_TIMEOUT_MS"
          "ending (sdk (requests w)) = Completed"
  shows "fst (streamLLMWithTracking sdk config sid w) = Inr ()"
    and "caller (snd (streamLLMWithTracking sdk config sid w)) =
           onDone config (wall_clock w + ends_at (sdk (requests w)))
             (usage_of (map snd (chunks (sdk (requests w)))))
             (deliver_tokens config (tokens_of (map snd (chunks (sdk (requests w))))) (caller w))"
    and "requests (snd (streamLLMWithTracking sdk config sid w)) = Suc (requests w)"
    and "wall_clock (snd (streamLLMWithTracking sdk config sid w)) =
           wall_clock w + ends_at (sdk (requests w))"
    and "rolls (snd (streamLLMWithTracking sdk config sid w)) = rolls w"
  using assms
  by (simp_all add: streamLLMWithTracking_def Let_def observed_in_time foldl_consume_chunk
      usage_of_def)

text \<open>
  An attempt that is still running when the signal is aborted: what becomes of it depends
  on what the client does. Only an error named \<^verbatim>\<open>AbortError\<close> becomes the timeout error.
\<close>

lemma stream_abort_ends:
  assumes "\<not> ends_at (sdk (requests w)) < STREAM_TIMEOUT_MS"
          "on_abort (sdk (requests w)) = Completed"
  shows "fst (streamLLMWithTracking sdk config sid w) = Inr ()"
    and "caller (snd (streamLLMWithTracking sdk config sid w)) =
           onDone config (wall_clock w + STREAM_TIMEOUT_MS)
             (usage_of (map snd (filter (\<lambda>tc. fst tc < STREAM_TIMEOUT_MS)
                                    (chunks (sdk (requests w))))))
             (deliver_tokens config
                (tokens_of (map snd (filter (\<lambda>tc. fst tc < STREAM_TIMEOUT_MS)
                                       (chunks (sdk (requests w))))))
                (caller w))"
    and "requests (snd (streamLLMWithTracking sdk config sid w)) = Suc (requests w)"
  using assms
  by (simp_all add: streamLLMWithTracking_def Let_def observed_late foldl_consume_chunk
      usage_of_def)

lemma stream_abort_throws:
  assumes "\<not> ends_at (sdk (requests w)) < STREAM_TIMEOUT_MS"
          "on_abort (sdk (requests w)) = Threw e"
  shows "fst (streamLLMWithTracking sdk config sid w) =
           Inl (if name e = ''AbortError'' then timeout_error else e)"
    and "requests (snd (streamLLMWithTracking sdk config sid w)) = Suc (requests w)"
  using assms
  by (simp_all add: streamLLMWithTracking_def Let_def observed_late foldl_consume_chunk)

lemma deliver_tokens_append:
  "deliver_tokens config (ts1 @ ts2) c = deliver_tokens config ts2 (deliver_tokens config ts1 c)"
  by (simp add: deliver_tokens_def)

section \<open>Properties of the silence timer\<close>

lemma handleTranscript_blank:
  assumes "trim transcript = []"
  shows "handleTranscript t transcript isFinal s = s"
  using assms by (simp add: handleTranscript_def)

lemma handleTranscript_timers:
  assumes "trim transcript \<noteq> []"
  shows "silenceTimer (handleTranscript t transcript isFinal s) = Some (nextHandle s)"
    and "timers (handleTranscript t transcript isFinal s) =
           filter (\<lambda>tm. Some (handle tm) \<noteq> silenceTimer s \<and> Some (handle tm) \<noteq> autoEndTimer s)
             (timers s)
           @ [\<lparr>handle = nextHandle s, due = t + 1800, action = SilenceElapsed\<rparr>]"
    and "nextHandle (handleTranscript t transcript isFinal s) = Suc (nextHandle s)"
  using assms
  by (simp_all add: handleTranscript_def setTimeout_def clearTimeout_def Let_def
      split: option.splits)

text \<open>
  Claim C8, amended. A fragment whose text is not blank, final or not, cancels the
  pending silence timer (and the auto-end timer) and arms a new silence timer due 1800 ms
  after the fragment; a fragment that is empty or all white space is ignored and leaves
  the session, and so the silence timer, as it was.
\<close>

theorem C8_silence_timer_reset:
  "(trim transcript \<noteq> [] \<longrightarrow>
      silenceTimer (handleTranscript t transcript isFinal s) = Some (nextHandle s)
      \<and> timers (handleTranscript t transcript isFinal s) =
          filter (\<lambda>tm. Some (handle tm) \<noteq> silenceTimer s \<and> Some (handle tm) \<noteq> autoEndTimer s)
            (timers s)
          @ [\<lparr>handle = nextHandle s, due = t + 1800, action = SilenceElapsed\<rparr>])
   \<and> (trim transcript = [] \<longrightarrow> handleTranscript t transcript isFinal s = s)"
  by (simp add: handleTranscript_blank handleTranscript_timers)

text \<open>
  Claim C8, as stated, fails for a blank fragment: the silence timer armed at time 0 is
  still the one due at 1800 after a fragment of two spaces at time 1000.
\<close>

theorem C8_silence_timer_reset_counterexample:
  "timers (handleTranscript 0 ''hello'' True fresh_session) =
     [\<lparr>handle = 0, due = 1200000, action = SoftLimit\<rparr>,
      \<lparr>handle = 1, due = 1800000, action = HardLimit\<rparr>,
      \<lparr>handle = 2, due = 1800, action = SilenceElapsed\<rparr>]
   \<and> timers (handleTranscript 1000 ''  '' False (handleTranscript 0 ''hello'' True fresh_session)) =
     [\<lparr>handle = 0, due = 1200000, action = SoftLimit\<rparr>,
      \<lparr>handle = 1, due = 1800000, action = HardLimit\<rparr>,
      \<lparr>handle = 2, due = 1800, action = SilenceElapsed\<rparr>]"
  by code_simp

theorem C8_silence_timer_reset_witness:
  "trim ''hello'' \<noteq> []
   \<and> silenceTimer (handleTranscript 5 ''hello'' False fresh_session) = Some 2
   \<and> timers (handleTranscript 5 ''hello'' False fresh_session) =
       [\<lparr>handle = 0, due = 1200000, action = SoftLimit\<rparr>,
        \<lparr>handle = 1, due = 1800000, action = HardLimit\<rparr>,
        \<lparr>handle = 2, due = 1805, action = SilenceElapsed\<rparr>]
   \<and> trim '' '' = []
   \<and> handleTranscript 5 '' '' True fresh_session = fresh_session"
proof -
  have h1: "trim ''hello'' \<noteq> []" by code_simp
  have h2: "trim '' '' = []" by code_simp
  from C8_silence_timer_reset [of "''hello''" 5 False fresh_session] h1
  have a: "silenceTimer (handleTranscript 5 ''hello'' False fresh_session)
             = Some (nextHandle fresh_session)
           \<and> timers (handleTranscript 5 ''hello'' False fresh_session) =
               filter (\<lambda>tm. Some (handle tm) \<noteq> silenceTimer fresh_session
                            \<and> Some (handle tm) \<noteq> autoEndTimer fresh_session)
                 (timers fresh_session)
               @ [\<lparr>handle = nextHandle fresh_session, due = 5 + 1800, action = SilenceElapsed\<rparr>]"
    by blast
  from C8_silence_timer_reset [of "'' ''" 5 True fresh_session] h2
  have b: "handleTranscript 5 '' '' True fresh_session = fresh_session" by blast
  from a have a': "silenceTimer (handleTranscript 5 ''hello'' False fresh_session) = Some 2
           \<and> timers (handleTranscript 5 ''hello'' False fresh_session) =
               [\<lparr>handle = 0, due = 1200000, action = SoftLimit\<rparr>,
                \<lparr>handle = 1, due = 1800000, action = HardLimit\<rparr>,
                \<lparr>handle = 2, due = 1805, action = SilenceElapsed\<rparr>]"
    by (simp add: fresh_session_def)
  from h1 h2 a' b show ?thesis by blast
qed

section \<open>Properties of the retried generation call\<close>

lemma openai_retry_facts:
  "maxRetries (merge_RetryOptions openai_retry_overrides) = 2"
  "retryables (merge_RetryOptions openai_retry_overrides) = openai_retryableErrors"
  "onRetry (merge_RetryOptions openai_retry_overrides) = Some (\<lambda>attempt error delayMs w. w)"
  by (simp_all add: openai_merged retryables_def openai_retryableErrors_def)

lemma llm_env_random:
  "random (llm_env draw) w = (draw (rolls w), w\<lparr>rolls := Suc (rolls w)\<rparr>)"
  by (simp add: llm_env_def)

text \<open>One failed attempt that is retried: the world before the next attempt.\<close>

lemma llm_retry_step:
  fixes config :: "'c StreamLLMConfig"
  assumes f: "streamLLMWithTracking sdk config sid w = (Inl e, w1)"
    and r: "isRetryable e openai_retryableErrors"
    and a: "0 \<le> attempt" "attempt < 2"
  shows "\<exists>w2. withRetry_loop (llm_env draw) (streamLLMWithTracking sdk config sid)
                 (merge_RetryOptions openai_retry_overrides) attempt le w
              = withRetry_loop (llm_env draw) (streamLLMWithTracking sdk config sid)
                 (merge_RetryOptions openai_retry_overrides) (attempt + 1) (Some e) w2
            \<and> requests w2 = requests w1 \<and> caller w2 = caller w1"
proof -
  let ?o = "merge_RetryOptions openai_retry_overrides :: 'c LLMWorld RetryOptions"
  from a(2) have lt: "attempt < maxRetries ?o" by (simp add: openai_retry_facts)
  let ?w2 = "w1\<lparr>rolls := Suc (rolls w1)\<rparr>"
  let ?d = "calculateDelay (nat attempt) ?o (draw (rolls w1))"
  have "withRetry_loop (llm_env draw) (streamLLMWithTracking sdk config sid) ?o attempt le w
        = withRetry_loop (llm_env draw) (streamLLMWithTracking sdk config sid) ?o (attempt + 1)
            (Some e) (sleep (llm_env draw) ?d ?w2)"
    using withRetry_loop_retry [where env = "llm_env draw"
            and fn = "streamLLMWithTracking sdk config sid" and opts = ?o and attempt = attempt
            and w = w and e = e and ?w1.0 = w1 and rnd = "draw (rolls w1)" and ?w2.0 = ?w2
            and le = le, OF a(1) lt f _ llm_env_random]
    using r by (simp add: openai_retry_facts)
  moreover have "requests (sleep (llm_env draw) ?d ?w2) = requests w1"
    "caller (sleep (llm_env draw) ?d ?w2) = caller w1"
    by (simp_all add: llm_env_def)
  ultimately show ?thesis by blast
qed

lemma streamLLMResponse_not_open:
  fixes config :: "'c StreamLLMConfig"
  assumes "state cb \<noteq> OPEN"
    and "withRetry (llm_env draw)
           (streamLLMWithTracking sdk config
              (case sessionId config of Some s \<Rightarrow> if s \<noteq> [] then s else ''unknown''
               | None \<Rightarrow> ''unknown''))
           (merge_RetryOptions openai_retry_overrides) w = (r, w')"
  shows "streamLLMResponse sdk draw config (cb, w) =
           (case r of Inr v \<Rightarrow> (Inr v, onSuccess cb, w')
                    | Inl e \<Rightarrow> (Inl e, onFailure (wall_clock w') cb, w'))"
  using assms by (simp add: streamLLMResponse_def Let_def execute_not_open split: sum.splits)

lemma timeout_then_completed:
  fixes config :: "'c StreamLLMConfig"
  assumes f0: "streamLLMWithTracking sdk config sid w = (Inl e, w1)"
    and rq: "requests w1 = Suc (requests w)"
    and rt: "isRetryable e openai_retryableErrors"
    and c1: "ends_at (sdk (Suc (requests w))) < STREAM_TIMEOUT_MS"
            "ending (sdk (Suc (requests w))) = Completed"
  shows "\<exists>w' t. withRetry (llm_env draw) (streamLLMWithTracking sdk config sid)
                 (merge_RetryOptions openai_retry_overrides) w = (Inr (), w')
              \<and> requests w' = requests w + 2
              \<and> caller w' = onDone config t (usage_of (map snd (chunks (sdk (Suc (requests w))))))
                   (deliver_tokens config (tokens_of (map snd (chunks (sdk (Suc (requests w))))))
                      (caller w1))"
proof -
  let ?fn = "streamLLMWithTracking sdk config sid"
  let ?o = "merge_RetryOptions openai_retry_overrides :: 'c LLMWorld RetryOptions"
  from llm_retry_step [OF f0 rt, of 0 draw None] obtain w2 where
    l0: "withRetry_loop (llm_env draw) ?fn ?o 0 None w
           = withRetry_loop (llm_env draw) ?fn ?o 1 (Some e) w2"
    and q2: "requests w2 = requests w1" and k2: "caller w2 = caller w1" by auto
  from c1 rq q2 have c1': "ends_at (sdk (requests w2)) < STREAM_TIMEOUT_MS"
    "ending (sdk (requests w2)) = Completed" by simp_all
  obtain r w3 where f1: "?fn w2 = (r, w3)" by (cases "?fn w2") auto
  from stream_completed [where sdk = sdk and w = w2 and config = config and sid = sid, OF c1'] f1
  have r: "r = Inr ()" and k3: "caller w3 =
      onDone config (wall_clock w2 + ends_at (sdk (requests w2)))
        (usage_of (map snd (chunks (sdk (requests w2)))))
        (deliver_tokens config (tokens_of (map snd (chunks (sdk (requests w2))))) (caller w2))"
    and q3: "requests w3 = Suc (requests w2)" by simp_all
  have l1: "withRetry_loop (llm_env draw) ?fn ?o 1 (Some e) w2 = (Inr (), w3)"
  proof (rule withRetry_loop_resolve [where fn = ?fn and w = w2 and attempt = 1 and opts = ?o
            and r = "()" and ?w1.0 = w3])
    show "(0::int) \<le> 1" by simp
    show "1 \<le> maxRetries ?o" by (simp add: openai_retry_facts(1))
    from f1 r show "?fn w2 = (Inr (), w3)" by simp
  qed
  from l0 l1 have "withRetry (llm_env draw) ?fn ?o w = (Inr (), w3)" by (simp add: withRetry_def)
  moreover from rq q2 q3 have "requests w3 = requests w + 2" by simp
  moreover from k3 k2 q2 rq have "caller w3 =
      onDone config (wall_clock w2 + ends_at (sdk (requests w2)))
        (usage_of (map snd (chunks (sdk (Suc (requests w))))))
        (deliver_tokens config (tokens_of (map snd (chunks (sdk (Suc (requests w)))))) (caller w1))"
    by simp
  ultimately show ?thesis by blast
qed

lemma session_onToken_fields:
  "fullResponse (session_onToken token s) = fullResponse s @ token"
  "(\<exists>a. audio s = Some a \<and> tts a) \<Longrightarrow>
     effects (session_onToken token s) = effects s @ [TTSAddText token]"
  "(\<exists>a. audio s = Some a \<and> tts a) \<Longrightarrow> (\<exists>a. audio (session_onToken token s) = Some a \<and> tts a)"
  by (auto simp: session_onToken_def addTTSText_def split: option.splits)

lemma deliver_tokens_session:
  assumes "onToken config = session_onToken"
  shows "fullResponse (deliver_tokens config ts s) = fullResponse s @ concat ts"
    and "(\<exists>a. audio s = Some a \<and> tts a) \<Longrightarrow>
           effects (deliver_tokens config ts s) = effects s @ map TTSAddText ts"
proof -
  have step: "deliver_tokens config (t # ts) s = deliver_tokens config ts (session_onToken t s)"
    for t ts s by (simp add: deliver_tokens_def assms)
  show "fullResponse (deliver_tokens config ts s) = fullResponse s @ concat ts"
  proof (induction ts arbitrary: s)
    case Nil
    show ?case by (simp add: deliver_tokens_def)
  next
    case (Cons t ts)
    show ?case unfolding step Cons.IH by (simp add: session_onToken_fields(1))
  qed
  show "(\<exists>a. audio s = Some a \<and> tts a) \<Longrightarrow>
           effects (deliver_tokens config ts s) = effects s @ map TTSAddText ts"
  proof (induction ts arbitrary: s)
    case Nil
    show ?case by (simp add: deliver_tokens_def)
  next
    case (Cons t ts)
    from Cons.prems have a: "\<exists>a. audio (session_onToken t s) = Some a \<and> tts a"
      by (rule session_onToken_fields(3))
    show ?case unfolding step Cons.IH [OF a]
      by (simp add: session_onToken_fields(2) [OF Cons.prems])
  qed
qed

text \<open>
  Claim C10. When an attempt of the generation stream fails with a retryable error
  after delivering tokens and the next attempt completes, one call of
  \<open>streamLLMResponse\<close> succeeds after two requests, and the caller has then seen
  \<open>onToken\<close> for the tokens of the failed attempt, \<open>onToken\<close> for the tokens of the
  next attempt, and \<open>onDone\<close>: the output of the failed attempt is not rolled back. For
  the session's \<open>onToken\<close> the reply accumulated is the concatenation of the tokens of
  both attempts, and each of them has been forwarded to synthesis.
\<close>

theorem C10_retry_keeps_tokens:
  fixes config :: "'c StreamLLMConfig"
  assumes "state cb \<noteq> OPEN"
    and "ends_at (sdk (requests w)) < STREAM_TIMEOUT_MS"
    and "ending (sdk (requests w)) = Threw e" and "name e \<noteq> ''AbortError''"
    and "isRetryable e openai_retryableErrors"
    and "ends_at (sdk (Suc (requests w))) < STREAM_TIMEOUT_MS"
    and "ending (sdk (Suc (requests w))) = Completed"
  shows
    "fst (streamLLMResponse sdk draw config (cb, w)) = Inr ()
     \<and> requests (snd (snd (streamLLMResponse sdk draw config (cb, w)))) = requests w + 2
     \<and> (\<exists>t. caller (snd (snd (streamLLMResponse sdk draw config (cb, w)))) =
            onDone config t (usage_of (map snd (chunks (sdk (Suc (requests w))))))
              (deliver_tokens config
                 (tokens_of (map snd (chunks (sdk (requests w))))
                  @ tokens_of (map snd (chunks (sdk (Suc (requests w))))))
                 (caller w)))
     \<and> (onToken sconfig = session_onToken \<longrightarrow>
          fullResponse (deliver_tokens sconfig (ts1 @ ts2) s) = fullResponse s @ concat ts1 @ concat ts2
          \<and> ((\<exists>a. audio s = Some a \<and> tts a) \<longrightarrow>
               effects (deliver_tokens sconfig (ts1 @ ts2) s)
                 = effects s @ map TTSAddText ts1 @ map TTSAddText ts2))"
proof -
  define sid where "sid = (case sessionId config of
      Some s \<Rightarrow> if s \<noteq> [] then s else ''unknown'' | None \<Rightarrow> ''unknown'')"
  let ?ts1 = "tokens_of (map snd (chunks (sdk (requests w))))"
  let ?ts2 = "tokens_of (map snd (chunks (sdk (Suc (requests w)))))"
  let ?w1 = "w\<lparr>requests := Suc (requests w),
               wall_clock := wall_clock w + ends_at (sdk (requests w)),
               caller := deliver_tokens config ?ts1 (caller w)\<rparr>"
  have f0: "streamLLMWithTracking sdk config sid w = (Inl e, ?w1)"
    using stream_threw [where sdk = sdk and w = w and config = config and sid = sid
            and e = e, OF assms(2,3,4)] .
  have q1: "requests ?w1 = Suc (requests w)" by simp
  from timeout_then_completed [OF f0 q1 assms(5,6,7), of draw] obtain w' t where
    wr: "withRetry (llm_env draw) (streamLLMWithTracking sdk config sid)
           (merge_RetryOptions openai_retry_overrides) w = (Inr (), w')"
    and q: "requests w' = requests w + 2"
    and c: "caller w' = onDone config t (usage_of (map snd (chunks (sdk (Suc (requests w))))))
              (deliver_tokens config ?ts2 (caller ?w1))" by blast
  from streamLLMResponse_not_open [OF assms(1) wr [unfolded sid_def]]
  have r: "streamLLMResponse sdk draw config (cb, w) = (Inr (), onSuccess cb, w')" by simp
  from c have c': "caller w' = onDone config t (usage_of (map snd (chunks (sdk (Suc (requests w))))))
              (deliver_tokens config (?ts1 @ ?ts2) (caller w))"
    by (simp add: deliver_tokens_append)
  have s: "onToken sconfig = session_onToken \<longrightarrow>
          fullResponse (deliver_tokens sconfig (ts1 @ ts2) s) = fullResponse s @ concat ts1 @ concat ts2
          \<and> ((\<exists>a. audio s = Some a \<and> tts a) \<longrightarrow>
               effects (deliver_tokens sconfig (ts1 @ ts2) s)
                 = effects s @ map TTSAddText ts1 @ map TTSAddText ts2)"
    using deliver_tokens_session [where config = sconfig and ts = "ts1 @ ts2" and s = s] by simp
  from r q c' s show ?thesis by (simp only: fst_conv snd_conv) blast
qed

lemma openaiCircuit_closed: "state openaiCircuit \<noteq> OPEN"
  by (simp add: openaiCircuit_def getCircuitBreaker_def new_CircuitBreaker_def Let_def)

text \<open>
  With a client that throws an error named \<^verbatim>\<open>AbortError\<close> when its signal is aborted,
  the timeout is what the \<^verbatim>\<open>catch\<close> block of \<^verbatim>\<open>streamLLMWithTracking\<close> was written for:
  each of the three attempts throws \<open>LLM response timeout\<close>, which is retryable, and the
  breaker counts one failure.
\<close>

lemma named_AbortError_surfaced:
  "fst (streamLLMResponse dom_abort_sdk half_draw token_log_config (openaiCircuit, quiet_world []))
     = Inl (Some timeout_error)
   \<and> isRetryable timeout_error openai_retryableErrors
   \<and> requests (snd (snd (streamLLMResponse dom_abort_sdk half_draw token_log_config
                           (openaiCircuit, quiet_world [])))) = 3
   \<and> failures (fst (snd (streamLLMResponse dom_abort_sdk half_draw token_log_config
                           (openaiCircuit, quiet_world [])))) = 1"
  by code_simp

text \<open>
  Claim C6, on the code. The first request is still running after 30000 ms. When the
  client ends the iteration on abort, \<open>streamLLMResponse\<close> returns normally after one
  request: \<open>onDone\<close> has been called, nothing was retried, the breaker has counted no
  failure, and the session has taken the partial reply \<open>Hel\<close> into its history as the
  reply. When the client throws its own abort error, whose name is \<^verbatim>\<open>Error\<close>, that
  error is thrown on unchanged after one request: it is not the timeout error and the
  retry wrapper does not classify it as retryable.
\<close>

theorem C6_timeout_not_surfaced:
  "\<not> ends_at (slow_stream_sdk 0) < STREAM_TIMEOUT_MS
   \<and> fst (streamLLMResponse slow_stream_sdk half_draw token_log_config
             (openaiCircuit, quiet_world [])) = Inr ()
   \<and> caller (snd (snd (streamLLMResponse slow_stream_sdk half_draw token_log_config
                         (openaiCircuit, quiet_world [])))) = [''Hel'', ''<done>'']
   \<and> requests (snd (snd (streamLLMResponse slow_stream_sdk half_draw token_log_config
                           (openaiCircuit, quiet_world [])))) = 1
   \<and> failures (fst (snd (streamLLMResponse slow_stream_sdk half_draw token_log_config
                           (openaiCircuit, quiet_world [])))) = 0
   \<and> conversationHistory
        (caller (snd (processUserInput slow_stream_sdk half_draw plain_collaborators ''s1''
                        ''hello'' (openaiCircuit, quiet_world fresh_session))))
       = [greeting_message, \<lparr>role = user, content = ''hello''\<rparr>,
          \<lparr>role = assistant, content = ''Hel''\<rparr>]
   \<and> \<not> ends_at (slow_request_sdk 0) < STREAM_TIMEOUT_MS
   \<and> fst (streamLLMResponse slow_request_sdk half_draw token_log_config
             (openaiCircuit, quiet_world [])) = Inl (Some APIUserAbortError)
   \<and> \<not> isRetryable APIUserAbortError openai_retryableErrors
   \<and> requests (snd (snd (streamLLMResponse slow_request_sdk half_draw token_log_config
                           (openaiCircuit, quiet_world [])))) = 1"
  by code_simp

theorem C10_retry_keeps_tokens_witness:
  "tokens_of (map snd (chunks (flaky_sdk 0))) = [''Hel'']
   \<and> fst (streamLLMResponse flaky_sdk half_draw token_log_config (openaiCircuit, quiet_world []))
       = Inr ()
   \<and> requests (snd (snd (streamLLMResponse flaky_sdk half_draw token_log_config
                           (openaiCircuit, quiet_world [])))) = 2
   \<and> caller (snd (snd (streamLLMResponse flaky_sdk half_draw token_log_config
                         (openaiCircuit, quiet_world []))))
       = [''Hel'', ''Hello'', '' there'', ''<done>'']
   \<and> fullResponse (deliver_tokens (session_config plain_collaborators fresh_session)
                      ([''Hel''] @ [''Hello'', '' there'']) fresh_session) = ''HelHello there''
   \<and> effects (deliver_tokens (session_config plain_collaborators fresh_session)
                      ([''Hel''] @ [''Hello'', '' there'']) fresh_session)
       = [TTSAddText ''Hel'', TTSAddText ''Hello'', TTSAddText '' there'']"
proof -
  let ?w = "quiet_world ([] :: string list)"
  let ?e = "\<lparr>message = ''503 Service Unavailable'', name = ''Error'', code = ''''\<rparr>"
  let ?sc = "session_config plain_collaborators fresh_session"
  have q: "requests ?w = 0" by (simp add: quiet_world_def)
  have h: "ends_at (flaky_sdk (requests ?w)) < STREAM_TIMEOUT_MS"
    "ending (flaky_sdk (requests ?w)) = Threw ?e" "name ?e \<noteq> ''AbortError''"
    "ends_at (flaky_sdk (Suc (requests ?w))) < STREAM_TIMEOUT_MS"
    "ending (flaky_sdk (Suc (requests ?w))) = Completed"
    by (simp_all add: q flaky_sdk_def STREAM_TIMEOUT_MS_def)
  have r: "isRetryable ?e openai_retryableErrors"
    using retryable_503 by (simp add: openai_retryableErrors_def)
  have t1: "tokens_of (map snd (chunks (flaky_sdk 0))) = [''Hel'']"
    and t2: "tokens_of (map snd (chunks (flaky_sdk (Suc 0)))) = [''Hello'', '' there'']"
    and u: "usage_of (map snd (chunks (flaky_sdk (Suc 0)))) = None"
    by (simp_all add: flaky_sdk_def tokens_of_def usage_of_def)
  have sc: "onToken ?sc = session_onToken" by (simp add: session_config_def)
  have au: "\<exists>a. audio fresh_session = Some a \<and> tts a" by (simp add: fresh_session_def)
  note T = C10_retry_keeps_tokens [where cb = openaiCircuit and sdk = flaky_sdk and w = ?w
      and e = ?e and config = token_log_config and draw = half_draw and sconfig = ?sc
      and ?ts1.0 = "[''Hel'']" and ?ts2.0 = "[''Hello'', '' there'']" and s = fresh_session,
      OF openaiCircuit_closed h(1,2,3) r h(4,5)]
  from T have a: "fst (streamLLMResponse flaky_sdk half_draw token_log_config (openaiCircuit, ?w))
      = Inr ()"
    and b: "requests (snd (snd (streamLLMResponse flaky_sdk half_draw token_log_config
              (openaiCircuit, ?w)))) = requests ?w + 2"
    and c: "\<exists>t. caller (snd (snd (streamLLMResponse flaky_sdk half_draw token_log_config
              (openaiCircuit, ?w)))) =
            onDone token_log_config t (usage_of (map snd (chunks (flaky_sdk (Suc (requests ?w))))))
              (deliver_tokens token_log_config
                 (tokens_of (map snd (chunks (flaky_sdk (requests ?w))))
                  @ tokens_of (map snd (chunks (flaky_sdk (Suc (requests ?w))))))
                 (caller ?w))"
    and d: "onToken ?sc = session_onToken \<longrightarrow>
          fullResponse (deliver_tokens ?sc ([''Hel''] @ [''Hello'', '' there'']) fresh_session)
            = fullResponse fresh_session @ concat [''Hel''] @ concat [''Hello'', '' there'']
          \<and> ((\<exists>a. audio fresh_session = Some a \<and> tts a) \<longrightarrow>
               effects (deliver_tokens ?sc ([''Hel''] @ [''Hello'', '' there'']) fresh_session)
                 = effects fresh_session @ map TTSAddText [''Hel'']
                     @ map TTSAddText [''Hello'', '' there''])"
    by blast+
  from c have c': "caller (snd (snd (streamLLMResponse flaky_sdk half_draw token_log_config
              (openaiCircuit, ?w)))) = [''Hel'', ''Hello'', '' there'', ''<done>'']"
    by (simp add: q t1 t2 u token_log_config_def deliver_tokens_def quiet_world_def)
  from d sc au have d': "fullResponse (deliver_tokens ?sc ([''Hel''] @ [''Hello'', '' there''])
        fresh_session) = ''HelHello there''
      \<and> effects (deliver_tokens ?sc ([''Hel''] @ [''Hello'', '' there'']) fresh_session)
          = [TTSAddText ''Hel'', TTSAddText ''Hello'', TTSAddText '' there'']"
    by (simp add: fresh_session_def)
  from t1 a b c' d' q show ?thesis by simp
qed

subsection \<open>Utterances and the segmenter of the specification\<close>





































text \<open>
  Two kinds of sequences are left out of the theorem above. When the silence timeout
  elapses while the reply to the previous utterance is still being generated, nothing is
  dispatched and the timer is gone: the fragment \<open>wait\<close> stays in the buffer. And a
  final fragment that repeats the end of the buffer replaces the buffer.
\<close>

lemma left_out_sequences:
  "\<not> unhindered (segmenter_start fresh_session) barge_in_trace
   \<and> utterances (run_events plain_collaborators barge_in_trace fresh_session) = [''hello'']
   \<and> currentTranscript (run_events plain_collaborators barge_in_trace fresh_session) = ''wait''
   \<and> silence_pending (run_events plain_collaborators barge_in_trace fresh_session) = []
   \<and> \<not> unhindered (segmenter_start fresh_session)
         [(0, Transcript ''my sink is leaking'' True), (500, Transcript ''is leaking'' True),
          (2300, Token ''Ok'')]
   \<and> utterances (run_events plain_collaborators
         [(0, Transcript ''my sink is leaking'' True), (500, Transcript ''is leaking'' True),
          (2300, Token ''Ok'')] fresh_session) = [''is leaking'']"
  by code_simp

subsection \<open>A fragment during a generation call\<close>

text \<open>
  Claim C1, on the code. The fragment at 2000 arrives while the processing flag is set.
  Nothing is cancelled: the flag stays set, the token that comes after the fragment is
  forwarded to the synthesis, the reply is flushed and completes, and the whole reply is
  appended to the conversation history.
\<close>

theorem C1_fragment_during_run:
  "isProcessing (run_events plain_collaborators (take 2 barge_in_trace) fresh_session)
   \<and> barge_in_trace ! 2 = (2000, Transcript ''wait'' True)
   \<and> isProcessing (run_events plain_collaborators (take 3 barge_in_trace) fresh_session)
   \<and> new_effects (run_events plain_collaborators (take 3 barge_in_trace) fresh_session)
        (run_events plain_collaborators barge_in_trace fresh_session)
       = [TTSAddText '' there'', TTSFlush, AppendTranscript ''ai'' ''Hi there'']
   \<and> conversationHistory (run_events plain_collaborators barge_in_trace fresh_session)
       = [greeting_message, \<lparr>role = user, content = ''hello''\<rparr>,
          \<lparr>role = assistant, content = ''Hi there''\<rparr>]"
  by code_simp

section \<open>Properties of ending the call\<close>

lemma run_schedule_snoc:
  "run_schedule collab (sched @ [act]) se = perform collab (run_schedule collab sched se) act"
  by (simp add: run_schedule_def)

lemma run_schedule_append:
  "run_schedule collab (xs @ ys) se = run_schedule collab ys (run_schedule collab xs se)"
  by (simp add: run_schedule_def)

lemma run_schedule_invariant:
  assumes "P se" and "\<And>se act. P se \<Longrightarrow> P (perform collab se act)"
  shows "P (run_schedule collab sched se)"
  using assms(1)
proof (induction sched rule: rev_induct)
  case Nil
  then show ?case by (simp add: run_schedule_def)
next
  case (snoc act sched)
  then show ?case by (simp add: run_schedule_snoc assms(2))
qed

text \<open>The blocks before the last \<^verbatim>\<open>await\<close> only add to the calls made.\<close>

lemma createUnverifiedRequest_adds:
  "createUnverifiedRequest s =
     s\<lparr>effects := effects s @ new_effects s (createUnverifiedRequest s)\<rparr>"
  "filter P (new_effects s (createUnverifiedRequest s)) =
     (if P CreateUnverifiedRequest then new_effects s (createUnverifiedRequest s) else [])"
  by (simp_all add: createUnverifiedRequest_def new_effects_def)

lemma sendPostCallMediaRequest_adds:
  "sendPostCallMediaRequest collab tc c s =
     s\<lparr>effects := effects s @ new_effects s (sendPostCallMediaRequest collab tc c s)\<rparr>"
  "count_list (new_effects s (sendPostCallMediaRequest collab tc c s)) DeepgramClose = 0"
  "count_list (new_effects s (sendPostCallMediaRequest collab tc c s)) TTSClose = 0"
  "count_list (new_effects s (sendPostCallMediaRequest collab tc c s)) EndRecording = 0"
  "filter is_call_cost (new_effects s (sendPostCallMediaRequest collab tc c s)) = []"
  by (simp_all add: sendPostCallMediaRequest_def new_effects_def Let_def split: option.splits)

lemma endRecording_adds:
  "endRecording s =
     s\<lparr>effects := effects s @ (if callRecordId s = None then [] else [EndRecording])\<rparr>"
  by (simp add: endRecording_def)

lemma new_effects_append [simp]: "new_effects s (s\<lparr>effects := effects s @ ys\<rparr>) = ys"
  by (simp add: new_effects_def)

lemma new_effects_same [simp]: "new_effects s s = []"
  by (simp add: new_effects_def)

text \<open>
  A block from a suspended call to the next: the stage it reaches, and the session with
  the calls it has added.
\<close>

lemma end_recording_adds:
  "fst (end_recording a s) = a\<lparr>stage := AwaitingRecording\<rparr>"
  "snd (end_recording a s) =
     s\<lparr>effects := effects s @ (if callRecordId s = None then [] else [EndRecording])\<rparr>"
  by (simp_all add: end_recording_def endRecording_adds)

lemma end_media_request_adds:
  "fst (end_media_request collab a s) =
     a\<lparr>stage := (if length (conversationHistory s) > 2 then AwaitingMedia
                  else AwaitingRecording)\<rparr>"
  "snd (end_media_request collab a s) =
     s\<lparr>effects := effects s @ new_effects s (snd (end_media_request collab a s))\<rparr>"
  using sendPostCallMediaRequest_adds(1) [of collab "ctx_tenantContext a" _ s]
  by (simp_all add: end_media_request_def Let_def end_recording_adds)

lemma end_unverified_request_adds:
  "stage (fst (end_unverified_request collab a s)) \<in>
     {AwaitingUnverified, AwaitingMedia, AwaitingRecording}"
  "fst (end_unverified_request collab a s) =
     a\<lparr>stage := stage (fst (end_unverified_request collab a s))\<rparr>"
  "snd (end_unverified_request collab a s) =
     s\<lparr>effects := effects s @ new_effects s (snd (end_unverified_request collab a s))\<rparr>"
  using createUnverifiedRequest_adds(1) [of s] end_media_request_adds [of collab a s]
  by (simp_all add: end_unverified_request_def Let_def)

text \<open>What a fragment, the start of a call of \<^verbatim>\<open>end()\<close> and its last block do to the session.\<close>

lemma handleTranscript_rest:
  "effects (handleTranscript t transcript isFinal s) = effects s"
  "audio (handleTranscript t transcript isFinal s) = audio s"
  "durationTimers (handleTranscript t transcript isFinal s) = durationTimers s"
  "autoEndTimer (handleTranscript t transcript isFinal s) = autoEndTimer s"
  "conversationHistory (handleTranscript t transcript isFinal s) = conversationHistory s"
  "issueData (handleTranscript t transcript isFinal s) = issueData s"
  "tenantContext (handleTranscript t transcript isFinal s) = tenantContext s"
  "fromPhone (handleTranscript t transcript isFinal s) = fromPhone s"
  "toPhone (handleTranscript t transcript isFinal s) = toPhone s"
  "callRecordId (handleTranscript t transcript isFinal s) = callRecordId s"
  "nextHandle s \<le> nextHandle (handleTranscript t transcript isFinal s)"
  by (simp_all add: handleTranscript_def setTimeout_def clearTimeout_def Let_def
      split: option.splits)

lemma cleanupAudio_fields:
  "effects (cleanupAudio s) =
     effects s @ (case audio s of
                    Some a \<Rightarrow> (if deepgram a then [DeepgramClose] else [])
                              @ (if tts a then [TTSClose] else [])
                  | None \<Rightarrow> [])"
  "audio (cleanupAudio s) = map_option (\<lambda>a. a\<lparr>deepgram := False, tts := False\<rparr>) (audio s)"
  "timers (cleanupAudio s) = timers s"
  "durationTimers (cleanupAudio s) = durationTimers s"
  "autoEndTimer (cleanupAudio s) = autoEndTimer s"
  "silenceTimer (cleanupAudio s) = silenceTimer s"
  "nextHandle (cleanupAudio s) = nextHandle s"
  "conversationHistory (cleanupAudio s) = conversationHistory s"
  "issueData (cleanupAudio s) = issueData s"
  "tenantContext (cleanupAudio s) = tenantContext s"
  "fromPhone (cleanupAudio s) = fromPhone s"
  "toPhone (cleanupAudio s) = toPhone s"
  "callRecordId (cleanupAudio s) = callRecordId s"
  by (cases "audio s"; simp add: cleanupAudio_def Let_def)+

lemma clearDurationTimers_fields:
  "effects (clearDurationTimers s) = effects s"
  "audio (clearDurationTimers s) = audio s"
  "timers (clearDurationTimers s) =
     filter (\<lambda>tm. Some (handle tm) \<noteq> softLimitTimer (durationTimers s)
                 \<and> Some (handle tm) \<noteq> hardLimitTimer (durationTimers s)) (timers s)"
  "softLimitTimer (durationTimers (clearDurationTimers s)) = None"
  "hardLimitTimer (durationTimers (clearDurationTimers s)) = None"
  "autoEndTimer (clearDurationTimers s) = autoEndTimer s"
  "silenceTimer (clearDurationTimers s) = silenceTimer s"
  "nextHandle (clearDurationTimers s) = nextHandle s"
  "conversationHistory (clearDurationTimers s) = conversationHistory s"
  "issueData (clearDurationTimers s) = issueData s"
  "tenantContext (clearDurationTimers s) = tenantContext s"
  "fromPhone (clearDurationTimers s) = fromPhone s"
  "toPhone (clearDurationTimers s) = toPhone s"
  "callRecordId (clearDurationTimers s) = callRecordId s"
  by (simp_all add: clearDurationTimers_def clearTimeout_def Let_def conj_commute
      split: option.splits)

lemma end_finish_fields:
  "fst (end_finish a s) = a\<lparr>stage := Ended\<rparr>"
  "effects (snd (end_finish a s)) =
     effects s @ [TrackTwilioVoice (callDurationMs a)] @ audio_costs s
       @ (case audio s of
            Some x \<Rightarrow> (if deepgram x then [DeepgramClose] else [])
                      @ (if tts x then [TTSClose] else [])
          | None \<Rightarrow> [])"
  "audio (snd (end_finish a s)) = map_option (\<lambda>a. a\<lparr>deepgram := False, tts := False\<rparr>) (audio s)"
  "timers (snd (end_finish a s)) =
     filter (\<lambda>tm. Some (handle tm) \<noteq> softLimitTimer (durationTimers s)
                 \<and> Some (handle tm) \<noteq> hardLimitTimer (durationTimers s))
       (filter (\<lambda>tm. Some (handle tm) \<noteq> ctx_silenceTimer a) (timers s))"
  "softLimitTimer (durationTimers (snd (end_finish a s))) = None"
  "hardLimitTimer (durationTimers (snd (end_finish a s))) = None"
  "autoEndTimer (snd (end_finish a s)) = autoEndTimer s"
  "silenceTimer (snd (end_finish a s)) = silenceTimer s"
  "nextHandle (snd (end_finish a s)) = nextHandle s"
  "conversationHistory (snd (end_finish a s)) = conversationHistory s"
  "issueData (snd (end_finish a s)) = issueData s"
  "tenantContext (snd (end_finish a s)) = tenantContext s"
  "fromPhone (snd (end_finish a s)) = fromPhone s"
  "toPhone (snd (end_finish a s)) = toPhone s"
  "callRecordId (snd (end_finish a s)) = callRecordId s"
  by (simp_all add: end_finish_def end_cleanup_def end_track_costs_def Let_def
      clearDurationTimers_fields cleanupAudio_fields clearTimeout_def
      split: option.splits)

lemma new_effects_eq:
  assumes "effects s' = effects s @ ys"
  shows "new_effects s s' = ys"
  using assms by (simp add: new_effects_def)

lemma new_effects_trans:
  assumes "length (effects s0) \<le> length (effects s)" and "effects s' = effects s @ ys"
  shows "new_effects s0 s' = new_effects s0 s @ ys"
  using assms by (simp add: new_effects_def)

lemma VoiceSession_end_fields:
  "ctx_silenceTimer (fst (VoiceSession_end collab t s)) = silenceTimer s"
  "ctx_tenantContext (fst (VoiceSession_end collab t s)) = tenantContext s"
  "callDurationMs (fst (VoiceSession_end collab t s)) = t - callStartTime s"
  "stage (fst (VoiceSession_end collab t s)) \<in> {AwaitingUnverified, AwaitingMedia, AwaitingRecording}"
  "effects (snd (VoiceSession_end collab t s)) =
     effects s @ new_effects s (snd (VoiceSession_end collab t s))"
  "timers (snd (VoiceSession_end collab t s)) =
     filter (\<lambda>tm. Some (handle tm) \<noteq> autoEndTimer s) (timers s)"
  "autoEndTimer (snd (VoiceSession_end collab t s)) = None"
  "audio (snd (VoiceSession_end collab t s)) = audio s"
  "durationTimers (snd (VoiceSession_end collab t s)) = durationTimers s"
  "silenceTimer (snd (VoiceSession_end collab t s)) = silenceTimer s"
  "nextHandle (snd (VoiceSession_end collab t s)) = nextHandle s"
  "conversationHistory (snd (VoiceSession_end collab t s)) = conversationHistory s"
  "issueData (snd (VoiceSession_end collab t s)) = issueData s"
  "tenantContext (snd (VoiceSession_end collab t s)) = tenantContext s"
  "fromPhone (snd (VoiceSession_end collab t s)) = fromPhone s"
  "toPhone (snd (VoiceSession_end collab t s)) = toPhone s"
  "callRecordId (snd (VoiceSession_end collab t s)) = callRecordId s"
proof -
  define s0 where "s0 = (case autoEndTimer s of
      Some h \<Rightarrow> (clearTimeout h s)\<lparr>autoEndTimer := None\<rparr> | None \<Rightarrow> s)"
  define a0 where "a0 = \<lparr>stage = AwaitingUnverified, ctx_silenceTimer = silenceTimer s0,
      ctx_tenantContext = tenantContext s0, callDurationMs = t - callStartTime s0\<rparr>"
  have v: "VoiceSession_end collab t s = end_unverified_request collab a0 s0"
    by (simp add: VoiceSession_end_def handleEndSession_def Let_def s0_def a0_def)
  have k: "effects s0 = effects s" "silenceTimer s0 = silenceTimer s"
    "tenantContext s0 = tenantContext s" "callStartTime s0 = callStartTime s"
    "timers s0 = filter (\<lambda>tm. Some (handle tm) \<noteq> autoEndTimer s) (timers s)"
    "autoEndTimer s0 = None" "audio s0 = audio s" "durationTimers s0 = durationTimers s"
    "nextHandle s0 = nextHandle s" "conversationHistory s0 = conversationHistory s"
    "issueData s0 = issueData s" "fromPhone s0 = fromPhone s" "toPhone s0 = toPhone s"
    "callRecordId s0 = callRecordId s"
    by (simp_all add: s0_def clearTimeout_def split: option.splits)
  note u = end_unverified_request_adds [of collab a0 s0]
  define ys where "ys = new_effects s0 (snd (end_unverified_request collab a0 s0))"
  have sn: "snd (VoiceSession_end collab t s) = s0\<lparr>effects := effects s0 @ ys\<rparr>"
    using u(3) by (simp add: v ys_def)
  have fs: "fst (VoiceSession_end collab t s)
      = a0\<lparr>stage := stage (fst (end_unverified_request collab a0 s0))\<rparr>"
    using u(2) by (simp add: v)
  show "ctx_silenceTimer (fst (VoiceSession_end collab t s)) = silenceTimer s"
    by (simp add: fs a0_def k)
  show "ctx_tenantContext (fst (VoiceSession_end collab t s)) = tenantContext s"
    by (simp add: fs a0_def k)
  show "callDurationMs (fst (VoiceSession_end collab t s)) = t - callStartTime s"
    by (simp add: fs a0_def k)
  show "stage (fst (VoiceSession_end collab t s)) \<in> {AwaitingUnverified, AwaitingMedia, AwaitingRecording}"
    using u(1) by (simp add: v)
  have e: "effects (snd (VoiceSession_end collab t s)) = effects s @ ys" by (simp add: sn k)
  from new_effects_eq [OF e] e
  show "effects (snd (VoiceSession_end collab t s)) =
     effects s @ new_effects s (snd (VoiceSession_end collab t s))" by simp
  show "timers (snd (VoiceSession_end collab t s)) =
     filter (\<lambda>tm. Some (handle tm) \<noteq> autoEndTimer s) (timers s)" by (simp add: sn k)
  show "autoEndTimer (snd (VoiceSession_end collab t s)) = None" by (simp add: sn k)
  show "audio (snd (VoiceSession_end collab t s)) = audio s" by (simp add: sn k)
  show "durationTimers (snd (VoiceSession_end collab t s)) = durationTimers s" by (simp add: sn k)
  show "silenceTimer (snd (VoiceSession_end collab t s)) = silenceTimer s" by (simp add: sn k)
  show "nextHandle (snd (VoiceSession_end collab t s)) = nextHandle s" by (simp add: sn k)
  show "conversationHistory (snd (VoiceSession_end collab t s)) = conversationHistory s"
    by (simp add: sn k)
  show "issueData (snd (VoiceSession_end collab t s)) = issueData s" by (simp add: sn k)
  show "tenantContext (snd (VoiceSession_end collab t s)) = tenantContext s" by (simp add: sn k)
  show "fromPhone (snd (VoiceSession_end collab t s)) = fromPhone s" by (simp add: sn k)
  show "toPhone (snd (VoiceSession_end collab t s)) = toPhone s" by (simp add: sn k)
  show "callRecordId (snd (VoiceSession_end collab t s)) = callRecordId s" by (simp add: sn k)
qed

text \<open>A suspended call resumed before its last block only adds to the calls made.\<close>

lemma resume_adds:
  assumes "stage a \<noteq> AwaitingRecording"
  shows "snd (handleEndSession_resume collab a s) =
           s\<lparr>effects := effects s @ new_effects s (snd (handleEndSession_resume collab a s))\<rparr>"
  using assms end_media_request_adds(2) [of collab a s]
  by (cases "stage a") (simp_all add: handleEndSession_resume_def end_recording_adds)

lemma resume_fields:
  "ctx_silenceTimer (fst (handleEndSession_resume collab a s)) = ctx_silenceTimer a"
  "ctx_tenantContext (fst (handleEndSession_resume collab a s)) = ctx_tenantContext a"
  "effects (snd (handleEndSession_resume collab a s)) =
     effects s @ new_effects s (snd (handleEndSession_resume collab a s))"
  "autoEndTimer (snd (handleEndSession_resume collab a s)) = autoEndTimer s"
  "silenceTimer (snd (handleEndSession_resume collab a s)) = silenceTimer s"
  "nextHandle (snd (handleEndSession_resume collab a s)) = nextHandle s"
  "conversationHistory (snd (handleEndSession_resume collab a s)) = conversationHistory s"
  "issueData (snd (handleEndSession_resume collab a s)) = issueData s"
  "tenantContext (snd (handleEndSession_resume collab a s)) = tenantContext s"
  "fromPhone (snd (handleEndSession_resume collab a s)) = fromPhone s"
  "toPhone (snd (handleEndSession_resume collab a s)) = toPhone s"
  "callRecordId (snd (handleEndSession_resume collab a s)) = callRecordId s"
proof -
  show "ctx_silenceTimer (fst (handleEndSession_resume collab a s)) = ctx_silenceTimer a"
    by (cases "stage a")
       (simp_all add: handleEndSession_resume_def end_media_request_adds end_recording_adds
          end_finish_fields)
  show "ctx_tenantContext (fst (handleEndSession_resume collab a s)) = ctx_tenantContext a"
    by (cases "stage a")
       (simp_all add: handleEndSession_resume_def end_media_request_adds end_recording_adds
          end_finish_fields)
  have f: "stage a = AwaitingRecording \<Longrightarrow>
      handleEndSession_resume collab a s = end_finish a s"
    by (simp add: handleEndSession_resume_def)
  define ys where "ys = new_effects s (snd (handleEndSession_resume collab a s))"
  have g: "stage a \<noteq> AwaitingRecording \<Longrightarrow>
      snd (handleEndSession_resume collab a s) = s\<lparr>effects := effects s @ ys\<rparr>"
    unfolding ys_def by (rule resume_adds)
  show "effects (snd (handleEndSession_resume collab a s)) =
     effects s @ new_effects s (snd (handleEndSession_resume collab a s))"
  proof (cases "stage a = AwaitingRecording")
    case True
    from new_effects_eq [OF end_finish_fields(2) [of a s]] end_finish_fields(2) [of a s]
    show ?thesis by (simp add: f [OF True])
  next
    case False
    from g [OF False] show ?thesis by (simp add: ys_def [symmetric])
  qed
  show "autoEndTimer (snd (handleEndSession_resume collab a s)) = autoEndTimer s"
    by (cases "stage a = AwaitingRecording") (simp_all add: f g end_finish_fields)
  show "silenceTimer (snd (handleEndSession_resume collab a s)) = silenceTimer s"
    by (cases "stage a = AwaitingRecording") (simp_all add: f g end_finish_fields)
  show "nextHandle (snd (handleEndSession_resume collab a s)) = nextHandle s"
    by (cases "stage a = AwaitingRecording") (simp_all add: f g end_finish_fields)
  show "conversationHistory (snd (handleEndSession_resume collab a s)) = conversationHistory s"
    by (cases "stage a = AwaitingRecording") (simp_all add: f g end_finish_fields)
  show "issueData (snd (handleEndSession_resume collab a s)) = issueData s"
    by (cases "stage a = AwaitingRecording") (simp_all add: f g end_finish_fields)
  show "tenantContext (snd (handleEndSession_resume collab a s)) = tenantContext s"
    by (cases "stage a = AwaitingRecording") (simp_all add: f g end_finish_fields)
  show "fromPhone (snd (handleEndSession_resume collab a s)) = fromPhone s"
    by (cases "stage a = AwaitingRecording") (simp_all add: f g end_finish_fields)
  show "toPhone (snd (handleEndSession_resume collab a s)) = toPhone s"
    by (cases "stage a = AwaitingRecording") (simp_all add: f g end_finish_fields)
  show "callRecordId (snd (handleEndSession_resume collab a s)) = callRecordId s"
    by (cases "stage a = AwaitingRecording") (simp_all add: f g end_finish_fields)
qed

lemma perform_shape:
  obtains (call) t where "act = CallEnd t"
      "perform collab (s, ends) act
         = (snd (VoiceSession_end collab t s), ends @ [fst (VoiceSession_end collab t s)])"
    | (resume) i where "act = Resume i" "i < length ends"
      "perform collab (s, ends) act
         = (snd (handleEndSession_resume collab (ends ! i) s),
            ends[i := fst (handleEndSession_resume collab (ends ! i) s)])"
    | (fragment) t transcript isFinal where "act = Fragment t transcript isFinal"
      "perform collab (s, ends) act = (handleTranscript t transcript isFinal s, ends)"
    | (idle) i where "act = Resume i" "perform collab (s, ends) act = (s, ends)"
proof (cases act)
  case (CallEnd t)
  then show ?thesis using call by (simp add: Let_def)
next
  case (Resume i)
  show ?thesis
  proof (cases "i < length ends")
    case True
    with Resume show ?thesis using resume by (simp add: Let_def)
  next
    case False
    with Resume show ?thesis using idle by simp
  qed
next
  case (Fragment t transcript isFinal)
  then show ?thesis using fragment by simp
qed

lemma media_request_tally:
  "count_list (new_effects s (snd (end_media_request collab a s))) DeepgramClose = 0"
  "count_list (new_effects s (snd (end_media_request collab a s))) TTSClose = 0"
  "filter is_call_cost (new_effects s (snd (end_media_request collab a s))) = []"
  "count_list (new_effects s (snd (end_media_request collab a s))) EndRecording
     = (if length (conversationHistory s) > 2 \<or> callRecordId s = None then 0 else 1)"
  "\<not> length (conversationHistory s) > 2 \<Longrightarrow>
     filter is_sms (new_effects s (snd (end_media_request collab a s))) = []"
  using sendPostCallMediaRequest_adds [where collab = collab and tc = "ctx_tenantContext a"
          and s = s]
  by (simp_all add: end_media_request_def Let_def end_recording_adds)

lemma recording_tally:
  "count_list (new_effects s (snd (end_recording a s))) DeepgramClose = 0"
  "count_list (new_effects s (snd (end_recording a s))) TTSClose = 0"
  "filter is_call_cost (new_effects s (snd (end_recording a s))) = []"
  "count_list (new_effects s (snd (end_recording a s))) EndRecording
     = (if callRecordId s = None then 0 else 1)"
  "filter is_sms (new_effects s (snd (end_recording a s))) = []"
  by (simp_all add: end_recording_adds)

lemma audio_costs_tally:
  "count_list (audio_costs s) DeepgramClose = 0" "count_list (audio_costs s) TTSClose = 0"
  "filter is_call_cost (audio_costs s) = []" "count_list (audio_costs s) EndRecording = 0"
  "filter is_sms (audio_costs s) = []"
  by (simp_all add: audio_costs_def split: option.splits)

lemma finish_tally:
  "count_list (new_effects s (snd (end_finish a s))) DeepgramClose
     = (case audio s of Some x \<Rightarrow> if deepgram x then 1 else 0 | None \<Rightarrow> 0)"
  "count_list (new_effects s (snd (end_finish a s))) TTSClose
     = (case audio s of Some x \<Rightarrow> if tts x then 1 else 0 | None \<Rightarrow> 0)"
  "length (filter is_call_cost (new_effects s (snd (end_finish a s)))) = 1"
  "count_list (new_effects s (snd (end_finish a s))) EndRecording = 0"
  "filter is_sms (new_effects s (snd (end_finish a s))) = []"
  unfolding new_effects_eq [OF end_finish_fields(2) [of a s]]
  by (simp_all add: audio_costs_tally split: option.splits)

lemma end_unverified_request_cases:
  obtains (awaits) "fst (end_unverified_request collab a s) = a\<lparr>stage := AwaitingUnverified\<rparr>"
      "snd (end_unverified_request collab a s) = createUnverifiedRequest s"
    | (passes) "end_unverified_request collab a s = end_media_request collab a s"
proof -
  define c where "c \<longleftrightarrow>
    (vstate (verificationData s) = UNVERIFIED \<or> vstate (verificationData s) = VERIFYING)
    \<and> \<not> createdUnverifiedRequest (verificationData s) \<and> verifier s
    \<and> propertyContext s \<noteq> None"
  have e: "end_unverified_request collab a s
      = (if c then (a\<lparr>stage := AwaitingUnverified\<rparr>, createUnverifiedRequest s)
         else end_media_request collab a s)"
    unfolding end_unverified_request_def Let_def c_def ..
  show thesis
  proof (cases c)
    case True
    with e show ?thesis using awaits by simp
  next
    case False
    with e show ?thesis using passes by simp
  qed
qed

lemma createUnverifiedRequest_tally:
  "count_list (new_effects s (createUnverifiedRequest s)) DeepgramClose = 0"
  "count_list (new_effects s (createUnverifiedRequest s)) TTSClose = 0"
  "filter is_call_cost (new_effects s (createUnverifiedRequest s)) = []"
  "count_list (new_effects s (createUnverifiedRequest s)) EndRecording = 0"
  "filter is_sms (new_effects s (createUnverifiedRequest s)) = []"
  by (simp_all add: createUnverifiedRequest_def new_effects_def)

lemma unverified_request_tally:
  "count_list (new_effects s (snd (end_unverified_request collab a s))) DeepgramClose = 0"
  "count_list (new_effects s (snd (end_unverified_request collab a s))) TTSClose = 0"
  "filter is_call_cost (new_effects s (snd (end_unverified_request collab a s))) = []"
  "count_list (new_effects s (snd (end_unverified_request collab a s))) EndRecording
     = (if stage (fst (end_unverified_request collab a s)) = AwaitingRecording
           \<and> callRecordId s \<noteq> None then 1 else 0)"
  "length (filter is_sms (new_effects s (snd (end_unverified_request collab a s))))
     = (if stage (fst (end_unverified_request collab a s)) = AwaitingUnverified then 0
        else length (filter is_sms (new_effects s (snd (end_media_request collab a s)))))"
proof -
  note m = media_request_tally [where s = s and collab = collab and a = a]
  note st = end_media_request_adds(1) [where s = s and collab = collab and a = a]
  show "count_list (new_effects s (snd (end_unverified_request collab a s))) DeepgramClose = 0"
    by (cases rule: end_unverified_request_cases [of collab a s])
       (simp_all add: createUnverifiedRequest_tally m)
  show "count_list (new_effects s (snd (end_unverified_request collab a s))) TTSClose = 0"
    by (cases rule: end_unverified_request_cases [of collab a s])
       (simp_all add: createUnverifiedRequest_tally m)
  show "filter is_call_cost (new_effects s (snd (end_unverified_request collab a s))) = []"
    by (cases rule: end_unverified_request_cases [of collab a s])
       (simp_all add: createUnverifiedRequest_tally m)
  show "count_list (new_effects s (snd (end_unverified_request collab a s))) EndRecording
     = (if stage (fst (end_unverified_request collab a s)) = AwaitingRecording
           \<and> callRecordId s \<noteq> None then 1 else 0)"
    by (cases rule: end_unverified_request_cases [of collab a s])
       (simp_all add: createUnverifiedRequest_tally m st)
  show "length (filter is_sms (new_effects s (snd (end_unverified_request collab a s))))
     = (if stage (fst (end_unverified_request collab a s)) = AwaitingUnverified then 0
        else length (filter is_sms (new_effects s (snd (end_media_request collab a s)))))"
    by (cases rule: end_unverified_request_cases [of collab a s])
       (simp_all add: createUnverifiedRequest_tally st)
qed

lemma sendPostCallMediaRequest_static:
  assumes "fromPhone s = fromPhone s0" "toPhone s = toPhone s0"
  shows "new_effects s (sendPostCallMediaRequest collab tc c s)
           = new_effects s0 (sendPostCallMediaRequest collab tc c s0)"
proof (cases c)
  case None
  then show ?thesis by (simp add: sendPostCallMediaRequest_def)
next
  case (Some cat)
  show ?thesis
  proof (cases "\<not> shouldRequestMedia (Some cat) \<or> fromPhone s0 = [] \<or> toPhone s0 = []")
    case True
    with Some assms show ?thesis by (auto simp add: sendPostCallMediaRequest_def)
  next
    case False
    with Some assms show ?thesis
      by (simp add: sendPostCallMediaRequest_def Let_def new_effects_def)
  qed
qed

lemma sms_of_media_request:
  assumes "conversationHistory s = conversationHistory s0" "issueData s = issueData s0"
    "fromPhone s = fromPhone s0" "toPhone s = toPhone s0"
    "ctx_tenantContext a = tenantContext s0"
  shows "length (filter is_sms (new_effects s (snd (end_media_request collab a s))))
           = sms_per_call collab s0"
proof (cases "length (conversationHistory s0) > 2")
  case True
  with assms sendPostCallMediaRequest_static [OF assms(3,4)] show ?thesis
    by (simp add: sms_per_call_def end_media_request_def Let_def)
next
  case False
  with assms show ?thesis
    by (simp add: sms_per_call_def end_media_request_def end_recording_adds)
qed

lemma VoiceSession_end_tally:
  "count_list (new_effects s (snd (VoiceSession_end collab t s))) DeepgramClose = 0"
  "count_list (new_effects s (snd (VoiceSession_end collab t s))) TTSClose = 0"
  "filter is_call_cost (new_effects s (snd (VoiceSession_end collab t s))) = []"
  "count_list (new_effects s (snd (VoiceSession_end collab t s))) EndRecording
     = (if stage (fst (VoiceSession_end collab t s)) = AwaitingRecording
           \<and> callRecordId s \<noteq> None then 1 else 0)"
  "length (filter is_sms (new_effects s (snd (VoiceSession_end collab t s))))
     = (if stage (fst (VoiceSession_end collab t s)) = AwaitingUnverified then 0
        else sms_per_call collab s)"
proof -
  define s0 where "s0 = (case autoEndTimer s of
      Some h \<Rightarrow> (clearTimeout h s)\<lparr>autoEndTimer := None\<rparr> | None \<Rightarrow> s)"
  define a0 where "a0 = \<lparr>stage = AwaitingUnverified, ctx_silenceTimer = silenceTimer s0,
      ctx_tenantContext = tenantContext s0, callDurationMs = t - callStartTime s0\<rparr>"
  have v: "VoiceSession_end collab t s = end_unverified_request collab a0 s0"
    by (simp add: VoiceSession_end_def handleEndSession_def Let_def s0_def a0_def)
  have k: "effects s0 = effects s" "tenantContext s0 = tenantContext s"
    "conversationHistory s0 = conversationHistory s"
    "issueData s0 = issueData s" "fromPhone s0 = fromPhone s" "toPhone s0 = toPhone s"
    "callRecordId s0 = callRecordId s"
    by (simp_all add: s0_def clearTimeout_def split: option.splits)
  have n: "new_effects s x = new_effects s0 x" for x by (simp add: new_effects_def k)
  have c: "ctx_tenantContext a0 = tenantContext s" by (simp add: a0_def k)
  note u = unverified_request_tally [where s = s0 and collab = collab and a = a0]
  note m = sms_of_media_request [where s = s0 and ?s0.0 = s and a = a0 and collab = collab,
      OF k(3,4,5,6) c]
  show "count_list (new_effects s (snd (VoiceSession_end collab t s))) DeepgramClose = 0"
    by (simp add: v n u)
  show "count_list (new_effects s (snd (VoiceSession_end collab t s))) TTSClose = 0"
    by (simp add: v n u)
  show "filter is_call_cost (new_effects s (snd (VoiceSession_end collab t s))) = []"
    by (simp add: v n u)
  show "count_list (new_effects s (snd (VoiceSession_end collab t s))) EndRecording
     = (if stage (fst (VoiceSession_end collab t s)) = AwaitingRecording
           \<and> callRecordId s \<noteq> None then 1 else 0)"
    by (simp add: v n u k)
  show "length (filter is_sms (new_effects s (snd (VoiceSession_end collab t s))))
     = (if stage (fst (VoiceSession_end collab t s)) = AwaitingUnverified then 0
        else sms_per_call collab s)"
    by (simp add: v n u m)
qed

text \<open>
  A suspended call resumed: what it adds of each kind, against the stage it was at and
  the stage it reaches.
\<close>

lemma resume_tally:
  shows "length (filter is_call_cost (new_effects s (snd (handleEndSession_resume collab a s)))) + (if stage a = Ended then 1 else 0)
           = (if stage (fst (handleEndSession_resume collab a s)) = Ended then (1::nat) else 0)"
    and "count_list (new_effects s (snd (handleEndSession_resume collab a s))) EndRecording
           + (if callRecordId s \<noteq> None \<and> stage a \<in> {AwaitingRecording, Ended} then 1 else 0)
           = (if callRecordId s \<noteq> None \<and> stage (fst (handleEndSession_resume collab a s)) \<in> {AwaitingRecording, Ended}
              then (1::nat) else 0)"
    and "length (filter is_sms (new_effects s (snd (handleEndSession_resume collab a s))))
           + (if stage a = AwaitingUnverified then 0
              else length (filter is_sms (new_effects s (snd (end_media_request collab a s)))))
           = (if stage (fst (handleEndSession_resume collab a s)) = AwaitingUnverified then 0
              else length (filter is_sms (new_effects s (snd (end_media_request collab a s)))))"
    and "count_list (new_effects s (snd (handleEndSession_resume collab a s))) DeepgramClose
           = (if stage a = AwaitingRecording
              then (case audio s of Some x \<Rightarrow> if deepgram x then 1 else 0 | None \<Rightarrow> 0) else 0)"
    and "count_list (new_effects s (snd (handleEndSession_resume collab a s))) TTSClose
           = (if stage a = AwaitingRecording
              then (case audio s of Some x \<Rightarrow> if tts x then 1 else 0 | None \<Rightarrow> 0) else 0)"
proof -
  note m = media_request_tally [where s = s and collab = collab and a = a]
  note st = end_media_request_adds(1) [where s = s and collab = collab and a = a]
  note r = recording_tally [where s = s and a = a]
  note f = finish_tally [where s = s and a = a]
  show "length (filter is_call_cost (new_effects s (snd (handleEndSession_resume collab a s)))) + (if stage a = Ended then 1 else 0)
           = (if stage (fst (handleEndSession_resume collab a s)) = Ended then (1::nat) else 0)"
    by (cases "stage a")
       (simp_all add: handleEndSession_resume_def m st r f end_recording_adds end_finish_fields)
  show "count_list (new_effects s (snd (handleEndSession_resume collab a s))) EndRecording
           + (if callRecordId s \<noteq> None \<and> stage a \<in> {AwaitingRecording, Ended} then 1 else 0)
           = (if callRecordId s \<noteq> None \<and> stage (fst (handleEndSession_resume collab a s)) \<in> {AwaitingRecording, Ended}
              then (1::nat) else 0)"
    by (cases "stage a")
       (simp_all add: handleEndSession_resume_def m st r f end_recording_adds end_finish_fields)
  show "length (filter is_sms (new_effects s (snd (handleEndSession_resume collab a s))))
           + (if stage a = AwaitingUnverified then 0
              else length (filter is_sms (new_effects s (snd (end_media_request collab a s)))))
           = (if stage (fst (handleEndSession_resume collab a s)) = AwaitingUnverified then 0
              else length (filter is_sms (new_effects s (snd (end_media_request collab a s)))))"
    by (cases "stage a")
       (simp_all add: handleEndSession_resume_def st r f end_recording_adds end_finish_fields)
  show "count_list (new_effects s (snd (handleEndSession_resume collab a s))) DeepgramClose
           = (if stage a = AwaitingRecording
              then (case audio s of Some x \<Rightarrow> if deepgram x then 1 else 0 | None \<Rightarrow> 0) else 0)"
    by (cases "stage a") (simp_all add: handleEndSession_resume_def m r f)
  show "count_list (new_effects s (snd (handleEndSession_resume collab a s))) TTSClose
           = (if stage a = AwaitingRecording
              then (case audio s of Some x \<Rightarrow> if tts x then 1 else 0 | None \<Rightarrow> 0) else 0)"
    by (cases "stage a") (simp_all add: handleEndSession_resume_def m r f)
qed

lemma sum_list_map_update:
  fixes w :: "'a \<Rightarrow> nat"
  assumes "i < length xs"
  shows "sum_list (map w (xs[i := y])) + w (xs ! i) = sum_list (map w xs) + w y"
  using assms
proof (induction xs arbitrary: i)
  case Nil
  then show ?case by simp
next
  case (Cons x xs)
  then show ?case by (cases i) (simp_all add: add.assoc add.left_commute)
qed

text \<open>
  Over a schedule the call cost has been tracked once for each call of \<^verbatim>\<open>end()\<close> that
  has ended, the recording has been ended once for each call that has come to that
  block, and the SMS of the media request have been sent once for each call that has
  come past the block of the unverified request.
\<close>

lemma schedule_tally:
  shows "length (filter is_call_cost (new_effects s0 (fst (run_schedule collab sched (s0, [])))))
           = sum_list (map (\<lambda>a. if stage a = Ended then 1 else 0)
                        (snd (run_schedule collab sched (s0, []))))"
    and "count_list (new_effects s0 (fst (run_schedule collab sched (s0, [])))) EndRecording
           = sum_list (map (\<lambda>a. if callRecordId s0 \<noteq> None
                                     \<and> stage a \<in> {AwaitingRecording, Ended} then 1 else 0)
                        (snd (run_schedule collab sched (s0, []))))"
    and "length (filter is_sms (new_effects s0 (fst (run_schedule collab sched (s0, [])))))
           = sum_list (map (\<lambda>a. if stage a = AwaitingUnverified then 0
                                 else sms_per_call collab s0)
                        (snd (run_schedule collab sched (s0, []))))"
proof -
  define paid :: "EndCall \<Rightarrow> nat" where "paid = (\<lambda>a. if stage a = Ended then 1 else 0)"
  define recorded :: "EndCall \<Rightarrow> nat" where
    "recorded = (\<lambda>a. if callRecordId s0 \<noteq> None \<and> stage a \<in> {AwaitingRecording, Ended}
                     then 1 else 0)"
  define asked :: "EndCall \<Rightarrow> nat" where
    "asked = (\<lambda>a. if stage a = AwaitingUnverified then 0 else sms_per_call collab s0)"
  define P where "P = (\<lambda>se. length (effects s0) \<le> length (effects (fst se))
      \<and> conversationHistory (fst se) = conversationHistory s0
      \<and> issueData (fst se) = issueData s0 \<and> tenantContext (fst se) = tenantContext s0
      \<and> fromPhone (fst se) = fromPhone s0 \<and> toPhone (fst se) = toPhone s0
      \<and> callRecordId (fst se) = callRecordId s0
      \<and> list_all (\<lambda>a. ctx_tenantContext a = tenantContext s0) (snd se)
      \<and> length (filter is_call_cost (new_effects s0 (fst se))) = sum_list (map paid (snd se))
      \<and> count_list (new_effects s0 (fst se)) EndRecording = sum_list (map recorded (snd se))
      \<and> length (filter is_sms (new_effects s0 (fst se))) = sum_list (map asked (snd se)))"
  have "P (run_schedule collab sched (s0, []))"
  proof (rule run_schedule_invariant)
    show "P (s0, [])" by (simp add: P_def)
  next
    fix se act
    assume p: "P se"
    obtain s ends where se: "se = (s, ends)" by (cases se) auto
    from p se have len: "length (effects s0) \<le> length (effects s)"
      and st: "conversationHistory s = conversationHistory s0" "issueData s = issueData s0"
        "tenantContext s = tenantContext s0" "fromPhone s = fromPhone s0"
        "toPhone s = toPhone s0" "callRecordId s = callRecordId s0"
      and tc: "list_all (\<lambda>a. ctx_tenantContext a = tenantContext s0) ends"
      and t1: "length (filter is_call_cost (new_effects s0 s)) = sum_list (map paid ends)"
      and t2: "count_list (new_effects s0 s) EndRecording = sum_list (map recorded ends)"
      and t3: "length (filter is_sms (new_effects s0 s)) = sum_list (map asked ends)"
      by (simp_all add: P_def)
    show "P (perform collab se act)"
    proof (cases rule: perform_shape [of act collab s ends])
      case (call t)
      define s' where "s' = snd (VoiceSession_end collab t s)"
      define a' where "a' = fst (VoiceSession_end collab t s)"
      define ys where "ys = new_effects s s'"
      note f = VoiceSession_end_fields [of collab t s, folded s'_def a'_def]
      note y = VoiceSession_end_tally [of s collab t, folded s'_def a'_def, folded ys_def]
      have e: "effects s' = effects s @ ys" using f(5) by (simp add: ys_def)
      have n: "new_effects s0 s' = new_effects s0 s @ ys" by (rule new_effects_trans [OF len e])
      have sk: "sms_per_call collab s = sms_per_call collab s0"
        using sms_of_media_request [where s = s and ?s0.0 = s0 and collab = collab
            and a = "\<lparr>stage = AwaitingUnverified, ctx_silenceTimer = silenceTimer s,
                       ctx_tenantContext = tenantContext s, callDurationMs = 0\<rparr>"] st
        by (simp add: sms_per_call_def [of collab s])
      have c1: "length (filter is_call_cost ys) = paid a'"
        using y(3) f(4) by (auto simp add: paid_def)
      have c2: "count_list ys EndRecording = recorded a'"
        using y(4) st f(4) by (auto simp add: recorded_def)
      have c3: "length (filter is_sms ys) = asked a'"
        using y(5) sk by (simp add: asked_def)
      have "P (s', ends @ [a'])"
        using len st tc t1 t2 t3 e n c1 c2 c3 f
        by (simp add: P_def)
      with call se show ?thesis by (simp add: s'_def a'_def)
    next
      case (resume i)
      define a where "a = ends ! i"
      define s' where "s' = snd (handleEndSession_resume collab a s)"
      define a' where "a' = fst (handleEndSession_resume collab a s)"
      define ys where "ys = new_effects s s'"
      note f = resume_fields [of collab a s, folded s'_def a'_def]
      note y = resume_tally [of s collab a, folded s'_def a'_def, folded ys_def]
      have e: "effects s' = effects s @ ys" using f(3) by (simp add: ys_def)
      have n: "new_effects s0 s' = new_effects s0 s @ ys" by (rule new_effects_trans [OF len e])
      from tc resume(2) have ca: "ctx_tenantContext a = tenantContext s0"
        by (simp add: list_all_length a_def)
      have k: "length (filter is_sms (new_effects s (snd (end_media_request collab a s))))
          = sms_per_call collab s0"
        by (rule sms_of_media_request [OF st(1,2,4,5) ca])
      have c1: "length (filter is_call_cost ys) + paid a = paid a'"
        using y(1) by (simp add: paid_def)
      have c2: "count_list ys EndRecording + recorded a = recorded a'"
        using y(2) st by (simp add: recorded_def)
      have c3: "length (filter is_sms ys) + asked a = asked a'"
        using y(3) unfolding k asked_def .
      note u1 = sum_list_map_update [OF resume(2), of paid a', folded a_def]
      note u2 = sum_list_map_update [OF resume(2), of recorded a', folded a_def]
      note u3 = sum_list_map_update [OF resume(2), of asked a', folded a_def]
      have tc': "list_all (\<lambda>a. ctx_tenantContext a = tenantContext s0) (ends[i := a'])"
        using tc ca f(2)
        by (auto simp add: list_all_iff dest!: subsetD [OF set_update_subset_insert])
      have "P (s', ends[i := a'])"
        using len st tc' t1 t2 t3 e n c1 c2 c3 u1 u2 u3 f
        by (simp add: P_def)
      with resume se show ?thesis by (simp add: s'_def a'_def a_def)
    next
      case (fragment t transcript isFinal)
      have "new_effects s0 (handleTranscript t transcript isFinal s) = new_effects s0 s"
        by (simp add: new_effects_def handleTranscript_rest)
      with p se fragment show ?thesis by (simp add: P_def handleTranscript_rest)
    next
      case idle
      with p se show ?thesis by simp
    qed
  qed
  then show "length (filter is_call_cost (new_effects s0 (fst (run_schedule collab sched (s0, [])))))
           = sum_list (map (\<lambda>a. if stage a = Ended then 1 else 0)
                        (snd (run_schedule collab sched (s0, []))))"
    and "count_list (new_effects s0 (fst (run_schedule collab sched (s0, [])))) EndRecording
           = sum_list (map (\<lambda>a. if callRecordId s0 \<noteq> None
                                     \<and> stage a \<in> {AwaitingRecording, Ended} then 1 else 0)
                        (snd (run_schedule collab sched (s0, []))))"
    and "length (filter is_sms (new_effects s0 (fst (run_schedule collab sched (s0, [])))))
           = sum_list (map (\<lambda>a. if stage a = AwaitingUnverified then 0
                                 else sms_per_call collab s0)
                        (snd (run_schedule collab sched (s0, []))))"
    by (simp_all add: P_def paid_def recorded_def asked_def)
qed

lemma not_pending_None [simp]: "not_pending None s"
  by (simp add: not_pending_def list_all_iff)

lemma not_pending_kept:
  assumes "not_pending h s" and "set (timers s') \<subseteq> set (timers s)"
  shows "not_pending h s'"
  using assms by (auto simp add: not_pending_def list_all_iff)

lemma not_pending_fragment:
  assumes "not_pending h s" and "below_next h s0" and "nextHandle s0 \<le> nextHandle s"
  shows "not_pending h (handleTranscript t transcript isFinal s)"
proof (cases "trim transcript = []")
  case True
  with assms(1) show ?thesis by (simp add: handleTranscript_blank)
next
  case False
  from assms show ?thesis
    by (cases h)
       (auto simp add: not_pending_def list_all_iff below_next_def
          handleTranscript_timers(2) [OF False])
qed

lemma end_finish_cancels:
  "set (timers (snd (end_finish a s))) \<subseteq> set (timers s)"
  "not_pending (ctx_silenceTimer a) (snd (end_finish a s))"
  "not_pending (softLimitTimer (durationTimers s)) (snd (end_finish a s))"
  "not_pending (hardLimitTimer (durationTimers s)) (snd (end_finish a s))"
  by (auto simp add: not_pending_def list_all_iff end_finish_fields(4))

lemma VoiceSession_end_cancels:
  "set (timers (snd (VoiceSession_end collab t s))) \<subseteq> set (timers s)"
  "not_pending (autoEndTimer s) (snd (VoiceSession_end collab t s))"
  by (auto simp add: not_pending_def list_all_iff VoiceSession_end_fields(6))

lemma resume_resources:
  assumes "stage a \<noteq> AwaitingRecording"
  shows "audio (snd (handleEndSession_resume collab a s)) = audio s"
    and "durationTimers (snd (handleEndSession_resume collab a s)) = durationTimers s"
    and "timers (snd (handleEndSession_resume collab a s)) = timers s"
    and "stage (fst (handleEndSession_resume collab a s)) = Ended \<longleftrightarrow> stage a = Ended"
    and "filter is_call_cost (new_effects s (snd (handleEndSession_resume collab a s))) = []"
proof -
  define ys where "ys = new_effects s (snd (handleEndSession_resume collab a s))"
  have g: "snd (handleEndSession_resume collab a s) = s\<lparr>effects := effects s @ ys\<rparr>"
    unfolding ys_def by (rule resume_adds [OF assms])
  show "audio (snd (handleEndSession_resume collab a s)) = audio s"
    and "durationTimers (snd (handleEndSession_resume collab a s)) = durationTimers s"
    and "timers (snd (handleEndSession_resume collab a s)) = timers s"
    by (simp_all add: g)
  show e: "stage (fst (handleEndSession_resume collab a s)) = Ended \<longleftrightarrow> stage a = Ended"
    using assms
    by (cases "stage a")
       (simp_all add: handleEndSession_resume_def end_media_request_adds(1) end_recording_adds(1))
  show "filter is_call_cost (new_effects s (snd (handleEndSession_resume collab a s))) = []"
    using resume_tally(1) [where s = s and collab = collab and a = a] e by (simp split: if_splits)
qed

lemma resume_finish:
  assumes "stage a = AwaitingRecording"
  shows "handleEndSession_resume collab a s = end_finish a s"
  using assms by (simp add: handleEndSession_resume_def)

lemma resume_timers_subset:
  "set (timers (snd (handleEndSession_resume collab a s))) \<subseteq> set (timers s)"
  by (cases "stage a = AwaitingRecording")
     (simp_all add: resume_finish end_finish_cancels(1) resume_resources(3))

text \<open>
  Over a schedule each audio adapter is closed at most once, and exactly once when a call
  of \<^verbatim>\<open>end()\<close> has ended: the closings so far and the adapters still open make up the
  adapters open at the start.
\<close>

lemma schedule_audio:
  fixes s0 :: VoiceSession
  defines "dg \<equiv> (\<lambda>s. case audio s of Some a \<Rightarrow> if deepgram a then 1 else (0::nat) | None \<Rightarrow> 0)"
    and "tt \<equiv> (\<lambda>s. case audio s of Some a \<Rightarrow> if tts a then 1 else (0::nat) | None \<Rightarrow> 0)"
  shows "(audio (fst (run_schedule collab sched (s0, []))) = None \<longleftrightarrow> audio s0 = None)
    \<and> count_list (new_effects s0 (fst (run_schedule collab sched (s0, [])))) DeepgramClose
        + dg (fst (run_schedule collab sched (s0, []))) = dg s0
    \<and> count_list (new_effects s0 (fst (run_schedule collab sched (s0, [])))) TTSClose
        + tt (fst (run_schedule collab sched (s0, []))) = tt s0
    \<and> (filter is_call_cost (new_effects s0 (fst (run_schedule collab sched (s0, [])))) \<noteq> []
         \<longrightarrow> dg (fst (run_schedule collab sched (s0, []))) = 0
             \<and> tt (fst (run_schedule collab sched (s0, []))) = 0)"
proof -
  define P where "P = (\<lambda>se :: VoiceSession \<times> EndCall list.
      length (effects s0) \<le> length (effects (fst se))
      \<and> (audio (fst se) = None \<longleftrightarrow> audio s0 = None)
      \<and> count_list (new_effects s0 (fst se)) DeepgramClose + dg (fst se) = dg s0
      \<and> count_list (new_effects s0 (fst se)) TTSClose + tt (fst se) = tt s0
      \<and> (filter is_call_cost (new_effects s0 (fst se)) \<noteq> [] \<longrightarrow> dg (fst se) = 0 \<and> tt (fst se) = 0))"
  have "P (run_schedule collab sched (s0, []))"
  proof (rule run_schedule_invariant)
    show "P (s0, [])" by (simp add: P_def)
  next
    fix se act
    assume p: "P se"
    obtain s ends where se: "se = (s, ends)" by (cases se) auto
    from p se have len: "length (effects s0) \<le> length (effects s)"
      and au: "audio s = None \<longleftrightarrow> audio s0 = None"
      and d: "count_list (new_effects s0 s) DeepgramClose + dg s = dg s0"
      and t: "count_list (new_effects s0 s) TTSClose + tt s = tt s0"
      and c: "filter is_call_cost (new_effects s0 s) \<noteq> [] \<longrightarrow> dg s = 0 \<and> tt s = 0"
      by (simp_all add: P_def)
    show "P (perform collab se act)"
    proof (cases rule: perform_shape [of act collab s ends])
      case (call t)
      define s' where "s' = snd (VoiceSession_end collab t s)"
      define ys where "ys = new_effects s s'"
      note f = VoiceSession_end_fields [of collab t s, folded s'_def]
      note y = VoiceSession_end_tally [of s collab t, folded s'_def, folded ys_def]
      have e: "effects s' = effects s @ ys" using f(5) by (simp add: ys_def)
      have n: "new_effects s0 s' = new_effects s0 s @ ys" by (rule new_effects_trans [OF len e])
      have k: "dg s' = dg s" "tt s' = tt s" by (simp_all add: dg_def tt_def f(8))
      have "P (s', ends @ [fst (VoiceSession_end collab t s)])"
        using len au d t c e n k y(1,2,3) f(8) by (simp add: P_def)
      with call se show ?thesis by (simp add: s'_def)
    next
      case (resume i)
      define a where "a = ends ! i"
      define s' where "s' = snd (handleEndSession_resume collab a s)"
      define ys where "ys = new_effects s s'"
      note f = resume_fields [of collab a s, folded s'_def]
      note y0 = resume_tally(4,5) [where s = s and collab = collab and a = a, folded s'_def,
          folded ys_def]
      have y: "count_list ys DeepgramClose = (if stage a = AwaitingRecording then dg s else 0)"
        "count_list ys TTSClose = (if stage a = AwaitingRecording then tt s else 0)"
        using y0 by (simp_all add: dg_def tt_def)
      have e: "effects s' = effects s @ ys" using f(3) by (simp add: ys_def)
      have n: "new_effects s0 s' = new_effects s0 s @ ys" by (rule new_effects_trans [OF len e])
      have "P (s', ends[i := fst (handleEndSession_resume collab a s)])"
      proof (cases "stage a = AwaitingRecording")
        case True
        have u: "audio s' = map_option (\<lambda>a. a\<lparr>deepgram := False, tts := False\<rparr>) (audio s)"
          by (simp add: s'_def resume_finish [OF True] end_finish_fields(3))
        have k: "dg s' = 0" "tt s' = 0" "audio s' = None \<longleftrightarrow> audio s = None"
          by (cases "audio s"; simp add: dg_def tt_def u)+
        show ?thesis using len au d t e n k y True by (simp add: P_def)
      next
        case False
        note r = resume_resources [OF False, where collab = collab and s = s, folded s'_def, folded ys_def]
        have k: "dg s' = dg s" "tt s' = tt s" by (simp_all add: dg_def tt_def r(1))
        show ?thesis using len au d t c e n k y r(1,5) False by (simp add: P_def)
      qed
      with resume se show ?thesis by (simp add: s'_def a_def)
    next
      case (fragment t transcript isFinal)
      have "new_effects s0 (handleTranscript t transcript isFinal s) = new_effects s0 s"
        by (simp add: new_effects_def handleTranscript_rest)
      with p se fragment show ?thesis
        by (simp add: P_def dg_def tt_def handleTranscript_rest)
    next
      case idle
      with p se show ?thesis by simp
    qed
  qed
  then show ?thesis by (simp add: P_def)
qed

text \<open>
  Over a schedule the auto-end timer is cancelled as soon as \<^verbatim>\<open>end()\<close> has been called,
  the duration timers as soon as a call has ended, and a timer cancelled stays so.
\<close>

lemma schedule_timers:
  assumes "held_handles_fresh s0"
  shows "(snd (run_schedule collab sched (s0, [])) \<noteq> []
           \<longrightarrow> autoEndTimer (fst (run_schedule collab sched (s0, []))) = None)
    \<and> (filter is_call_cost (new_effects s0 (fst (run_schedule collab sched (s0, [])))) \<noteq> []
         \<longrightarrow> softLimitTimer (durationTimers (fst (run_schedule collab sched (s0, [])))) = None
             \<and> hardLimitTimer (durationTimers (fst (run_schedule collab sched (s0, [])))) = None)
    \<and> (autoEndTimer (fst (run_schedule collab sched (s0, []))) = autoEndTimer s0
         \<or> not_pending (autoEndTimer s0) (fst (run_schedule collab sched (s0, []))))
    \<and> (softLimitTimer (durationTimers (fst (run_schedule collab sched (s0, []))))
           = softLimitTimer (durationTimers s0)
         \<or> not_pending (softLimitTimer (durationTimers s0)) (fst (run_schedule collab sched (s0, []))))
    \<and> (hardLimitTimer (durationTimers (fst (run_schedule collab sched (s0, []))))
           = hardLimitTimer (durationTimers s0)
         \<or> not_pending (hardLimitTimer (durationTimers s0)) (fst (run_schedule collab sched (s0, []))))"
proof -
  define P where "P = (\<lambda>se :: VoiceSession \<times> EndCall list.
      length (effects s0) \<le> length (effects (fst se))
      \<and> nextHandle s0 \<le> nextHandle (fst se)
      \<and> (snd se \<noteq> [] \<longrightarrow> autoEndTimer (fst se) = None)
      \<and> (filter is_call_cost (new_effects s0 (fst se)) \<noteq> []
           \<longrightarrow> softLimitTimer (durationTimers (fst se)) = None
               \<and> hardLimitTimer (durationTimers (fst se)) = None)
      \<and> (autoEndTimer (fst se) = autoEndTimer s0 \<or> not_pending (autoEndTimer s0) (fst se))
      \<and> (softLimitTimer (durationTimers (fst se)) = softLimitTimer (durationTimers s0)
           \<or> not_pending (softLimitTimer (durationTimers s0)) (fst se))
      \<and> (hardLimitTimer (durationTimers (fst se)) = hardLimitTimer (durationTimers s0)
           \<or> not_pending (hardLimitTimer (durationTimers s0)) (fst se)))"
  from assms have fresh: "below_next (autoEndTimer s0) s0"
    "below_next (softLimitTimer (durationTimers s0)) s0"
    "below_next (hardLimitTimer (durationTimers s0)) s0"
    by (simp_all add: held_handles_fresh_def)
  have "P (run_schedule collab sched (s0, []))"
  proof (rule run_schedule_invariant)
    show "P (s0, [])" by (simp add: P_def)
  next
    fix se act
    assume p: "P se"
    obtain s ends where se: "se = (s, ends)" by (cases se) auto
    from p se have len: "length (effects s0) \<le> length (effects s)"
      and nh: "nextHandle s0 \<le> nextHandle s"
      and ae: "ends \<noteq> [] \<longrightarrow> autoEndTimer s = None"
      and c: "filter is_call_cost (new_effects s0 s) \<noteq> []
           \<longrightarrow> softLimitTimer (durationTimers s) = None
               \<and> hardLimitTimer (durationTimers s) = None"
      and h1: "autoEndTimer s = autoEndTimer s0 \<or> not_pending (autoEndTimer s0) s"
      and h2: "softLimitTimer (durationTimers s) = softLimitTimer (durationTimers s0)
           \<or> not_pending (softLimitTimer (durationTimers s0)) s"
      and h3: "hardLimitTimer (durationTimers s) = hardLimitTimer (durationTimers s0)
           \<or> not_pending (hardLimitTimer (durationTimers s0)) s"
      by (simp_all add: P_def)
    show "P (perform collab se act)"
    proof (cases rule: perform_shape [of act collab s ends])
      case (call t)
      define s' where "s' = snd (VoiceSession_end collab t s)"
      define ys where "ys = new_effects s s'"
      note f = VoiceSession_end_fields [of collab t s, folded s'_def]
      note y = VoiceSession_end_tally(3) [of s collab t, folded s'_def, folded ys_def]
      note v = VoiceSession_end_cancels [where collab = collab and t = t and s = s, folded s'_def]
      have e: "effects s' = effects s @ ys" using f(5) by (simp add: ys_def)
      have n: "new_effects s0 s' = new_effects s0 s @ ys" by (rule new_effects_trans [OF len e])
      have k1: "not_pending (autoEndTimer s0) s'"
        using h1 v(2) not_pending_kept [OF _ v(1)] by auto
      have k2: "softLimitTimer (durationTimers s') = softLimitTimer (durationTimers s0)
           \<or> not_pending (softLimitTimer (durationTimers s0)) s'"
        using h2 not_pending_kept [OF _ v(1)] by (auto simp add: f(9))
      have k3: "hardLimitTimer (durationTimers s') = hardLimitTimer (durationTimers s0)
           \<or> not_pending (hardLimitTimer (durationTimers s0)) s'"
        using h3 not_pending_kept [OF _ v(1)] by (auto simp add: f(9))
      have "P (s', ends @ [fst (VoiceSession_end collab t s)])"
        using len nh c e n y k1 k2 k3 f(7,9,11) by (simp add: P_def)
      with call se show ?thesis by (simp add: s'_def)
    next
      case (resume i)
      define a where "a = ends ! i"
      define s' where "s' = snd (handleEndSession_resume collab a s)"
      define ys where "ys = new_effects s s'"
      note f = resume_fields [of collab a s, folded s'_def]
      note sub = resume_timers_subset [where collab = collab and a = a and s = s, folded s'_def]
      have e: "effects s' = effects s @ ys" using f(3) by (simp add: ys_def)
      have n: "new_effects s0 s' = new_effects s0 s @ ys" by (rule new_effects_trans [OF len e])
      have k1: "autoEndTimer s' = autoEndTimer s0 \<or> not_pending (autoEndTimer s0) s'"
        using h1 not_pending_kept [OF _ sub] by (auto simp add: f(4))
      from resume(2) have ne: "ends \<noteq> []" by auto
      have "P (s', ends[i := fst (handleEndSession_resume collab a s)])"
      proof (cases "stage a = AwaitingRecording")
        case True
        have s': "s' = snd (end_finish a s)" by (simp add: s'_def resume_finish [OF True])
        note x = end_finish_cancels(3,4) [where a = a and s = s, folded s']
        note z = end_finish_fields(5,6) [where a = a and s = s, folded s']
        have k2: "not_pending (softLimitTimer (durationTimers s0)) s'"
          using h2 x(1) not_pending_kept [OF _ sub] by auto
        have k3: "not_pending (hardLimitTimer (durationTimers s0)) s'"
          using h3 x(2) not_pending_kept [OF _ sub] by auto
        show ?thesis using len nh ae ne e k1 k2 k3 z f(4,6) by (simp add: P_def)
      next
        case False
        note r = resume_resources [OF False, where collab = collab and s = s, folded s'_def, folded ys_def]
        have k2: "softLimitTimer (durationTimers s') = softLimitTimer (durationTimers s0)
           \<or> not_pending (softLimitTimer (durationTimers s0)) s'"
          using h2 not_pending_kept [OF _ sub] by (auto simp add: r(2))
        have k3: "hardLimitTimer (durationTimers s') = hardLimitTimer (durationTimers s0)
           \<or> not_pending (hardLimitTimer (durationTimers s0)) s'"
          using h3 not_pending_kept [OF _ sub] by (auto simp add: r(2))
        show ?thesis using len nh ae ne c e n k1 k2 k3 r(2,5) f(4,6) by (simp add: P_def)
      qed
      with resume se show ?thesis by (simp add: s'_def a_def)
    next
      case (fragment t transcript isFinal)
      define s' where "s' = handleTranscript t transcript isFinal s"
      note f = handleTranscript_rest [where t = t and transcript = transcript and isFinal = isFinal and s = s, folded s'_def]
      have n: "new_effects s0 s' = new_effects s0 s" by (simp add: new_effects_def f(1))
      have k1: "autoEndTimer s' = autoEndTimer s0 \<or> not_pending (autoEndTimer s0) s'"
        using h1 not_pending_fragment [OF _ fresh(1) nh, where t = t and transcript = transcript and isFinal = isFinal]
        by (auto simp add: handleTranscript_rest s'_def)
      have k2: "softLimitTimer (durationTimers s') = softLimitTimer (durationTimers s0)
           \<or> not_pending (softLimitTimer (durationTimers s0)) s'"
        using h2 not_pending_fragment [OF _ fresh(2) nh, where t = t and transcript = transcript and isFinal = isFinal]
        by (auto simp add: handleTranscript_rest s'_def)
      have k3: "hardLimitTimer (durationTimers s') = hardLimitTimer (durationTimers s0)
           \<or> not_pending (hardLimitTimer (durationTimers s0)) s'"
        using h3 not_pending_fragment [OF _ fresh(3) nh, where t = t and transcript = transcript and isFinal = isFinal]
        by (auto simp add: handleTranscript_rest s'_def)
      have "P (s', ends)"
        using len nh ae c n k1 k2 k3 f(1,3,4,11) by (simp add: P_def)
      with fragment se show ?thesis by (simp add: s'_def)
    next
      case idle
      with p se show ?thesis by simp
    qed
  qed
  then show ?thesis by (simp add: P_def)
qed

lemma schedule_calls:
  "length (snd (run_schedule collab sched (s, ends))) = length ends + length (filter is_call sched)"
proof (induction sched rule: rev_induct)
  case Nil
  show ?case by (simp add: run_schedule_def)
next
  case (snoc act sched)
  obtain s1 ends1 where r: "run_schedule collab sched (s, ends) = (s1, ends1)"
    by (cases "run_schedule collab sched (s, ends)") auto
  with snoc have l: "length ends1 = length ends + length (filter is_call sched)" by simp
  show ?case
    by (cases rule: perform_shape [of act collab s1 ends1])
       (auto simp add: run_schedule_snoc r l)
qed

lemma quiet_tail_snoc:
  "quiet_tail (sched @ [act]) \<longleftrightarrow> is_call act \<or> (quiet_tail sched \<and> \<not> rearms act)"
  by (auto simp add: quiet_tail_def after_last_call_def list_ex_iff)

lemma sum_list_const:
  assumes "list_all (\<lambda>a. w a = k) xs"
  shows "sum_list (map w xs) = length xs * (k::nat)"
  using assms by (induction xs) simp_all

text \<open>
  The call of \<^verbatim>\<open>end()\<close> made last holds the handle the session holds for the silence
  timer, as long as no fragment has armed the timer again; once that call has ended, no
  timer with this handle is pending.
\<close>

lemma schedule_silence:
  assumes "quiet_tail sched" and "snd (run_schedule collab sched (s0, [])) \<noteq> []"
  shows "ctx_silenceTimer (last (snd (run_schedule collab sched (s0, []))))
           = silenceTimer (fst (run_schedule collab sched (s0, [])))"
    and "stage (last (snd (run_schedule collab sched (s0, [])))) = Ended
           \<Longrightarrow> silence_cancelled (fst (run_schedule collab sched (s0, [])))"
proof -
  have "quiet_tail sched \<longrightarrow> snd (run_schedule collab sched (s0, [])) \<noteq> [] \<longrightarrow>
      ctx_silenceTimer (last (snd (run_schedule collab sched (s0, []))))
           = silenceTimer (fst (run_schedule collab sched (s0, [])))
      \<and> (stage (last (snd (run_schedule collab sched (s0, [])))) = Ended
           \<longrightarrow> silence_cancelled (fst (run_schedule collab sched (s0, []))))"
  proof (induction sched rule: rev_induct)
    case Nil
    show ?case by (simp add: run_schedule_def)
  next
    case (snoc act sched)
    obtain s ends where r: "run_schedule collab sched (s0, []) = (s, ends)"
      by (cases "run_schedule collab sched (s0, [])") auto
    note ih = snoc [unfolded r, simplified]
    show ?case
    proof (cases rule: perform_shape [of act collab s ends])
      case (call t)
      define s' where "s' = snd (VoiceSession_end collab t s)"
      define a' where "a' = fst (VoiceSession_end collab t s)"
      note f = VoiceSession_end_fields [where collab = collab and t = t and s = s,
          folded s'_def a'_def]
      from f(4) have "stage a' \<noteq> Ended" by auto
      with f(1,10) call show ?thesis
        by (simp add: run_schedule_snoc r s'_def [symmetric] a'_def [symmetric])
    next
      case (resume i)
      define a where "a = ends ! i"
      define s' where "s' = snd (handleEndSession_resume collab a s)"
      define a' where "a' = fst (handleEndSession_resume collab a s)"
      note f = resume_fields [where collab = collab and a = a and s = s, folded s'_def a'_def]
      note sub = resume_timers_subset [where collab = collab and a = a and s = s, folded s'_def]
      from resume(2) have ne: "ends \<noteq> []" by auto
      have run: "run_schedule collab (sched @ [act]) (s0, []) = (s', ends[i := a'])"
        using resume by (simp add: run_schedule_snoc r s'_def a'_def a_def)
      have "ctx_silenceTimer (last (ends[i := a'])) = silenceTimer s'
          \<and> (stage (last (ends[i := a'])) = Ended \<longrightarrow> silence_cancelled s')"
        if q: "quiet_tail sched"
      proof -
        from ih q ne have c: "ctx_silenceTimer (last ends) = silenceTimer s"
          and e: "stage (last ends) = Ended \<longrightarrow> silence_cancelled s" by simp_all
        show ?thesis
        proof (cases "i = length ends - 1")
          case True
          with ne have la: "last ends = a" by (simp add: a_def last_conv_nth)
          from True ne resume(2) have l: "last (ends[i := a']) = a'"
            by (simp add: last_conv_nth)
          have "silence_cancelled s'" if en: "stage a' = Ended"
          proof (cases "stage a = AwaitingRecording")
            case True
            have "not_pending (ctx_silenceTimer a) s'"
              by (simp add: s'_def resume_finish [OF True] end_finish_cancels(2))
            with c la f(5) show ?thesis by (simp add: silence_cancelled_def)
          next
            case False
            from resume_resources(4) [OF False, where collab = collab and s = s] en
            have "stage a = Ended" by (simp add: a'_def)
            with e la have "not_pending (silenceTimer s) s" by (simp add: silence_cancelled_def)
            from not_pending_kept [OF this sub] f(5) show ?thesis
              by (simp add: silence_cancelled_def)
          qed
          with l c la f(1,5) show ?thesis by simp
        next
          case False
          with ne resume(2) have l: "last (ends[i := a']) = last ends"
            by (simp add: last_conv_nth)
          have "silence_cancelled s'" if "stage (last ends) = Ended"
          proof -
            from e that have "not_pending (silenceTimer s) s" by (simp add: silence_cancelled_def)
            from not_pending_kept [OF this sub] f(5) show ?thesis
              by (simp add: silence_cancelled_def)
          qed
          with l c f(5) show ?thesis by simp
        qed
      qed
      with resume(1) show ?thesis by (simp add: run [unfolded resume(1)] quiet_tail_snoc)
    next
      case (fragment t transcript isFinal)
      with ih show ?thesis
        by (auto simp add: run_schedule_snoc r quiet_tail_snoc handleTranscript_blank)
    next
      case (idle i)
      with ih show ?thesis
        by (auto simp add: run_schedule_snoc r quiet_tail_snoc)
    qed
  qed
  with assms show "ctx_silenceTimer (last (snd (run_schedule collab sched (s0, []))))
           = silenceTimer (fst (run_schedule collab sched (s0, [])))"
    and "stage (last (snd (run_schedule collab sched (s0, [])))) = Ended
           \<Longrightarrow> silence_cancelled (fst (run_schedule collab sched (s0, [])))"
    by simp_all
qed

text \<open>
  Claim C7, amended. Let \<^verbatim>\<open>end()\<close> be called on a session once or more, each call at
  any moment, also while earlier calls are suspended at an \<^verbatim>\<open>await\<close>, with fragments
  arriving in between, and let every call have run to its end. Then the resources are
  released exactly once: each audio adapter the session held open has been closed once
  and none is open, the auto-end timer and the duration timers are cancelled, and so is
  the silence timer if no fragment has armed it again after the last call of \<^verbatim>\<open>end()\<close>.
  The side effects are performed once for each call: the call cost is tracked, the
  recording is ended, and the SMS of the media request are sent as many times as
  \<^verbatim>\<open>end()\<close> was called.
\<close>

theorem C7_ends_in_flight:
  assumes "held_handles_fresh s"
    and "list_ex is_call sched"
    and "list_all (\<lambda>a. stage a = Ended) (snd (run_schedule collab sched (s, [])))"
  shows "adapters_closed_once s (fst (run_schedule collab sched (s, [])))
       \<and> timers_cancelled s (fst (run_schedule collab sched (s, [])))
       \<and> (quiet_tail sched \<longrightarrow> silence_cancelled (fst (run_schedule collab sched (s, []))))
       \<and> length (filter is_call_cost (new_effects s (fst (run_schedule collab sched (s, [])))))
           = length (filter is_call sched)
       \<and> count_list (new_effects s (fst (run_schedule collab sched (s, [])))) EndRecording
           = (if callRecordId s = None then 0 else length (filter is_call sched))
       \<and> length (filter is_sms (new_effects s (fst (run_schedule collab sched (s, [])))))
           = length (filter is_call sched) * sms_per_call collab s"
proof -
  define s' where "s' = fst (run_schedule collab sched (s, []))"
  define ends where "ends = snd (run_schedule collab sched (s, []))"
  have n: "length ends = length (filter is_call sched)"
    using schedule_calls [of collab sched s "[]"] by (simp add: ends_def)
  from assms(2) have "filter is_call sched \<noteq> []"
    by (auto simp add: list_ex_iff filter_empty_conv)
  with n have ne: "ends \<noteq> []" by auto
  from assms(3) have en: "list_all (\<lambda>a. stage a = Ended) ends" by (simp add: ends_def)
  note t = schedule_tally [where ?s0.0 = s and collab = collab and sched = sched,
      folded s'_def ends_def]
  have paid: "length (filter is_call_cost (new_effects s s')) = length ends"
    using t(1) sum_list_const [where w = "\<lambda>a. if stage a = Ended then 1 else 0" and k = 1
        and xs = ends] en
    by (simp add: list_all_iff)
  have recorded: "count_list (new_effects s s') EndRecording
      = (if callRecordId s = None then 0 else length ends)"
    using t(2) sum_list_const [where w = "\<lambda>a. if callRecordId s \<noteq> None
          \<and> stage a \<in> {AwaitingRecording, Ended} then 1 else 0"
        and k = "if callRecordId s = None then 0 else 1" and xs = ends] en
    by (simp add: list_all_iff)
  have asked: "length (filter is_sms (new_effects s s')) = length ends * sms_per_call collab s"
    using t(3) sum_list_const [where w = "\<lambda>a. if stage a = AwaitingUnverified then 0
          else sms_per_call collab s" and k = "sms_per_call collab s" and xs = ends] en
    by (simp add: list_all_iff)
  from paid ne have cost: "filter is_call_cost (new_effects s s') \<noteq> []" by auto
  have closed: "adapters_closed_once s s'"
    using schedule_audio [where ?s0.0 = s and collab = collab and sched = sched,
        folded s'_def] cost
    by (auto simp add: adapters_closed_once_def split: option.splits if_splits)
  have cancelled: "timers_cancelled s s'"
    using schedule_timers [OF assms(1), where collab = collab and sched = sched,
        folded s'_def ends_def] cost ne
    by (auto simp add: timers_cancelled_def)
  have silence: "silence_cancelled s'" if "quiet_tail sched"
  proof -
    from ne en have "stage (last ends) = Ended" by (simp add: list_all_iff)
    with schedule_silence(2) [OF that, where collab = collab and ?s0.0 = s,
        folded s'_def ends_def] ne
    show ?thesis by simp
  qed
  from closed cancelled silence paid recorded asked n show ?thesis
    by (simp add: s'_def [symmetric])
qed

theorem C7_ends_in_flight_witness:
  "held_handles_fresh leak_session \<and> list_ex is_call two_ends
   \<and> list_all (\<lambda>a. stage a = Ended)
        (snd (run_schedule plain_collaborators two_ends (leak_session, [])))
   \<and> quiet_tail two_ends
   \<and> adapters_closed_once leak_session
        (fst (run_schedule plain_collaborators two_ends (leak_session, [])))
   \<and> timers_cancelled leak_session
        (fst (run_schedule plain_collaborators two_ends (leak_session, [])))
   \<and> silence_cancelled (fst (run_schedule plain_collaborators two_ends (leak_session, [])))
   \<and> length (filter is_call_cost (new_effects leak_session
        (fst (run_schedule plain_collaborators two_ends (leak_session, []))))) = 2
   \<and> count_list (new_effects leak_session
        (fst (run_schedule plain_collaborators two_ends (leak_session, [])))) EndRecording = 2
   \<and> length (filter is_sms (new_effects leak_session
        (fst (run_schedule plain_collaborators two_ends (leak_session, []))))) = 2"
proof -
  have h: "held_handles_fresh leak_session" by code_simp
  have c: "list_ex is_call two_ends" by code_simp
  have e: "list_all (\<lambda>a. stage a = Ended)
        (snd (run_schedule plain_collaborators two_ends (leak_session, [])))" by code_simp
  have q: "quiet_tail two_ends" by code_simp
  have n: "length (filter is_call two_ends) = 2" by code_simp
  have r: "callRecordId leak_session \<noteq> None" by code_simp
  have k: "sms_per_call plain_collaborators leak_session = 1" by code_simp
  from C7_ends_in_flight [where s = leak_session and sched = two_ends
         and collab = plain_collaborators, OF h c e] h c e q n r k
  show ?thesis by simp
qed

text \<open>
  Claim C7, as stated, fails. Of two calls of \<^verbatim>\<open>end()\<close>, the second made while the
  first is suspended, each tracks the call cost, creates an unverified request and sends
  the SMS of the media request: what one call does once is done twice.
\<close>

theorem C7_end_twice_counterexample:
  "length (filter is_call_cost (new_effects leak_session
      (fst (run_schedule plain_collaborators one_end (leak_session, []))))) = 1
   \<and> length (filter is_call_cost (new_effects leak_session
      (fst (run_schedule plain_collaborators two_ends (leak_session, []))))) = 2
   \<and> count_list (new_effects leak_session
      (fst (run_schedule plain_collaborators one_end (leak_session, [])))) CreateUnverifiedRequest = 1
   \<and> count_list (new_effects leak_session
      (fst (run_schedule plain_collaborators two_ends (leak_session, [])))) CreateUnverifiedRequest = 2
   \<and> length (filter is_sms (new_effects leak_session
      (fst (run_schedule plain_collaborators one_end (leak_session, []))))) = 1
   \<and> length (filter is_sms (new_effects leak_session
      (fst (run_schedule plain_collaborators two_ends (leak_session, []))))) = 2"
  by code_simp

text \<open>
  Left out of the amended claim: a fragment that arrives while a call of \<^verbatim>\<open>end()\<close> is
  suspended arms a new silence timer, and the call, which cancels the timer whose handle
  it copied when it was made, leaves the new one pending.
\<close>

lemma fragment_in_flight_pending:
  "list_all (\<lambda>a. stage a = Ended)
     (snd (run_schedule plain_collaborators fragment_in_flight (leak_session, [])))
   \<and> \<not> quiet_tail fragment_in_flight
   \<and> timers (fst (run_schedule plain_collaborators fragment_in_flight (leak_session, [])))
       = [\<lparr>handle = 2, due = 61850, action = SilenceElapsed\<rparr>]
   \<and> silenceTimer (fst (run_schedule plain_collaborators fragment_in_flight (leak_session, [])))
       = Some 2
   \<and> \<not> silence_cancelled
         (fst (run_schedule plain_collaborators fragment_in_flight (leak_session, [])))"
  by code_simp

end
